theory Spec2Isabelle
  imports Complex_Main "HOL-Library.Word"
begin

section \<open>Conventions of the embedding\<close>

text \<open>
  The development embeds \<^verbatim>\<open>gdal/ogr/ogrsf_frmts/sqlite/rasterlite2.cpp\<close>.

  \<^item> A C++ \<^verbatim>\<open>double\<close> is a \<^typ>\<open>real\<close>: arithmetic is exact. Every concrete input used
    below is a small dyadic number on which the IEEE operations of the source are exact as
    well, so each evaluation is also the evaluation of the compiled code. A division by
    zero is \<open>0\<close> here and an infinity or a NaN in the source; a statement whose truth
    would depend on one excludes it by a hypothesis.
  \<^item> A C++ \<^verbatim>\<open>int\<close>, \<^verbatim>\<open>GIntBig\<close> or \<^verbatim>\<open>unsigned char\<close> count is an \<^typ>\<open>int\<close> or a
    \<^typ>\<open>nat\<close>; where the source multiplies \<^verbatim>\<open>int\<close>s the 32-bit wrap-around is written
    out (\<open>wrap32\<close>).
  \<^item> A byte of a pixel buffer is an \<^typ>\<open>8 word\<close>.
  \<^item> A \<^verbatim>\<open>char*\<close> that may be \<^verbatim>\<open>NULL\<close> is a \<^typ>\<open>string option\<close>; a string list
    queried by \<^verbatim>\<open>CSLFetchNameValue\<close> is the partial map it denotes.
  \<^item> Calls into librasterlite2, SQLite and the GDAL core are not part of the file: their
    results are fields of an environment record, one field per call site.
\<close>

type_synonym byte = "8 word"

text \<open>Modelled from the spec: the enumerations of cpl_error.h, gdal.h and rasterlite2.h are
  declared outside the file. Each is the datatype of the members that the file names, which
  are the sample types, pixel types and compression codes of section 4.2 and the data types
  and color interpretations of section 3; \<open>GCI_Code n\<close> stands for the color
  interpretations above \<^verbatim>\<open>GCI_AlphaBand\<close> (= 6), which only the arithmetic of line 969 can
  reach.\<close>

datatype CPLErr = CE_None | CE_Failure

datatype GDALDataType =
    GDT_Unknown | GDT_Byte | GDT_UInt16 | GDT_Int16 | GDT_UInt32 | GDT_Int32
  | GDT_Float32 | GDT_Float64 | GDT_CInt16 | GDT_CInt32 | GDT_CFloat32 | GDT_CFloat64

datatype GDALColorInterp =
    GCI_Undefined | GCI_GrayIndex | GCI_PaletteIndex | GCI_RedBand | GCI_GreenBand
  | GCI_BlueBand | GCI_AlphaBand | GCI_Code int

datatype rl2_sample =
    RL2_SAMPLE_UNKNOWN | RL2_SAMPLE_1_BIT | RL2_SAMPLE_2_BIT | RL2_SAMPLE_4_BIT
  | RL2_SAMPLE_INT8 | RL2_SAMPLE_UINT8 | RL2_SAMPLE_INT16 | RL2_SAMPLE_UINT16
  | RL2_SAMPLE_INT32 | RL2_SAMPLE_UINT32 | RL2_SAMPLE_FLOAT | RL2_SAMPLE_DOUBLE

datatype rl2_pixel =
    RL2_PIXEL_UNKNOWN | RL2_PIXEL_MONOCHROME | RL2_PIXEL_PALETTE | RL2_PIXEL_GRAYSCALE
  | RL2_PIXEL_RGB | RL2_PIXEL_MULTIBAND | RL2_PIXEL_DATAGRID

datatype rl2_compression =
    RL2_COMPRESSION_UNKNOWN | RL2_COMPRESSION_NONE
  | RL2_COMPRESSION_DEFLATE | RL2_COMPRESSION_DEFLATE_NO
  | RL2_COMPRESSION_LZMA | RL2_COMPRESSION_LZMA_NO
  | RL2_COMPRESSION_GIF | RL2_COMPRESSION_JPEG | RL2_COMPRESSION_PNG
  | RL2_COMPRESSION_LOSSY_WEBP | RL2_COMPRESSION_LOSSLESS_WEBP
  | RL2_COMPRESSION_CCITTFAX3 | RL2_COMPRESSION_CCITTFAX4 | RL2_COMPRESSION_LZW
  | RL2_COMPRESSION_CHARLS | RL2_COMPRESSION_LOSSY_JP2 | RL2_COMPRESSION_LOSSLESS_JP2

text \<open>\<^verbatim>\<open>INT_MAX\<close> of a 32-bit \<^verbatim>\<open>int\<close>.\<close>

definition INT_MAX :: int where
  "INT_MAX = 2147483647"

text \<open>\<^verbatim>\<open>static_cast<int>(double)\<close>: truncation towards zero (undefined in C++ when the
  value does not fit; the open path checks the range before it casts).\<close>

definition cast_int :: "real \<Rightarrow> int" where
  "cast_int x = (if 0 \<le> x then \<lfloor>x\<rfloor> else \<lceil>x\<rceil>)"

text \<open>Two's-complement wrap-around of a 32-bit \<^verbatim>\<open>int\<close>.\<close>

definition wrap32 :: "int \<Rightarrow> int" where
  "wrap32 x = (x + 2147483648) mod 4294967296 - 2147483648"

definition mul32 :: "int \<Rightarrow> int \<Rightarrow> int" where
  "mul32 a b = wrap32 (a * b)"

subsection \<open>Strings\<close>

text \<open>\<^verbatim>\<open>toupper\<close> in the C locale: a letter \<open>a\<close> to \<open>z\<close> (codes 97 to 122) loses bit 5.\<close>

definition toupper_c :: "char \<Rightarrow> char" where
  "toupper_c c =
     (if 97 \<le> (of_char c :: nat) \<and> (of_char c :: nat) \<le> 122
      then (case c of Char b0 b1 b2 b3 b4 b5 b6 b7 \<Rightarrow> Char b0 b1 b2 b3 b4 False b6 b7)
      else c)"

text \<open>Modelled from the spec: the \<^verbatim>\<open>EQUAL\<close> and \<^verbatim>\<open>STARTS_WITH_CI\<close> macros are defined in
  cpl_port.h, outside the file. They compare the option values and the scheme prefix of
  section 6 without regard to the case of ASCII letters.\<close>

definition EQUAL :: "string \<Rightarrow> string \<Rightarrow> bool" where
  "EQUAL a b = (map toupper_c a = map toupper_c b)"

definition STARTS_WITH_CI :: "string \<Rightarrow> string \<Rightarrow> bool" where
  "STARTS_WITH_CI a b = (length b \<le> length a \<and> EQUAL (take (length b) a) b)"

definition digit_char :: "nat \<Rightarrow> char" where
  "digit_char d = char_of (48 + d)"

fun fmt_nat :: "nat \<Rightarrow> string" where
  "fmt_nat n = (if n < 10 then [digit_char n] else fmt_nat (n div 10) @ [digit_char (n mod 10)])"

declare fmt_nat.simps [simp del]

text \<open>\<^verbatim>\<open>CPLSPrintf("%d", n)\<close>: the decimal digits of \<open>n\<close>, after a minus sign when it is
  negative.\<close>

definition fmt_d :: "int \<Rightarrow> string" where
  "fmt_d i = (if i < 0 then CHR ''-'' # fmt_nat (nat (- i)) else fmt_nat (nat i))"

section \<open>The ingestion pipeline: OGRSQLiteDriverCreateCopy\<close>

text \<open>What \<^verbatim>\<open>CreateCopy\<close> reads of the source dataset. \<open>GetGeoTransform\<close> is the error
  code together with the six coefficients left in the caller's array.\<close>

record GDALSourceDataset =
  GetRasterCount :: nat
  GetGeoTransform :: "CPLErr \<times> (nat \<Rightarrow> real)"
  GetRasterDataType :: "int \<Rightarrow> GDALDataType"
  GetColorInterpretation :: "int \<Rightarrow> GDALColorInterp"
  GetRasterXSize :: int
  GetRasterYSize :: int
  GetProjectionRef :: "string option"

text \<open>Lines 1507-1541: the pixel type, from the \<^verbatim>\<open>PIXEL_TYPE\<close> option or inferred.\<close>

definition CreateCopy_pixel_type ::
  "(string \<rightharpoonup> string) \<Rightarrow> GDALSourceDataset \<Rightarrow> GDALDataType \<Rightarrow> nat \<Rightarrow> rl2_pixel" where
  "CreateCopy_pixel_type papszOptions poSrcDS eDT nBandCount =
     (case papszOptions ''PIXEL_TYPE'' of
        Some pszPixelType \<Rightarrow>
          if EQUAL pszPixelType ''GRAYSCALE'' then RL2_PIXEL_GRAYSCALE
          else if EQUAL pszPixelType ''RGB'' then RL2_PIXEL_RGB
          else if EQUAL pszPixelType ''MULTIBAND'' then RL2_PIXEL_MULTIBAND
          else if EQUAL pszPixelType ''DATAGRID'' then RL2_PIXEL_DATAGRID
          else RL2_PIXEL_GRAYSCALE
      | None \<Rightarrow>
          if nBandCount = 3 \<and> (eDT = GDT_Byte \<or> eDT = GDT_UInt16) \<and>
             GetColorInterpretation poSrcDS 1 = GCI_RedBand \<and>
             GetColorInterpretation poSrcDS 2 = GCI_GreenBand \<and>
             GetColorInterpretation poSrcDS 3 = GCI_BlueBand
          then RL2_PIXEL_RGB
          else if nBandCount > 1 \<and> (eDT = GDT_Byte \<or> eDT = GDT_UInt16) then RL2_PIXEL_MULTIBAND
          else if nBandCount = 1 then RL2_PIXEL_DATAGRID
          else RL2_PIXEL_GRAYSCALE)"

text \<open>Lines 1543-1559: the sample type of the source data type; \<open>None\<close> is the
  "Unsupported data type" failure.\<close>

definition CreateCopy_sample_type :: "GDALDataType \<Rightarrow> rl2_sample option" where
  "CreateCopy_sample_type eDT =
     (if eDT = GDT_UInt16 then Some RL2_SAMPLE_UINT16
      else if eDT = GDT_Int16 then Some RL2_SAMPLE_INT16
      else if eDT = GDT_UInt32 then Some RL2_SAMPLE_UINT32
      else if eDT = GDT_Int32 then Some RL2_SAMPLE_INT32
      else if eDT = GDT_Float32 then Some RL2_SAMPLE_FLOAT
      else if eDT = GDT_Float64 then Some RL2_SAMPLE_DOUBLE
      else if eDT \<noteq> GDT_Byte then None
      else Some RL2_SAMPLE_UINT8)"

text \<open>Lines 1561-1593: compression code and default quality from the \<^verbatim>\<open>COMPRESS\<close> option.\<close>

definition CreateCopy_compression :: "(string \<rightharpoonup> string) \<Rightarrow> rl2_compression \<times> int" where
  "CreateCopy_compression papszOptions =
     (case papszOptions ''COMPRESS'' of
        None \<Rightarrow> (RL2_COMPRESSION_NONE, 100)
      | Some pszCompression \<Rightarrow>
          if EQUAL pszCompression ''NONE'' then (RL2_COMPRESSION_NONE, 100)
          else if EQUAL pszCompression ''DEFLATE'' then (RL2_COMPRESSION_DEFLATE, 100)
          else if EQUAL pszCompression ''LZMA'' then (RL2_COMPRESSION_LZMA, 100)
          else if EQUAL pszCompression ''PNG'' then (RL2_COMPRESSION_PNG, 100)
          else if EQUAL pszCompression ''CCITTFAX4'' then (RL2_COMPRESSION_CCITTFAX4, 100)
          else if EQUAL pszCompression ''JPEG'' then (RL2_COMPRESSION_JPEG, 75)
          else if EQUAL pszCompression ''WEBP'' then (RL2_COMPRESSION_LOSSY_WEBP, 75)
          else if EQUAL pszCompression ''CHARLS'' then (RL2_COMPRESSION_CHARLS, 100)
          else if EQUAL pszCompression ''JPEG2000'' then (RL2_COMPRESSION_LOSSY_JP2, 20)
          else (RL2_COMPRESSION_NONE, 100))"

text \<open>Lines 1595-1603: an explicit \<^verbatim>\<open>QUALITY\<close> replaces the default, and quality 100
  turns the lossy JPEG2000 and WEBP codes into their lossless variants. \<open>atoi\<close> is the C
  library's.\<close>

definition CreateCopy_quality ::
  "(string \<Rightarrow> int) \<Rightarrow> (string \<rightharpoonup> string) \<Rightarrow> rl2_compression \<times> int \<Rightarrow> rl2_compression \<times> int" where
  "CreateCopy_quality atoi papszOptions cq =
     (case papszOptions ''QUALITY'' of
        None \<Rightarrow> cq
      | Some pszQuality \<Rightarrow>
          (let nCompression = fst cq; nQuality = atoi pszQuality in
           if nQuality = 100 \<and> nCompression = RL2_COMPRESSION_LOSSY_JP2
             then (RL2_COMPRESSION_LOSSLESS_JP2, nQuality)
           else if nQuality = 100 \<and> nCompression = RL2_COMPRESSION_LOSSY_WEBP
             then (RL2_COMPRESSION_LOSSLESS_WEBP, nQuality)
           else (nCompression, nQuality)))"


subsection \<open>The default no-data pixel\<close>

record rl2PrivPixel =
  px_sample_type :: rl2_sample
  px_pixel_type :: rl2_pixel
  px_bands :: nat
  px_samples :: "real list"

text \<open>The \<^verbatim>\<open>rl2_set_pixel_sample_*\<close> setters: the sample of one band is replaced (a band
  that the pixel does not have is left alone).\<close>

definition rl2_set_pixel_sample :: "rl2PrivPixel \<Rightarrow> nat \<Rightarrow> real \<Rightarrow> rl2PrivPixel" where
  "rl2_set_pixel_sample pxl nb v = pxl\<lparr>px_samples := (px_samples pxl)[nb := v]\<rparr>"

text \<open>Lines 1247-1375. \<open>rl2_create_pixel\<close> is the library's constructor (\<open>None\<close> for
  \<^verbatim>\<open>NULL\<close>); \<^verbatim>\<open>CPLAssert(false)\<close> does nothing in a release build.\<close>

definition CreateDefaultNoData ::
  "(rl2_sample \<Rightarrow> rl2_pixel \<Rightarrow> nat \<Rightarrow> rl2PrivPixel option) \<Rightarrow>
   rl2_sample \<Rightarrow> rl2_pixel \<Rightarrow> nat \<Rightarrow> rl2PrivPixel option" where
  "CreateDefaultNoData rl2_create_pixel nSampleType nPixelType nBandCount =
     (case rl2_create_pixel nSampleType nPixelType nBandCount of
        None \<Rightarrow> None
      | Some pxl \<Rightarrow> Some
         (case nPixelType of
            RL2_PIXEL_MONOCHROME \<Rightarrow> rl2_set_pixel_sample pxl 0 0
          | RL2_PIXEL_PALETTE \<Rightarrow>
              (if nSampleType \<in> {RL2_SAMPLE_1_BIT, RL2_SAMPLE_2_BIT, RL2_SAMPLE_4_BIT,
                                  RL2_SAMPLE_UINT8}
               then rl2_set_pixel_sample pxl 0 0 else pxl)
          | RL2_PIXEL_GRAYSCALE \<Rightarrow>
              (case nSampleType of
                 RL2_SAMPLE_1_BIT \<Rightarrow> rl2_set_pixel_sample pxl 0 1
               | RL2_SAMPLE_2_BIT \<Rightarrow> rl2_set_pixel_sample pxl 0 3
               | RL2_SAMPLE_4_BIT \<Rightarrow> rl2_set_pixel_sample pxl 0 15
               | RL2_SAMPLE_UINT8 \<Rightarrow> rl2_set_pixel_sample pxl 0 255
               | RL2_SAMPLE_UINT16 \<Rightarrow> rl2_set_pixel_sample pxl 0 0
               | _ \<Rightarrow> pxl)
          | RL2_PIXEL_RGB \<Rightarrow>
              (case nSampleType of
                 RL2_SAMPLE_UINT8 \<Rightarrow>
                   rl2_set_pixel_sample (rl2_set_pixel_sample (rl2_set_pixel_sample pxl 0 255) 1 255) 2 255
               | RL2_SAMPLE_UINT16 \<Rightarrow>
                   rl2_set_pixel_sample (rl2_set_pixel_sample (rl2_set_pixel_sample pxl 0 0) 1 0) 2 0
               | _ \<Rightarrow> pxl)
          | RL2_PIXEL_DATAGRID \<Rightarrow>
              (if nSampleType \<in> {RL2_SAMPLE_INT8, RL2_SAMPLE_UINT8, RL2_SAMPLE_INT16,
                                  RL2_SAMPLE_UINT16, RL2_SAMPLE_INT32, RL2_SAMPLE_UINT32,
                                  RL2_SAMPLE_FLOAT, RL2_SAMPLE_DOUBLE}
               then rl2_set_pixel_sample pxl 0 0 else pxl)
          | RL2_PIXEL_MULTIBAND \<Rightarrow>
              (case nSampleType of
                 RL2_SAMPLE_UINT8 \<Rightarrow>
                   fold (\<lambda>nb p. rl2_set_pixel_sample p nb 255) [0..<nBandCount] pxl
               | RL2_SAMPLE_UINT16 \<Rightarrow>
                   fold (\<lambda>nb p. rl2_set_pixel_sample p nb 0) [0..<nBandCount] pxl
               | _ \<Rightarrow> pxl)
          | RL2_PIXEL_UNKNOWN \<Rightarrow> pxl))"

subsection \<open>The target store\<close>

text \<open>Every call of \<^verbatim>\<open>CreateCopy\<close> that touches the target store, in call order.\<close>

datatype store_event =
    Ev_Open string
  | Ev_Create string
  | Ev_FetchSRSId string
  | Ev_StartTransaction
  | Ev_CreateRasterCoveragesTable
  | Ev_create_dbms_coverage string rl2_sample rl2_pixel nat rl2_compression int int int
  | Ev_load_raw_tiles_into_dbms string string
  | Ev_CommitTransaction
  | Ev_Reopen string

text \<open>The results of the calls that leave the file: the C library's \<open>atoi\<close>,
  \<^verbatim>\<open>CPLGetBasename\<close>, \<^verbatim>\<open>OGRSQLiteEscapeName\<close>, the data source's \<^verbatim>\<open>Open\<close> and
  \<^verbatim>\<open>Create\<close>, \<^verbatim>\<open>importFromWkt\<close> followed by \<^verbatim>\<open>FetchSRSId\<close>, the row counts of the two
  registry queries, and the librasterlite2 calls.\<close>

record rl2_create_env =
  atoi :: "string \<Rightarrow> int"
  CPLGetBasename :: "string \<Rightarrow> string"
  cc_OGRSQLiteEscapeName :: "string \<Rightarrow> string"
  ds_Open :: "string \<Rightarrow> bool"
  ds_Create :: "string \<Rightarrow> bool"
  FetchSRSId_of_wkt :: "string \<Rightarrow> int option"
  raster_coverages_table_rows :: int
  CreateRasterCoveragesTable_ok :: bool
  coverage_name_rows :: "string \<Rightarrow> int"
  existing_coverage_from_dbms_ok :: "string \<Rightarrow> bool"
  rl2_create_pixel :: "rl2_sample \<Rightarrow> rl2_pixel \<Rightarrow> nat \<Rightarrow> rl2PrivPixel option"
  rl2_create_dbms_coverage_ok :: bool
  created_coverage_from_dbms_ok :: "string \<Rightarrow> bool"
  rl2_load_raw_tiles_into_dbms_ok :: bool

text \<open>Lines 43-48.\<close>

definition EscapeNameAndQuoteIfNeeded :: "(string \<Rightarrow> string) \<Rightarrow> string \<Rightarrow> string" where
  "EscapeNameAndQuoteIfNeeded escape pszName =
     (if CHR 0x22 \<notin> set pszName \<and> CHR '':'' \<notin> set pszName then pszName
      else [CHR 0x22] @ escape pszName @ [CHR 0x22])"

text \<open>Lines 1612-1831: everything after the options have been read.\<close>

definition CreateCopy_store ::
  "rl2_create_env \<Rightarrow> string \<Rightarrow> GDALSourceDataset \<Rightarrow> (string \<rightharpoonup> string) \<Rightarrow>
   rl2_sample \<Rightarrow> rl2_pixel \<Rightarrow> nat \<Rightarrow> rl2_compression \<Rightarrow> int \<Rightarrow> int \<Rightarrow> int \<Rightarrow>
   string option \<times> store_event list" where
  "CreateCopy_store env pszName poSrcDS papszOptions nSampleType nPixelType nBandCount
       nCompression nQuality nTileWidth nTileHeight =
     (let bAppend = (papszOptions ''APPEND_SUBDATASET'' \<noteq> None);
          ev1 = [if bAppend then Ev_Open pszName else Ev_Create pszName]
      in
      if \<not> (if bAppend then ds_Open env pszName else ds_Create env pszName) then (None, ev1)
      else
      let evSRS =
            (case papszOptions ''SRID'' of
               Some pszSRID \<Rightarrow> []
             | None \<Rightarrow>
                 (case GetProjectionRef poSrcDS of
                    None \<Rightarrow> []
                  | Some pszProjectionRef \<Rightarrow>
                      if EQUAL pszProjectionRef [] then []
                      else (case FetchSRSId_of_wkt env pszProjectionRef of
                              None \<Rightarrow> []
                            | Some _ \<Rightarrow> [Ev_FetchSRSId pszProjectionRef])));
          ev2 = ev1 @ evSRS @ [Ev_StartTransaction];
          bNoTable = (raster_coverages_table_rows env = 0)
      in
      if bNoTable \<and> \<not> CreateRasterCoveragesTable_ok env
        then (None, ev2 @ [Ev_CreateRasterCoveragesTable])
      else
      let ev3 = ev2 @ (if bNoTable then [Ev_CreateRasterCoveragesTable] else []);
          osCoverageName =
            (case papszOptions ''COVERAGE'' of
               Some c \<Rightarrow> c | None \<Rightarrow> CPLGetBasename env pszName);
          bExists = (coverage_name_rows env osCoverageName = 1)
      in
      if bExists \<and> \<not> existing_coverage_from_dbms_ok env osCoverageName then (None, ev3)
      else if \<not> bExists \<and>
              CreateDefaultNoData (rl2_create_pixel env) nSampleType nPixelType nBandCount = None
        then (None, ev3)
      else
      let evCreate = Ev_create_dbms_coverage osCoverageName nSampleType nPixelType nBandCount
                       nCompression nQuality nTileWidth nTileHeight
      in
      if \<not> bExists \<and> \<not> rl2_create_dbms_coverage_ok env then (None, ev3 @ [evCreate])
      else
      let ev4 = ev3 @ (if bExists then [] else [evCreate]) in
      if \<not> bExists \<and> \<not> created_coverage_from_dbms_ok env osCoverageName then (None, ev4)
      else
      let osSectionName =
            (case papszOptions ''SECTION'' of
               Some s \<Rightarrow> s | None \<Rightarrow> CPLGetBasename env pszName);
          ev5 = ev4 @ [Ev_load_raw_tiles_into_dbms osCoverageName osSectionName]
      in
      if \<not> rl2_load_raw_tiles_into_dbms_ok env then (None, ev5)
      else
      let conn = ''RASTERLITE2:'' @ EscapeNameAndQuoteIfNeeded (cc_OGRSQLiteEscapeName env) pszName
                   @ '':'' @ EscapeNameAndQuoteIfNeeded (cc_OGRSQLiteEscapeName env) osCoverageName
      in (Some conn, ev5 @ [Ev_CommitTransaction, Ev_Reopen conn]))"

text \<open>Lines 1473-1610: the three pre-flight checks, then the options. The result is the
  connection string of the dataset handed back (\<open>None\<close> for \<^verbatim>\<open>NULL\<close>) and the calls made
  on the target store. \<^verbatim>\<open>unsigned int nTileWidth = atoi(...)\<close> converts modulo \<open>2^32\<close>.\<close>

definition OGRSQLiteDriverCreateCopy ::
  "rl2_create_env \<Rightarrow> string \<Rightarrow> GDALSourceDataset \<Rightarrow> (string \<rightharpoonup> string) \<Rightarrow>
   string option \<times> store_event list" where
  "OGRSQLiteDriverCreateCopy env pszName poSrcDS papszOptions =
     (if GetRasterCount poSrcDS = 0 \<or> GetRasterCount poSrcDS > 255 then (None, [])
      else
      let adfGeoTransform = snd (GetGeoTransform poSrcDS) in
      if fst (GetGeoTransform poSrcDS) = CE_None \<and>
         (adfGeoTransform 2 \<noteq> 0 \<or> adfGeoTransform 4 \<noteq> 0) then (None, [])
      else if papszOptions ''APPEND_SUBDATASET'' \<noteq> None \<and> papszOptions ''COVERAGE'' = None
        then (None, [])
      else
      let eDT = GetRasterDataType poSrcDS 1;
          nBandCount = GetRasterCount poSrcDS;
          nPixelType = CreateCopy_pixel_type papszOptions poSrcDS eDT nBandCount
      in
      case CreateCopy_sample_type eDT of
        None \<Rightarrow> (None, [])
      | Some nSampleType \<Rightarrow>
          (let cq = CreateCopy_quality (atoi env) papszOptions
                      (CreateCopy_compression papszOptions);
               nTileWidth =
                 atoi env (case papszOptions ''BLOCKXSIZE'' of Some s \<Rightarrow> s | None \<Rightarrow> ''512'')
                   mod 4294967296;
               nTileHeight =
                 atoi env (case papszOptions ''BLOCKYSIZE'' of Some s \<Rightarrow> s | None \<Rightarrow> ''512'')
                   mod 4294967296
           in CreateCopy_store env pszName poSrcDS papszOptions nSampleType nPixelType
                nBandCount (fst cq) (snd cq) nTileWidth nTileHeight))"


section \<open>The data model of the read path\<close>

text \<open>Modelled from the spec: the metadata of a dataset or band is kept by
  \<^verbatim>\<open>GDALMajorObject\<close>, outside the file. It is the string key/value store of section 6,
  one value per domain and name; setting \<^verbatim>\<open>NULL\<close> removes the item. The default domain is
  the empty string.\<close>

type_synonym metadata = "(string \<times> string) \<rightharpoonup> string"

definition SetMetadataItem :: "metadata \<Rightarrow> string \<Rightarrow> string option \<Rightarrow> string \<Rightarrow> metadata" where
  "SetMetadataItem md pszName pszValue pszDomain = md((pszDomain, pszName) := pszValue)"

definition GetMetadataItem :: "metadata \<Rightarrow> string \<Rightarrow> string \<Rightarrow> string option" where
  "GetMetadataItem md pszName pszDomain = md (pszDomain, pszName)"

text \<open>A coverage handle of librasterlite2, by what its getters return:
  \<^verbatim>\<open>rl2_get_coverage_resolution\<close>, \<^verbatim>\<open>rl2_get_coverage_srid\<close> (\<open>None\<close> unless
  \<^verbatim>\<open>RL2_OK\<close>), \<^verbatim>\<open>rl2_get_coverage_type\<close>, \<^verbatim>\<open>rl2_get_coverage_compression\<close>,
  \<^verbatim>\<open>rl2_get_coverage_tile_size\<close>, \<^verbatim>\<open>rl2_get_coverage_no_data\<close> and the mixed-resolutions
  flag of \<^verbatim>\<open>rl2_get_coverage_policies\<close>.\<close>

record rl2PrivCoverage =
  cvg_resolution :: "real \<times> real"
  cvg_srid :: "int option"
  cvg_type :: "rl2_sample \<times> rl2_pixel \<times> nat"
  cvg_compression :: "rl2_compression \<times> int"
  cvg_tile_size :: "nat \<times> nat"
  cvg_no_data :: "rl2PrivPixel option"
  cvg_mixed_resolutions :: int

record RL2RasterBand =
  eDataType :: GDALDataType
  nBlockXSize :: int
  nBlockYSize :: int
  m_bHasNoData :: bool
  m_dfNoDataValue :: real
  m_eColorInterp :: GDALColorInterp
  band_metadata :: metadata

text \<open>The members of \<^verbatim>\<open>OGRSQLiteDataSource\<close> that the file uses. \<open>m_poParentDS\<close> is
  \<open>None\<close> for \<^verbatim>\<open>NULL\<close> and otherwise holds what the file reaches through the pointer,
  the parent's coverage handle. \<open>papoBands\<close> are the bands in \<^verbatim>\<open>SetBand\<close> order, so
  \<^verbatim>\<open>nBands\<close> is its length and band \<open>i\<close> is element \<open>i - 1\<close>.\<close>

record rl2_dataset =
  m_pszFilename :: string
  papszOpenOptions :: "string \<rightharpoonup> string"
  bIsInternal :: bool
  m_poParentDS :: "rl2PrivCoverage option option"
  m_osCoverageName :: string
  m_nSectionId :: int
  m_pRL2Coverage :: "rl2PrivCoverage option"
  m_bRL2MixedResolutions :: bool
  m_bPromote1BitAs8Bit :: bool
  nRasterXSize :: int
  nRasterYSize :: int
  m_bGeoTransformValid :: bool
  m_adfGeoTransform :: "nat \<Rightarrow> real"
  m_osProjection :: string
  papoBands :: "RL2RasterBand list"
  ds_metadata :: metadata

record OGRSQLiteDataSource = rl2_dataset +
  m_aosSubDatasets :: "(string \<times> string) list"
  m_apoOverviewDS :: "rl2_dataset list"

text \<open>One row of the \<^verbatim>\<open>_levels\<close> tables: the x and y resolution of the 1:1, 1:2, 1:4 and 1:8
  columns, each cell \<open>None\<close> for SQL \<^verbatim>\<open>NULL\<close> and otherwise its \<^verbatim>\<open>CPLAtof\<close> value.\<close>

type_synonym level_row =
  "(real option \<times> real option) \<times> (real option \<times> real option) \<times>
   (real option \<times> real option) \<times> (real option \<times> real option)"

text \<open>The store and the libraries as \<^verbatim>\<open>OpenRasterSubDataset\<close> sees them. A query is its
  \<^verbatim>\<open>rc == SQLITE_OK\<close> flag and its rows; numeric cells are given by their \<^verbatim>\<open>CPLAtof\<close>
  value. \<open>FetchSRS_wkt\<close> is \<^verbatim>\<open>FetchSRS\<close> followed by the export to WKT.
  \<open>new_OGRSQLiteDataSource\<close> is a default-constructed data source.\<close>

record rl2_dbms =
  CSLTokenizeString2 :: "string \<Rightarrow> string list"
  OGRSQLiteParamsUnquote :: "string \<Rightarrow> string"
  OGRSQLiteEscapeName :: "string \<Rightarrow> string"
  CPLAtoGIntBig :: "string \<Rightarrow> int"
  CPLTestBool :: "string \<Rightarrow> bool"
  CPLGetConfigOption :: "string \<rightharpoonup> string"
  GDALCheckBandCount :: "nat \<Rightarrow> bool"
  fmt_g :: "real \<Rightarrow> string"
  fmt_16g :: "real \<Rightarrow> string"
  new_OGRSQLiteDataSource :: rl2_dataset
  rl2_create_coverage_from_dbms :: "string \<Rightarrow> rl2PrivCoverage option"
  select_sections :: "string \<Rightarrow> bool \<times> (string option \<times> string option) list"
  rl2_resolve_base_resolution_from_dbms :: "string \<Rightarrow> int \<Rightarrow> (real \<times> real) option"
  rl2_resolve_full_section_from_dbms ::
    "string \<Rightarrow> int \<Rightarrow> real \<Rightarrow> real \<Rightarrow> bool \<times> (real \<times> real \<times> real \<times> real) \<times> (nat \<times> nat)"
  select_extent ::
    "string \<Rightarrow> bool \<times> (real option \<times> real option \<times> real option \<times> real option) list"
  FetchSRS_wkt :: "int \<Rightarrow> string option"
  rl2_create_raster_statistics_from_dbms ::
    "string \<Rightarrow> (nat \<Rightarrow> (real \<times> real \<times> real \<times> real \<times> real) option) option"
  select_title_abstract :: "string \<Rightarrow> bool \<times> (string option \<times> string option) list"
  select_summary :: "string \<Rightarrow> int \<Rightarrow> bool \<times> string option list"
  select_levels :: "string \<Rightarrow> bool \<times> level_row list"
  select_section_levels :: "string \<Rightarrow> int \<Rightarrow> bool \<times> level_row list"

section \<open>Bands\<close>

text \<open>Lines 926-972: the constructor used for the bands of an opened coverage.\<close>

definition new_RL2RasterBand ::
  "int \<Rightarrow> rl2_pixel \<Rightarrow> GDALDataType \<Rightarrow> int \<Rightarrow> bool \<Rightarrow> bool \<Rightarrow> int \<Rightarrow> int \<Rightarrow> bool \<Rightarrow> real \<Rightarrow>
   RL2RasterBand" where
  "new_RL2RasterBand nBandIn nPixelType eDT nBits bPromote1BitAs8Bit bSigned
       nBlockXSizeIn nBlockYSizeIn bHasNoDataIn dfNoDataValueIn =
     (let md1 =
            (if nBits mod 8 \<noteq> 0
             then SetMetadataItem Map.empty
                    (if nBits = 1 \<and> bPromote1BitAs8Bit then ''SOURCE_NBITS'' else ''NBITS'')
                    (Some (fmt_d nBits)) ''IMAGE_STRUCTURE''
             else Map.empty);
          md2 =
            (if nBits = 8 \<and> bSigned
             then SetMetadataItem md1 ''PIXELTYPE'' (Some ''SIGNEDBYTE'') ''IMAGE_STRUCTURE''
             else md1)
      in \<lparr> eDataType = eDT,
           nBlockXSize = nBlockXSizeIn,
           nBlockYSize = nBlockYSizeIn,
           m_bHasNoData = bHasNoDataIn,
           m_dfNoDataValue = dfNoDataValueIn,
           m_eColorInterp =
             (if nPixelType = RL2_PIXEL_MONOCHROME \<or> nPixelType = RL2_PIXEL_GRAYSCALE
                then GCI_GrayIndex
              else if nPixelType = RL2_PIXEL_PALETTE then GCI_PaletteIndex
              else if nPixelType = RL2_PIXEL_RGB
                then (if nBandIn = 1 then GCI_RedBand else if nBandIn = 2 then GCI_GreenBand
                      else if nBandIn = 3 then GCI_BlueBand else if nBandIn = 4 then GCI_AlphaBand
                      else GCI_Code (3 + nBandIn - 1))
              else GCI_Undefined),
           band_metadata = md2 \<rparr>)"

text \<open>Lines 978-995: the constructor used for the bands of an overview.\<close>

definition copy_RL2RasterBand :: "RL2RasterBand \<Rightarrow> RL2RasterBand" where
  "copy_RL2RasterBand poOther =
     \<lparr> eDataType = eDataType poOther,
       nBlockXSize = nBlockXSize poOther,
       nBlockYSize = nBlockYSize poOther,
       m_bHasNoData = m_bHasNoData poOther,
       m_dfNoDataValue = m_dfNoDataValue poOther,
       m_eColorInterp = m_eColorInterp poOther,
       band_metadata =
         SetMetadataItem
           (SetMetadataItem Map.empty ''NBITS''
              (GetMetadataItem (band_metadata poOther) ''NBITS'' ''IMAGE_STRUCTURE'')
              ''IMAGE_STRUCTURE'')
           ''PIXELTYPE''
           (GetMetadataItem (band_metadata poOther) ''PIXELTYPE'' ''IMAGE_STRUCTURE'')
           ''IMAGE_STRUCTURE'' \<rparr>"

text \<open>Lines 1082-1091. \<open>pam\<close> is what \<^verbatim>\<open>GDALPamRasterBand::GetNoDataValue\<close> answers; the
  result is the success flag and the value.\<close>

definition GetNoDataValue :: "RL2RasterBand \<Rightarrow> bool \<times> real \<Rightarrow> bool \<times> real" where
  "GetNoDataValue band pam = (if m_bHasNoData band then (True, m_dfNoDataValue band) else pam)"

section \<open>The overview chain: CreateRL2OverviewDatasetIfNeeded\<close>

text \<open>The two comparisons of lines 877 and 882: \<open>x\<close> is taken for the resolution \<open>r\<close>
  already present.\<close>

definition same_resolution :: "real \<Rightarrow> real \<Rightarrow> bool" where
  "same_resolution x r = (\<bar>x - r\<bar> < 1 / 100000 * r)"

text \<open>Lines 874-920.\<close>

definition CreateRL2OverviewDatasetIfNeeded ::
  "rl2_dbms \<Rightarrow> OGRSQLiteDataSource \<Rightarrow> real \<Rightarrow> real \<Rightarrow> OGRSQLiteDataSource" where
  "CreateRL2OverviewDatasetIfNeeded env this dfXRes dfYRes =
     (if same_resolution dfXRes (m_adfGeoTransform this 1) then this
      else if list_ex (\<lambda>ovr. same_resolution dfXRes (m_adfGeoTransform ovr 1))
                (m_apoOverviewDS this) then this
      else
      let dfMinX = m_adfGeoTransform this 0;
          dfMaxX = dfMinX + m_adfGeoTransform this 1 * real_of_int (nRasterXSize this);
          dfMaxY = m_adfGeoTransform this 3;
          dfMinY = dfMaxY + m_adfGeoTransform this 5 * real_of_int (nRasterYSize this);
          gt0 = m_adfGeoTransform (new_OGRSQLiteDataSource env);
          poOvrDS = (new_OGRSQLiteDataSource env)
            \<lparr> bIsInternal := True,
              m_poParentDS := Some (m_pRL2Coverage this),
              m_osCoverageName := m_osCoverageName this,
              m_nSectionId := m_nSectionId this,
              m_bRL2MixedResolutions := m_bRL2MixedResolutions this,
              m_bPromote1BitAs8Bit := m_bPromote1BitAs8Bit this,
              nRasterXSize := cast_int (0.5 + (dfMaxX - dfMinX) / dfXRes),
              nRasterYSize := cast_int (0.5 + (dfMaxY - dfMinY) / dfYRes),
              m_adfGeoTransform :=
                gt0(0 := m_adfGeoTransform this 0, 1 := dfXRes,
                    3 := m_adfGeoTransform this 3, 5 := - dfYRes) \<rparr>
      in
      if nRasterXSize poOvrDS \<le> 1 \<or> nRasterXSize poOvrDS \<le> 1 \<or>
         (nRasterXSize poOvrDS < 64 \<and> nRasterYSize poOvrDS < 64 \<and>
          \<not> CPLTestBool env
              (case CPLGetConfigOption env ''RL2_SHOW_ALL_PYRAMID_LEVELS'' of
                 Some v \<Rightarrow> v | None \<Rightarrow> ''NO''))
      then this
      else this\<lparr> m_apoOverviewDS :=
                   m_apoOverviewDS this @
                     [poOvrDS\<lparr> papoBands := map copy_RL2RasterBand (papoBands this) \<rparr>] \<rparr>)"


section \<open>The coverage resolver: OpenRasterSubDataset\<close>

subsection \<open>Sections (lines 177-231)\<close>

text \<open>The two \<^verbatim>\<open>AddNameValue\<close> calls of lines 206-220 for one section.\<close>

definition section_entries ::
  "rl2_dbms \<Rightarrow> OGRSQLiteDataSource \<Rightarrow> int \<Rightarrow> string \<Rightarrow> string \<Rightarrow> (string \<times> string) list" where
  "section_entries env this nIdx pszSectionId pszSectionName =
     [(''SUBDATASET_'' @ fmt_d nIdx @ ''_NAME'',
       ''RASTERLITE2:'' @ EscapeNameAndQuoteIfNeeded (OGRSQLiteEscapeName env) (m_pszFilename this)
         @ '':'' @ EscapeNameAndQuoteIfNeeded (OGRSQLiteEscapeName env) (m_osCoverageName this)
         @ '':'' @ pszSectionId
         @ '':'' @ EscapeNameAndQuoteIfNeeded (OGRSQLiteEscapeName env) pszSectionName),
      (''SUBDATASET_'' @ fmt_d nIdx @ ''_DESC'',
       ''Coverage '' @ m_osCoverageName this @ '', section '' @ pszSectionName
         @ '' / '' @ pszSectionId)]"

text \<open>The loop of lines 196-228 over the rows of the section table; \<open>nRowCount2\<close> is the
  number of rows of the whole result. The state is the data source and \<open>bSingleSection\<close>.\<close>

fun list_sections ::
  "rl2_dbms \<Rightarrow> nat \<Rightarrow> (string option \<times> string option) list \<Rightarrow>
   OGRSQLiteDataSource \<times> bool \<Rightarrow> OGRSQLiteDataSource \<times> bool" where
  "list_sections env nRowCount2 [] st = st"
| "list_sections env nRowCount2 ((Some pszSectionId, Some pszSectionName) # rows)
       (this, bSingleSection) =
     list_sections env nRowCount2 rows
       (if nRowCount2 > 1
        then (this\<lparr> m_aosSubDatasets :=
                      m_aosSubDatasets this @
                        section_entries env this
                          (int (length (m_aosSubDatasets this)) div 2 + 1)
                          pszSectionId pszSectionName \<rparr>,
              bSingleSection)
        else (this\<lparr> m_nSectionId := CPLAtoGIntBig env pszSectionId \<rparr>, True))"
| "list_sections env nRowCount2 (row # rows) st = list_sections env nRowCount2 rows st"

definition Open_sections ::
  "rl2_dbms \<Rightarrow> OGRSQLiteDataSource \<Rightarrow> OGRSQLiteDataSource \<times> bool" where
  "Open_sections env this =
     (if m_nSectionId this < 0
      then (let q = select_sections env (m_osCoverageName this @ ''_sections'') in
            if fst q then list_sections env (length (snd q)) (snd q) (this, False)
            else (this, False))
      else (this, False))"

subsection \<open>Extent and resolution (lines 233-322)\<close>

text \<open>Lines 281-310: the extent of the coverage in \<^verbatim>\<open>raster_coverages\<close>; the four
  variables keep their initial \<open>0.0\<close> unless the query gives one row without \<^verbatim>\<open>NULL\<close>.\<close>

definition registry_extent :: "rl2_dbms \<Rightarrow> string \<Rightarrow> real \<times> real \<times> real \<times> real" where
  "registry_extent env name =
     (let q = select_extent env name in
      if fst q \<and> length (snd q) = 1
      then (case hd (snd q) of
              (Some dfMinX, Some dfMinY, Some dfMaxX, Some dfMaxY) \<Rightarrow>
                (dfMinX, dfMinY, dfMaxX, dfMaxY)
            | _ \<Rightarrow> (0, 0, 0, 0))
      else (0, 0, 0, 0))"

text \<open>Lines 311-321: width and height of a coverage opened without a section; \<open>None\<close>
  is the "Invalid dimensions" failure.\<close>

definition coverage_dimensions ::
  "real \<times> real \<Rightarrow> real \<times> real \<times> real \<times> real \<Rightarrow> (int \<times> int) option" where
  "coverage_dimensions res ext =
     (case (res, ext) of ((dfXRes, dfYRes), (dfMinX, dfMinY, dfMaxX, dfMaxY)) \<Rightarrow>
        let dfWidth = 0.5 + (dfMaxX - dfMinX) / dfXRes;
            dfHeight = 0.5 + (dfMaxY - dfMinY) / dfYRes
        in if dfWidth \<le> 0.5 \<or> dfHeight \<le> 0.5 \<or> dfWidth > real_of_int INT_MAX \<or>
              dfHeight > real_of_int INT_MAX
           then None
           else Some (cast_int dfWidth, cast_int dfHeight))"

text \<open>Lines 244-322: extent and raster size, of the section when one is selected and of
  the whole coverage otherwise.\<close>

definition Open_extent ::
  "rl2_dbms \<Rightarrow> OGRSQLiteDataSource \<Rightarrow> rl2PrivCoverage \<Rightarrow>
   ((real \<times> real \<times> real \<times> real) \<times> int \<times> int) option" where
  "Open_extent env this cvg =
     (if m_nSectionId this \<ge> 0
      then (case rl2_resolve_base_resolution_from_dbms env (m_osCoverageName this)
                   (m_nSectionId this) of
              None \<Rightarrow> None
            | Some (dfXRes, dfYRes) \<Rightarrow>
                (case rl2_resolve_full_section_from_dbms env (m_osCoverageName this)
                        (m_nSectionId this) dfXRes dfYRes of
                   (ok, ext, (nWidth, nHeight)) \<Rightarrow>
                     if \<not> ok \<or> nWidth = 0 \<or> int nWidth > INT_MAX \<or>
                        nHeight = 0 \<or> int nHeight > INT_MAX
                     then None
                     else Some (ext, int nWidth, int nHeight)))
      else (let ext = registry_extent env (m_osCoverageName this) in
            case coverage_dimensions (cvg_resolution cvg) ext of
              None \<Rightarrow> None
            | Some (nWidth, nHeight) \<Rightarrow> Some (ext, nWidth, nHeight)))"

text \<open>Lines 324-355: raster size, geotransform and projection.\<close>

definition Open_geotransform ::
  "rl2_dbms \<Rightarrow> OGRSQLiteDataSource \<Rightarrow> rl2PrivCoverage \<Rightarrow>
   (real \<times> real \<times> real \<times> real) \<times> int \<times> int \<Rightarrow> OGRSQLiteDataSource" where
  "Open_geotransform env this cvg g =
     (case g of ((dfMinX, dfMinY, dfMaxX, dfMaxY), nWidth, nHeight) \<Rightarrow>
        this\<lparr> nRasterXSize := nWidth,
              nRasterYSize := nHeight,
              m_bGeoTransformValid := True,
              m_adfGeoTransform :=
                (m_adfGeoTransform this)
                  (0 := dfMinX, 1 := (dfMaxX - dfMinX) / real_of_int nWidth, 2 := 0,
                   3 := dfMaxY, 4 := 0, 5 := - (dfMaxY - dfMinY) / real_of_int nHeight),
              m_osProjection :=
                (case cvg_srid cvg of
                   None \<Rightarrow> m_osProjection this
                 | Some nSRID \<Rightarrow>
                     (case FetchSRS_wkt env nSRID of
                        None \<Rightarrow> m_osProjection this
                      | Some pszWKT \<Rightarrow> pszWKT)) \<rparr>)"

subsection \<open>Pixel format (lines 357-536)\<close>

text \<open>The switch of lines 368-455: bit depth, data type and signedness; \<open>None\<close> is the
  "Unknown sample type" failure.\<close>

definition sample_type_info :: "rl2_sample \<Rightarrow> (int \<times> GDALDataType \<times> bool) option" where
  "sample_type_info nSampleType =
     (case nSampleType of
        RL2_SAMPLE_UNKNOWN \<Rightarrow> None
      | RL2_SAMPLE_1_BIT \<Rightarrow> Some (1, GDT_Byte, False)
      | RL2_SAMPLE_2_BIT \<Rightarrow> Some (2, GDT_Byte, False)
      | RL2_SAMPLE_4_BIT \<Rightarrow> Some (4, GDT_Byte, False)
      | RL2_SAMPLE_INT8 \<Rightarrow> Some (8, GDT_Byte, True)
      | RL2_SAMPLE_UINT8 \<Rightarrow> Some (8, GDT_Byte, False)
      | RL2_SAMPLE_INT16 \<Rightarrow> Some (16, GDT_Int16, True)
      | RL2_SAMPLE_UINT16 \<Rightarrow> Some (16, GDT_UInt16, False)
      | RL2_SAMPLE_INT32 \<Rightarrow> Some (32, GDT_Int32, True)
      | RL2_SAMPLE_UINT32 \<Rightarrow> Some (32, GDT_UInt32, False)
      | RL2_SAMPLE_FLOAT \<Rightarrow> Some (32, GDT_Float32, True)
      | RL2_SAMPLE_DOUBLE \<Rightarrow> Some (64, GDT_Float64, True))"

text \<open>Lines 376-382: \<^verbatim>\<open>CPLFetchBool(papszOpenOptions, "1BIT_AS_8BIT", true)\<close>, read only
  for a 1-bit monochrome coverage.\<close>

definition Open_promote ::
  "rl2_dbms \<Rightarrow> OGRSQLiteDataSource \<Rightarrow> rl2_sample \<Rightarrow> rl2_pixel \<Rightarrow> OGRSQLiteDataSource" where
  "Open_promote env this nSampleType nPixelType =
     (if nSampleType = RL2_SAMPLE_1_BIT \<and> nPixelType = RL2_PIXEL_MONOCHROME
      then this\<lparr> m_bPromote1BitAs8Bit :=
                   (case papszOpenOptions this ''1BIT_AS_8BIT'' of
                      None \<Rightarrow> True | Some v \<Rightarrow> CPLTestBool env v) \<rparr>
      else this)"

text \<open>The switch of lines 462-507.\<close>

definition compression_name :: "rl2_compression \<Rightarrow> string option" where
  "compression_name nCompression =
     (case nCompression of
        RL2_COMPRESSION_DEFLATE \<Rightarrow> Some ''DEFLATE''
      | RL2_COMPRESSION_DEFLATE_NO \<Rightarrow> Some ''DEFLATE''
      | RL2_COMPRESSION_LZMA \<Rightarrow> Some ''LZMA''
      | RL2_COMPRESSION_LZMA_NO \<Rightarrow> Some ''LZMA''
      | RL2_COMPRESSION_GIF \<Rightarrow> Some ''GIF''
      | RL2_COMPRESSION_JPEG \<Rightarrow> Some ''JPEG''
      | RL2_COMPRESSION_PNG \<Rightarrow> Some ''PNG''
      | RL2_COMPRESSION_LOSSY_WEBP \<Rightarrow> Some ''WEBP''
      | RL2_COMPRESSION_LOSSLESS_WEBP \<Rightarrow> Some ''WEBP_LOSSLESS''
      | RL2_COMPRESSION_CCITTFAX3 \<Rightarrow> Some ''CCITTFAX3''
      | RL2_COMPRESSION_CCITTFAX4 \<Rightarrow> Some ''CCITTFAX4''
      | RL2_COMPRESSION_LZW \<Rightarrow> Some ''LZW''
      | RL2_COMPRESSION_CHARLS \<Rightarrow> Some ''JPEG_LOSSLESS''
      | RL2_COMPRESSION_LOSSY_JP2 \<Rightarrow> Some ''JPEG2000''
      | RL2_COMPRESSION_LOSSLESS_JP2 \<Rightarrow> Some ''JPEG2000_LOSSLESS''
      | _ \<Rightarrow> None)"

text \<open>Lines 457-523.\<close>

definition Open_compression ::
  "OGRSQLiteDataSource \<Rightarrow> rl2PrivCoverage \<Rightarrow> OGRSQLiteDataSource" where
  "Open_compression this cvg =
     (case cvg_compression cvg of (nCompression, nQuality) \<Rightarrow>
        let md1 =
              (case compression_name nCompression of
                 None \<Rightarrow> ds_metadata this
               | Some pszCompression \<Rightarrow>
                   SetMetadataItem (ds_metadata this) ''COMPRESSION'' (Some pszCompression)
                     ''IMAGE_STRUCTURE'');
            md2 =
              (if nQuality \<noteq> 0 \<and>
                  (nCompression = RL2_COMPRESSION_JPEG \<or>
                   nCompression = RL2_COMPRESSION_LOSSY_WEBP \<or>
                   nCompression = RL2_COMPRESSION_LOSSY_JP2)
               then SetMetadataItem md1 ''QUALITY'' (Some (fmt_d nQuality)) ''IMAGE_STRUCTURE''
               else md1)
        in this\<lparr> ds_metadata := md2 \<rparr>)"

subsection \<open>No-data (lines 538-676)\<close>

text \<open>The \<^verbatim>\<open>rl2_get_pixel_sample_*\<close> getters: the local the value is read into starts at
  \<open>0\<close> and keeps it when the pixel has no such band.\<close>

definition rl2_get_pixel_sample :: "rl2PrivPixel \<Rightarrow> nat \<Rightarrow> real" where
  "rl2_get_pixel_sample pxl i = (if i < length (px_samples pxl) then px_samples pxl ! i else 0)"

text \<open>The switch of lines 556-640 for band \<open>i\<close>: only the 8- and 16-bit unsigned getters
  take a band index.\<close>

definition nodata_sample :: "rl2PrivPixel \<Rightarrow> rl2_sample \<Rightarrow> nat \<Rightarrow> real" where
  "nodata_sample noDataPtr nSampleType i =
     (case nSampleType of
        RL2_SAMPLE_UNKNOWN \<Rightarrow> 0
      | RL2_SAMPLE_UINT8 \<Rightarrow> rl2_get_pixel_sample noDataPtr i
      | RL2_SAMPLE_UINT16 \<Rightarrow> rl2_get_pixel_sample noDataPtr i
      | _ \<Rightarrow> rl2_get_pixel_sample noDataPtr 0)"

text \<open>Lines 539-648: \<open>adfNoDataValues\<close>. \<^verbatim>\<open>rl2_get_pixel_type\<close> answers the three
  attributes of the pixel.\<close>

definition fetch_nodata_values ::
  "rl2PrivPixel option \<Rightarrow> rl2_sample \<Rightarrow> rl2_pixel \<Rightarrow> nat \<Rightarrow> real list" where
  "fetch_nodata_values noData nSampleType nPixelType l_nBands =
     (case noData of
        None \<Rightarrow> []
      | Some noDataPtr \<Rightarrow>
          if px_sample_type noDataPtr = nSampleType \<and> px_pixel_type noDataPtr = nPixelType \<and>
             px_bands noDataPtr = l_nBands
          then map (nodata_sample noDataPtr nSampleType) [0..<l_nBands]
          else [])"

text \<open>The loop of lines 655-661.\<close>

definition nodata_values_string :: "(real \<Rightarrow> string) \<Rightarrow> real list \<Rightarrow> string" where
  "nodata_values_string fmt vs =
     fold (\<lambda>v osNoDataValues.
             (if osNoDataValues \<noteq> [] then osNoDataValues @ '' '' else osNoDataValues) @ fmt v)
          vs []"

text \<open>Lines 650-676: the \<^verbatim>\<open>NODATA_VALUES\<close> item and the bands. The data source being
  opened has no band yet, so the \<^verbatim>\<open>SetBand\<close> calls make the new bands its band list.\<close>

definition Open_bands ::
  "rl2_dbms \<Rightarrow> OGRSQLiteDataSource \<Rightarrow> real list \<Rightarrow> rl2_pixel \<Rightarrow> nat \<Rightarrow>
   GDALDataType \<Rightarrow> int \<Rightarrow> bool \<Rightarrow> int \<Rightarrow> int \<Rightarrow> OGRSQLiteDataSource" where
  "Open_bands env this adfNoDataValues nPixelType l_nBands eDT nBits bSigned
       nBlockXSizeIn nBlockYSizeIn =
     (let md =
            (if length adfNoDataValues = l_nBands \<and> l_nBands > 1
             then SetMetadataItem (ds_metadata this) ''NODATA_VALUES''
                    (Some (nodata_values_string (fmt_g env) adfNoDataValues)) []
             else ds_metadata this);
          bHasNoData = (length adfNoDataValues = 1 \<and> l_nBands = 1);
          dfNoDataValue = (if bHasNoData then adfNoDataValues ! 0 else 0)
      in this\<lparr> ds_metadata := md,
               papoBands :=
                 map (\<lambda>iBand. new_RL2RasterBand (int iBand) nPixelType eDT nBits
                                (m_bPromote1BitAs8Bit this) bSigned nBlockXSizeIn nBlockYSizeIn
                                bHasNoData dfNoDataValue)
                     [1..<Suc l_nBands] \<rparr>)"

subsection \<open>Statistics and descriptive metadata (lines 678-774)\<close>

text \<open>The body of the loop of lines 685-710 for band \<open>iBand\<close> (\<open>i = iBand - 1\<close>).\<close>

definition band_statistics ::
  "rl2_dbms \<Rightarrow> (nat \<Rightarrow> (real \<times> real \<times> real \<times> real \<times> real) option) \<Rightarrow> int \<Rightarrow> bool \<Rightarrow>
   nat \<Rightarrow> RL2RasterBand \<Rightarrow> RL2RasterBand" where
  "band_statistics env pStatistics nBits bPromote i poBand =
     (if \<not> (nBits = 1 \<and> bPromote)
      then (case pStatistics i of
              None \<Rightarrow> poBand
            | Some (dfMin, dfMax, dfMean, dfVariance, dfStdDev) \<Rightarrow>
                poBand\<lparr> band_metadata :=
                  SetMetadataItem
                    (SetMetadataItem
                      (SetMetadataItem
                        (SetMetadataItem (band_metadata poBand)
                           ''STATISTICS_MINIMUM'' (Some (fmt_16g env dfMin)) [])
                        ''STATISTICS_MAXIMUM'' (Some (fmt_16g env dfMax)) [])
                      ''STATISTICS_MEAN'' (Some (fmt_16g env dfMean)) [])
                    ''STATISTICS_STDDEV'' (Some (fmt_16g env dfStdDev)) [] \<rparr>)
      else poBand)"

text \<open>Lines 678-713.\<close>

definition Open_statistics ::
  "rl2_dbms \<Rightarrow> OGRSQLiteDataSource \<Rightarrow> int \<Rightarrow> bool \<Rightarrow> OGRSQLiteDataSource" where
  "Open_statistics env this nBits bSingleSection =
     (if m_nSectionId this < 0 \<or> bSingleSection
      then (case rl2_create_raster_statistics_from_dbms env (m_osCoverageName this) of
              None \<Rightarrow> this
            | Some pStatistics \<Rightarrow>
                this\<lparr> papoBands :=
                  map (\<lambda>(i, poBand).
                         band_statistics env pStatistics nBits (m_bPromote1BitAs8Bit this)
                           i poBand)
                      (enumerate 0 (papoBands this)) \<rparr>)
      else this)"

definition present :: "string option \<Rightarrow> string \<Rightarrow> bool" where
  "present psz missing = (case psz of None \<Rightarrow> False | Some s \<Rightarrow> s \<noteq> [] \<and> \<not> EQUAL s missing)"

text \<open>Lines 715-774: title, abstract and section summary.\<close>

definition Open_descriptions :: "rl2_dbms \<Rightarrow> OGRSQLiteDataSource \<Rightarrow> OGRSQLiteDataSource" where
  "Open_descriptions env this =
     (let q = select_title_abstract env (m_osCoverageName this);
          md1 =
            (if fst q \<and> length (snd q) = 1
             then (case hd (snd q) of (pszTitle, pszAbstract) \<Rightarrow>
                     let mdT = (if present pszTitle ''*** missing Title ***''
                                then SetMetadataItem (ds_metadata this) ''COVERAGE_TITLE''
                                       pszTitle []
                                else ds_metadata this)
                     in if present pszAbstract ''*** missing Abstract ***''
                        then SetMetadataItem mdT ''COVERAGE_ABSTRACT'' pszAbstract []
                        else mdT)
             else ds_metadata this);
          md2 =
            (if m_nSectionId this \<ge> 0
             then (let q2 = select_summary env (m_osCoverageName this @ ''_sections'')
                              (wrap32 (m_nSectionId this))
                   in if fst q2 \<and> length (snd q2) = 1
                      then (case hd (snd q2) of
                              None \<Rightarrow> md1
                            | Some pszSummary \<Rightarrow>
                                if pszSummary \<noteq> []
                                then SetMetadataItem md1 ''SECTION_SUMMARY'' (Some pszSummary) []
                                else md1)
                      else md1)
             else md1)
      in this\<lparr> ds_metadata := md2 \<rparr>)"

subsection \<open>Overviews (lines 776-860)\<close>

definition overview_candidate ::
  "rl2_dbms \<Rightarrow> real option \<times> real option \<Rightarrow> OGRSQLiteDataSource \<Rightarrow> OGRSQLiteDataSource" where
  "overview_candidate env cell this =
     (case cell of
        (Some dfXRes, Some dfYRes) \<Rightarrow> CreateRL2OverviewDatasetIfNeeded env this dfXRes dfYRes
      | _ \<Rightarrow> this)"

text \<open>The body of the loop of lines 826-857 for one row.\<close>

definition overview_row :: "rl2_dbms \<Rightarrow> level_row \<Rightarrow> OGRSQLiteDataSource \<Rightarrow> OGRSQLiteDataSource" where
  "overview_row env row this =
     (case row of (c1, c2, c4, c8) \<Rightarrow>
        overview_candidate env c8
          (overview_candidate env c4
            (overview_candidate env c2
              (overview_candidate env c1 this))))"

definition Open_overviews ::
  "rl2_dbms \<Rightarrow> OGRSQLiteDataSource \<Rightarrow> rl2PrivCoverage \<Rightarrow> OGRSQLiteDataSource" where
  "Open_overviews env this cvg =
     (let nMixedResolutions = cvg_mixed_resolutions cvg;
          this1 = this\<lparr> m_bRL2MixedResolutions := (nMixedResolutions \<noteq> 0) \<rparr>
      in
      if nMixedResolutions = 0 \<or> m_nSectionId this1 \<ge> 0
      then (let q = (if nMixedResolutions = 0
                     then select_levels env (m_osCoverageName this1 @ ''_levels'')
                     else select_section_levels env
                            (m_osCoverageName this1 @ ''_section_levels'')
                            (wrap32 (m_nSectionId this1)))
            in if fst q then fold (overview_row env) (snd q) this1 else this1)
      else this1)"

subsection \<open>The whole function (lines 145-866)\<close>

text \<open>Lines 525-860, once the sample type is known: tile size, no-data, bands, statistics,
  descriptions and overviews.\<close>

definition Open_content ::
  "rl2_dbms \<Rightarrow> OGRSQLiteDataSource \<Rightarrow> rl2PrivCoverage \<Rightarrow> bool \<Rightarrow> int \<Rightarrow> GDALDataType \<Rightarrow> bool \<Rightarrow>
   bool \<times> OGRSQLiteDataSource" where
  "Open_content env this cvg bSingleSection nBits eDT bSigned =
     (let nSampleType = fst (cvg_type cvg);
          nPixelType = fst (snd (cvg_type cvg));
          l_nBands = snd (snd (cvg_type cvg));
          nTileWidth = fst (cvg_tile_size cvg);
          nTileHeight = snd (cvg_tile_size cvg)
      in
      if nTileWidth = 0 \<or> nTileHeight = 0 \<or> int nTileWidth > INT_MAX \<or>
         int nTileHeight > INT_MAX
      then (False, this)
      else
        (let adfNoDataValues =
               fetch_nodata_values (cvg_no_data cvg) nSampleType nPixelType l_nBands;
             this6 = Open_bands env this adfNoDataValues nPixelType l_nBands
                       eDT nBits bSigned (int nTileWidth) (int nTileHeight);
             this7 = Open_statistics env this6 nBits bSingleSection;
             this8 = Open_descriptions env this7
         in (True, Open_overviews env this8 cvg)))"

text \<open>Lines 233-523, once the coverage is loaded and the sections are listed.\<close>

definition Open_resolved ::
  "rl2_dbms \<Rightarrow> OGRSQLiteDataSource \<Rightarrow> rl2PrivCoverage \<Rightarrow> bool \<Rightarrow> bool \<times> OGRSQLiteDataSource" where
  "Open_resolved env this cvg bSingleSection =
     (case Open_extent env this cvg of
        None \<Rightarrow> (False, this)
      | Some g \<Rightarrow>
          (let this4 = Open_geotransform env this cvg g;
               nSampleType = fst (cvg_type cvg);
               nPixelType = fst (snd (cvg_type cvg));
               l_nBands = snd (snd (cvg_type cvg))
           in
           if \<not> GDALCheckBandCount env l_nBands then (False, this4)
           else
             (case sample_type_info nSampleType of
                None \<Rightarrow> (False, this4)
              | Some (nBits, eDT, bSigned) \<Rightarrow>
                  Open_content env
                    (Open_compression (Open_promote env this4 nSampleType nPixelType) cvg)
                    cvg bSingleSection nBits eDT bSigned)))"

text \<open>The result is the \<^verbatim>\<open>bool\<close> returned and the data source as the call leaves it.\<close>

definition OpenRasterSubDataset ::
  "rl2_dbms \<Rightarrow> OGRSQLiteDataSource \<Rightarrow> string \<Rightarrow> bool \<times> OGRSQLiteDataSource" where
  "OpenRasterSubDataset env this pszConnectionId =
     (if \<not> STARTS_WITH_CI pszConnectionId ''RASTERLITE2:'' then (False, this)
      else
        (let papszTokens = CSLTokenizeString2 env pszConnectionId in
         if length papszTokens < 3 then (False, this)
         else
           (let this1 = this\<lparr> m_osCoverageName := OGRSQLiteParamsUnquote env (papszTokens ! 2),
                             m_nSectionId :=
                               (if length papszTokens \<ge> 4
                                then CPLAtoGIntBig env (papszTokens ! 3) else - 1),
                             m_aosSubDatasets := [] \<rparr>;
                this2 = this1\<lparr> m_pRL2Coverage :=
                                rl2_create_coverage_from_dbms env (m_osCoverageName this1) \<rparr>
            in
            (case m_pRL2Coverage this2 of
               None \<Rightarrow> (False, this2)
             | Some cvg \<Rightarrow>
                 Open_resolved env (fst (Open_sections env this2)) cvg
                   (snd (Open_sections env this2))))))"


section \<open>The block reader: IReadBlock\<close>

text \<open>The arguments of the two raw-extraction primitives that vary between calls.\<close>

record rl2_raw_request =
  rq_section :: "int option"
  rq_width :: int
  rq_height :: int
  rq_minx :: real
  rq_miny :: real
  rq_maxx :: real
  rq_maxy :: real
  rq_xres :: real
  rq_yres :: real
  rq_out_pixel :: rl2_pixel

text \<open>The storage primitives answer the buffer they allocate (\<open>None\<close> unless
  \<^verbatim>\<open>RL2_OK\<close>); \<^verbatim>\<open>nBufSize\<close> is its length. \<open>GetLockedBlockRef\<close> tells whether the block
  cache of a band can hand out a new block.\<close>

record rl2_storage =
  rl2_get_section_raw_raster_data :: "rl2PrivCoverage option \<Rightarrow> rl2_raw_request \<Rightarrow> byte list option"
  rl2_get_raw_raster_data :: "rl2PrivCoverage option \<Rightarrow> rl2_raw_request \<Rightarrow> byte list option"
  GDALGetDataTypeSizeBytes :: "GDALDataType \<Rightarrow> int"
  GetLockedBlockRef :: "int \<Rightarrow> int \<Rightarrow> int \<Rightarrow> bool"

text \<open>The block caches of the bands of one dataset: the cached block of band \<open>i\<close> at block
  coordinates \<open>(x, y)\<close>.\<close>

type_synonym block_cache = "(int \<times> int \<times> int) \<rightharpoonup> byte list"

record block_read =
  rr_err :: CPLErr
  rr_pData :: "byte list"
  rr_cache :: block_cache
  rr_buffer_released :: bool

text \<open>Modelled from the spec: \<^verbatim>\<open>GDALCopyWords\<close> of the GDAL core, called with the same
  source and destination type, is the strided copy of section 4.4: word \<open>k\<close> of the result
  is the \<open>nWordSize\<close> bytes at \<open>nSrcOffset + k * nSrcStride\<close> of the source.\<close>

definition GDALCopyWords :: "byte list \<Rightarrow> int \<Rightarrow> int \<Rightarrow> int \<Rightarrow> int \<Rightarrow> byte list" where
  "GDALCopyWords pSrc nSrcOffset nSrcStride nWordSize nWordCount =
     concat (map (\<lambda>k. take (nat nWordSize) (drop (nat (nSrcOffset + int k * nSrcStride)) pSrc))
                 [0..<nat nWordCount])"

text \<open>Storing \<open>src\<close> at the start of the block \<open>dst\<close>. A \<open>src\<close> longer than \<open>dst\<close>
  runs past the end of the block in the source; here the result is as long as \<open>src\<close>.\<close>

definition store_bytes :: "byte list \<Rightarrow> byte list \<Rightarrow> byte list" where
  "store_bytes dst src = src @ drop (length src) dst"

text \<open>Lines 1118-1125: the coverage the block is read from and its type (the three
  locals keep their initial \<open>0\<close> when the handle is \<^verbatim>\<open>NULL\<close>).\<close>

definition block_coverage :: "'a rl2_dataset_scheme \<Rightarrow> rl2PrivCoverage option" where
  "block_coverage poGDS =
     (case m_poParentDS poGDS of Some parent_cov \<Rightarrow> parent_cov | None \<Rightarrow> m_pRL2Coverage poGDS)"

definition block_coverage_type :: "'a rl2_dataset_scheme \<Rightarrow> rl2_sample \<times> rl2_pixel \<times> nat" where
  "block_coverage_type poGDS =
     (case block_coverage poGDS of
        Some cov \<Rightarrow> cvg_type cov
      | None \<Rightarrow> (RL2_SAMPLE_UNKNOWN, RL2_PIXEL_UNKNOWN, 0))"

text \<open>Lines 1105-1176: the world rectangle of the block and the choice between the two
  primitives. \<open>band\<close> is the band the method is called on.\<close>

definition fetch_block ::
  "rl2_storage \<Rightarrow> 'a rl2_dataset_scheme \<Rightarrow> RL2RasterBand \<Rightarrow> int \<Rightarrow> int \<Rightarrow> byte list option" where
  "fetch_block st poGDS band nBlockXOff nBlockYOff =
     (let padfGeoTransform = m_adfGeoTransform poGDS;
          dfMinX = padfGeoTransform 0 +
                   real_of_int (mul32 nBlockXOff (nBlockXSize band)) * padfGeoTransform 1;
          dfMaxX = dfMinX + real_of_int (nBlockXSize band) * padfGeoTransform 1;
          dfMaxY = padfGeoTransform 3 +
                   real_of_int (mul32 nBlockYOff (nBlockYSize band)) * padfGeoTransform 5;
          dfMinY = dfMaxY + real_of_int (nBlockYSize band) * padfGeoTransform 5;
          nSampleType = fst (block_coverage_type poGDS);
          nPixelType = fst (snd (block_coverage_type poGDS));
          nOutPixel = (if nPixelType = RL2_PIXEL_MONOCHROME \<and> nSampleType = RL2_SAMPLE_1_BIT
                       then RL2_PIXEL_GRAYSCALE else nPixelType);
          req = \<lparr> rq_section = None,
                  rq_width = nBlockXSize band, rq_height = nBlockYSize band,
                  rq_minx = dfMinX, rq_miny = dfMinY, rq_maxx = dfMaxX, rq_maxy = dfMaxY,
                  rq_xres = padfGeoTransform 1, rq_yres = \<bar>padfGeoTransform 5\<bar>,
                  rq_out_pixel = nOutPixel \<rparr>;
          nSectionId = m_nSectionId poGDS
      in
      if nSectionId \<ge> 0 \<and> (m_bRL2MixedResolutions poGDS \<or> m_poParentDS poGDS = None)
      then rl2_get_section_raw_raster_data st (block_coverage poGDS)
             (req\<lparr> rq_section := Some nSectionId \<rparr>)
      else rl2_get_raw_raster_data st (block_coverage poGDS) req)"

text \<open>Lines 1178-1181.\<close>

definition nExpectedBytesOnBand :: "rl2_storage \<Rightarrow> RL2RasterBand \<Rightarrow> int" where
  "nExpectedBytesOnBand st band =
     mul32 (mul32 (nBlockXSize band) (nBlockYSize band))
       (GDALGetDataTypeSizeBytes st (eDataType band))"

definition nExpectedBytesAllBands ::
  "rl2_storage \<Rightarrow> 'a rl2_dataset_scheme \<Rightarrow> RL2RasterBand \<Rightarrow> int" where
  "nExpectedBytesAllBands st poGDS band =
     mul32 (nExpectedBytesOnBand st band) (int (length (papoBands poGDS)))"

text \<open>The body of the loop of lines 1210-1235 for one band \<open>iBand\<close>.\<close>

definition fill_sibling ::
  "rl2_storage \<Rightarrow> byte list \<Rightarrow> int \<Rightarrow> int \<Rightarrow> int \<Rightarrow> int \<Rightarrow> int \<Rightarrow> int \<Rightarrow> int \<Rightarrow>
   block_cache \<Rightarrow> block_cache" where
  "fill_sibling st pBuffer nDTSize nBands nWords nBlockXOff nBlockYOff nBand iBand cache =
     (if iBand = nBand then cache
      else if cache (iBand, nBlockXOff, nBlockYOff) \<noteq> None then cache
      else if \<not> GetLockedBlockRef st iBand nBlockXOff nBlockYOff then cache
      else cache((iBand, nBlockXOff, nBlockYOff) \<mapsto>
             GDALCopyWords pBuffer (mul32 (iBand - 1) nDTSize) (mul32 nDTSize nBands)
               nDTSize nWords))"

text \<open>Lines 1097-1241. \<open>band\<close> and \<open>nBand\<close> are the band the method is called on and its
  number, \<open>pData\<close> the caller's block and \<open>cache\<close> the block caches of the dataset.\<close>

definition IReadBlock ::
  "rl2_storage \<Rightarrow> 'a rl2_dataset_scheme \<Rightarrow> RL2RasterBand \<Rightarrow> int \<Rightarrow> int \<Rightarrow> int \<Rightarrow>
   byte list \<Rightarrow> block_cache \<Rightarrow> block_read" where
  "IReadBlock st poGDS band nBand nBlockXOff nBlockYOff pData cache =
     (case fetch_block st poGDS band nBlockXOff nBlockYOff of
        None \<Rightarrow>
          \<lparr> rr_err = CE_Failure, rr_pData = pData, rr_cache = cache,
            rr_buffer_released = False \<rparr>
      | Some pBuffer \<Rightarrow>
          (let nBufSize = int (length pBuffer);
               nDTSize = GDALGetDataTypeSizeBytes st (eDataType band);
               nBands = int (length (papoBands poGDS));
               nSampleType = fst (block_coverage_type poGDS);
               nPixelType = fst (snd (block_coverage_type poGDS));
               nWords = mul32 (nBlockXSize band) (nBlockYSize band)
           in
           if nBufSize \<noteq> nExpectedBytesAllBands st poGDS band
           then \<lparr> rr_err = CE_Failure, rr_pData = pData, rr_cache = cache,
                  rr_buffer_released = True \<rparr>
           else
             \<lparr> rr_err = CE_None,
               rr_pData =
                 (if nPixelType = RL2_PIXEL_MONOCHROME \<and> nSampleType = RL2_SAMPLE_1_BIT \<and>
                     \<not> m_bPromote1BitAs8Bit poGDS \<and> m_poParentDS poGDS \<noteq> None
                  then store_bytes pData
                         (map (\<lambda>b. if b > 127 then 1 else 0)
                              (take (nat (nExpectedBytesAllBands st poGDS band)) pBuffer))
                  else store_bytes pData
                         (GDALCopyWords pBuffer (mul32 (nBand - 1) nDTSize)
                            (mul32 nDTSize nBands) nDTSize nWords)),
               rr_cache =
                 (if nBands > 1
                  then fold (fill_sibling st pBuffer nDTSize nBands nWords
                               nBlockXOff nBlockYOff nBand)
                            [1..nBands] cache
                  else cache),
               rr_buffer_released = True \<rparr>))"

section \<open>The deduplication invariant of the overview list\<close>

text \<open>The x resolutions of the overviews, in the order of the list (earliest first).\<close>

definition overview_resolutions :: "OGRSQLiteDataSource \<Rightarrow> real list" where
  "overview_resolutions this = map (\<lambda>ovr. m_adfGeoTransform ovr 1) (m_apoOverviewDS this)"

text \<open>The tolerance of the specification: two resolutions are equal when they differ by less
  than the relative tolerance \<open>1e-5\<close>. \<open>x\<close> is within the tolerance of \<open>r\<close> when the
  distance of the two is below \<open>1e-5\<close> times the size of \<open>r\<close>. This is the reading the
  comparison \<open>same_resolution\<close> of the source is compared with; the two agree when \<open>r\<close> is
  positive and differ when it is not.\<close>

definition within_tolerance :: "real \<Rightarrow> real \<Rightarrow> bool" where
  "within_tolerance x r = (\<bar>x - r\<bar> < 1 / 100000 * \<bar>r\<bar>)"

text \<open>No resolution of the list is within the tolerance of one that stands before it.\<close>

fun separated :: "real list \<Rightarrow> bool" where
  "separated [] = True"
| "separated (r # rs) = (list_all (\<lambda>x. \<not> within_tolerance x r) rs \<and> separated rs)"

text \<open>No overview is within the tolerance of the base resolution, and none is within the
  tolerance of an overview retained before it.\<close>

definition overviews_deduplicated :: "OGRSQLiteDataSource \<Rightarrow> bool" where
  "overviews_deduplicated this =
     (list_all (\<lambda>x. \<not> within_tolerance x (m_adfGeoTransform this 1)) (overview_resolutions this) \<and>
      separated (overview_resolutions this))"

section \<open>The coverages created by CreateCopy\<close>

text \<open>The compression code and the quality of every \<^verbatim>\<open>rl2_create_dbms_coverage\<close> call of a
  trace, in call order.\<close>

fun event_settings :: "store_event \<Rightarrow> (rl2_compression \<times> int) list" where
  "event_settings (Ev_create_dbms_coverage pszCoverage nSampleType nPixelType nBandCount
      nCompression nQuality nTileWidth nTileHeight) = [(nCompression, nQuality)]"
| "event_settings _ = []"

definition created_coverage_settings :: "store_event list \<Rightarrow> (rl2_compression \<times> int) list" where
  "created_coverage_settings evs = concat (map event_settings evs)"

section \<open>Strings joined by single spaces\<close>

text \<open>The reading of "space-separated" that \<open>nodata_values_string\<close> is compared with.\<close>

fun space_joined :: "string list \<Rightarrow> string" where
  "space_joined [] = []"
| "space_joined [x] = x"
| "space_joined (x # y # ys) = x @ '' '' @ space_joined (y # ys)"

section \<open>A frame condition for the overview builder\<close>

text \<open>\<open>t\<close> differs from \<open>this\<close> at most in the mixed-resolutions flag and in its overview
  list, and every overview of \<open>t\<close> that \<open>this\<close> does not have carries copies of the bands
  of \<open>this\<close>.\<close>

definition extends_overviews :: "OGRSQLiteDataSource \<Rightarrow> OGRSQLiteDataSource \<Rightarrow> bool" where
  "extends_overviews this t =
     (papoBands t = papoBands this \<and> ds_metadata t = ds_metadata this \<and>
      m_pRL2Coverage t = m_pRL2Coverage this \<and>
      m_bPromote1BitAs8Bit t = m_bPromote1BitAs8Bit this \<and>
      list_all (\<lambda>ovr. ovr \<in> set (m_apoOverviewDS this) \<or>
                       papoBands ovr = map copy_RL2RasterBand (papoBands this))
               (m_apoOverviewDS t))"

section \<open>Example inputs\<close>

text \<open>A decimal \<open>atoi\<close> for strings of digits.\<close>

definition plain_atoi :: "string \<Rightarrow> int" where
  "plain_atoi s = fold (\<lambda>c n. 10 * n + (int (of_char c) - 48)) s 0"

definition ex_north_up :: "nat \<Rightarrow> real" where
  "ex_north_up = (\<lambda>i. 0)(1 := 1, 5 := - 1)"

definition ex_source :: GDALSourceDataset where
  "ex_source =
     \<lparr> GetRasterCount = 1,
       GetGeoTransform = (CE_None, ex_north_up),
       GetRasterDataType = (\<lambda>i. GDT_Byte),
       GetColorInterpretation = (\<lambda>i. GCI_GrayIndex),
       GetRasterXSize = 1000,
       GetRasterYSize = 1000,
       GetProjectionRef = None \<rparr>"

definition ex_create_env :: rl2_create_env where
  "ex_create_env =
     \<lparr> atoi = plain_atoi,
       CPLGetBasename = (\<lambda>s. takeWhile (\<lambda>c. c \<noteq> CHR ''.'') s),
       cc_OGRSQLiteEscapeName = (\<lambda>s. s),
       ds_Open = (\<lambda>s. True),
       ds_Create = (\<lambda>s. True),
       FetchSRSId_of_wkt = (\<lambda>s. None),
       raster_coverages_table_rows = 0,
       CreateRasterCoveragesTable_ok = True,
       coverage_name_rows = (\<lambda>s. 0),
       existing_coverage_from_dbms_ok = (\<lambda>s. False),
       rl2_create_pixel = (\<lambda>s p n. Some \<lparr> px_sample_type = s, px_pixel_type = p, px_bands = n,
                                            px_samples = replicate n 0 \<rparr>),
       rl2_create_dbms_coverage_ok = True,
       created_coverage_from_dbms_ok = (\<lambda>s. True),
       rl2_load_raw_tiles_into_dbms_ok = True \<rparr>"

text \<open>An 8-bit grayscale coverage \<open>cov\<close> of resolution 1 with 256 x 256 tiles, whose
  registry extent is the square from (0, 0) to (200, 200), in a store that splits it into
  the sections 1 (\<open>north\<close>) and 2 (\<open>south\<close>) and has one pyramid row with the
  resolutions 1, 2, 4 and 8.\<close>

definition ex_coverage :: rl2PrivCoverage where
  "ex_coverage =
     \<lparr> cvg_resolution = (1, 1),
       cvg_srid = None,
       cvg_type = (RL2_SAMPLE_UINT8, RL2_PIXEL_GRAYSCALE, 1),
       cvg_compression = (RL2_COMPRESSION_NONE, 100),
       cvg_tile_size = (256, 256),
       cvg_no_data = None,
       cvg_mixed_resolutions = 0 \<rparr>"

definition ex_new_datasource :: rl2_dataset where
  "ex_new_datasource =
     \<lparr> m_pszFilename = [],
       papszOpenOptions = Map.empty,
       bIsInternal = False,
       m_poParentDS = None,
       m_osCoverageName = [],
       m_nSectionId = - 1,
       m_pRL2Coverage = None,
       m_bRL2MixedResolutions = False,
       m_bPromote1BitAs8Bit = False,
       nRasterXSize = 0,
       nRasterYSize = 0,
       m_bGeoTransformValid = False,
       m_adfGeoTransform = (\<lambda>i. 0)(1 := 1, 5 := 1),
       m_osProjection = [],
       papoBands = [],
       ds_metadata = Map.empty \<rparr>"

definition ex_datasource :: OGRSQLiteDataSource where
  "ex_datasource =
     rl2_dataset.extend (ex_new_datasource\<lparr> m_pszFilename := ''f.sqlite'' \<rparr>)
       \<lparr> m_aosSubDatasets = [], m_apoOverviewDS = [] \<rparr>"

fun split_colon :: "string \<Rightarrow> string \<Rightarrow> string list" where
  "split_colon acc [] = [rev acc]"
| "split_colon acc (c # cs) =
     (if c = CHR '':'' then rev acc # split_colon [] cs else split_colon (c # acc) cs)"

definition ex_dbms :: rl2_dbms where
  "ex_dbms =
     \<lparr> CSLTokenizeString2 = split_colon [],
       OGRSQLiteParamsUnquote = (\<lambda>s. s),
       OGRSQLiteEscapeName = (\<lambda>s. s),
       CPLAtoGIntBig = plain_atoi,
       CPLTestBool = (\<lambda>s. \<not> EQUAL s ''NO''),
       CPLGetConfigOption = Map.empty,
       GDALCheckBandCount = (\<lambda>n. 1 \<le> n),
       fmt_g = (\<lambda>v. fmt_d \<lfloor>v\<rfloor>),
       fmt_16g = (\<lambda>v. fmt_d \<lfloor>v\<rfloor>),
       new_OGRSQLiteDataSource = ex_new_datasource,
       rl2_create_coverage_from_dbms = (\<lambda>name. if name = ''cov'' then Some ex_coverage else None),
       select_sections = (\<lambda>t. (True, [(Some ''1'', Some ''north''), (Some ''2'', Some ''south'')])),
       rl2_resolve_base_resolution_from_dbms = (\<lambda>name sid. Some (1, 1)),
       rl2_resolve_full_section_from_dbms =
         (\<lambda>name sid x y. (True, (0, 0, 200, 100), (200, 100))),
       select_extent = (\<lambda>name. (True, [(Some 0, Some 0, Some 200, Some 200)])),
       FetchSRS_wkt = (\<lambda>srid. None),
       rl2_create_raster_statistics_from_dbms = (\<lambda>name. Some (\<lambda>i. Some (0, 255, 100, 4, 2))),
       select_title_abstract = (\<lambda>name. (True, [(Some ''Title'', None)])),
       select_summary = (\<lambda>t sid. (True, [None])),
       select_levels =
         (\<lambda>t. (True, [((Some 1, Some 1), (Some 2, Some 2), (Some 4, Some 4), (Some 8, Some 8))])),
       select_section_levels = (\<lambda>t sid. (True, [])) \<rparr>"

text \<open>The same store with the registry extent of \<open>cov\<close> from (0, 0) to (200, 2): a
  raster of 200 x 2 pixels.\<close>

definition ex_thin_dbms :: rl2_dbms where
  "ex_thin_dbms = ex_dbms\<lparr> select_extent := (\<lambda>name. (True, [(Some 0, Some 0, Some 200, Some 2)])) \<rparr>"

text \<open>The data source of that raster as \<^verbatim>\<open>OpenRasterSubDataset\<close> sets it up before the
  overviews are listed.\<close>

definition ex_thin_datasource :: OGRSQLiteDataSource where
  "ex_thin_datasource =
     ex_datasource\<lparr> nRasterXSize := 200, nRasterYSize := 2,
                    m_adfGeoTransform := (\<lambda>i. 0)(1 := 1, 3 := 2, 5 := - 1) \<rparr>"

text \<open>The data source of a north-up raster of 1024 x 1024 pixels at resolution 1, set up in
  the same way.\<close>

definition ex_square_datasource :: OGRSQLiteDataSource where
  "ex_square_datasource =
     ex_datasource\<lparr> nRasterXSize := 1024, nRasterYSize := 1024,
                    m_adfGeoTransform := (\<lambda>i. 0)(1 := 1, 3 := 1024, 5 := - 1) \<rparr>"

text \<open>The same store when the registry gives \<open>cov\<close> the x resolution \<open>-1\<close> and an extent
  that runs from \<open>x = 0\<close> down to \<open>x = -200\<close>, and the pyramid row has the resolutions
  \<open>-1\<close>, \<open>-2\<close>, \<open>-2\<close> and none.\<close>

definition ex_mirrored_dbms :: rl2_dbms where
  "ex_mirrored_dbms =
     ex_dbms\<lparr> rl2_create_coverage_from_dbms :=
                 (\<lambda>name. if name = ''cov'' then Some (ex_coverage\<lparr> cvg_resolution := (- 1, 1) \<rparr>)
                         else None),
              select_extent := (\<lambda>name. (True, [(Some 0, Some 0, Some (- 200), Some 200)])),
              select_levels :=
                (\<lambda>t. (True, [((Some (- 1), Some 1), (Some (- 2), Some 2), (Some (- 2), Some 2),
                              (None, None))])) \<rparr>"


text \<open>A 1-bit monochrome coverage with blocks of 2 x 1 pixels, opened with
  \<^verbatim>\<open>1BIT_AS_8BIT=NO\<close>: its band, its top-level dataset and an overview of it. The storage
  answers every request with the two bytes 255 and 0.\<close>

definition ex_mono_coverage :: rl2PrivCoverage where
  "ex_mono_coverage =
     ex_coverage\<lparr> cvg_type := (RL2_SAMPLE_1_BIT, RL2_PIXEL_MONOCHROME, 1),
                  cvg_tile_size := (2, 1) \<rparr>"

definition ex_mono_band :: RL2RasterBand where
  "ex_mono_band = new_RL2RasterBand 1 RL2_PIXEL_MONOCHROME GDT_Byte 1 False False 2 1 False 0"

definition ex_mono_base :: rl2_dataset where
  "ex_mono_base =
     ex_new_datasource\<lparr> m_osCoverageName := ''mono'',
                        m_pRL2Coverage := Some ex_mono_coverage,
                        nRasterXSize := 4, nRasterYSize := 2,
                        m_bGeoTransformValid := True,
                        m_adfGeoTransform := (\<lambda>i. 0)(1 := 1, 3 := 2, 5 := - 1),
                        papoBands := [ex_mono_band] \<rparr>"

definition ex_mono_overview :: rl2_dataset where
  "ex_mono_overview =
     ex_mono_base\<lparr> bIsInternal := True,
                   m_poParentDS := Some (Some ex_mono_coverage),
                   m_pRL2Coverage := None,
                   nRasterXSize := 2, nRasterYSize := 1,
                   m_adfGeoTransform := (\<lambda>i. 0)(1 := 2, 3 := 2, 5 := - 2) \<rparr>"

definition ex_storage :: rl2_storage where
  "ex_storage =
     \<lparr> rl2_get_section_raw_raster_data = (\<lambda>cov req. None),
       rl2_get_raw_raster_data = (\<lambda>cov req. Some [255, 0]),
       GDALGetDataTypeSizeBytes =
         (\<lambda>t. if t = GDT_Byte then 1 else if t \<in> {GDT_UInt16, GDT_Int16} then 2 else 4),
       GetLockedBlockRef = (\<lambda>iBand x y. True) \<rparr>"

text \<open>The same store with a 1-bit monochrome coverage \<open>mono\<close>.\<close>

definition ex_mono_dbms :: rl2_dbms where
  "ex_mono_dbms =
     ex_dbms\<lparr> rl2_create_coverage_from_dbms :=
                 (\<lambda>name. if name = ''mono'' then Some ex_mono_coverage else None) \<rparr>"

text \<open>The same store with three coverages that store a no-data pixel: the 8-bit RGB
  coverage \<open>rgb\<close> with a white pixel, the 8-bit grayscale coverage \<open>gray\<close> with a black
  pixel, and the 8-bit grayscale coverage \<open>odd\<close> with the white RGB pixel, which does not
  fit it.\<close>

definition ex_white :: rl2PrivPixel where
  "ex_white =
     \<lparr> px_sample_type = RL2_SAMPLE_UINT8, px_pixel_type = RL2_PIXEL_RGB, px_bands = 3,
       px_samples = [255, 255, 255] \<rparr>"

definition ex_black :: rl2PrivPixel where
  "ex_black =
     \<lparr> px_sample_type = RL2_SAMPLE_UINT8, px_pixel_type = RL2_PIXEL_GRAYSCALE, px_bands = 1,
       px_samples = [0] \<rparr>"

definition ex_rgb_coverage :: rl2PrivCoverage where
  "ex_rgb_coverage =
     ex_coverage\<lparr> cvg_type := (RL2_SAMPLE_UINT8, RL2_PIXEL_RGB, 3),
                  cvg_no_data := Some ex_white \<rparr>"

definition ex_nodata_dbms :: rl2_dbms where
  "ex_nodata_dbms =
     ex_dbms\<lparr> rl2_create_coverage_from_dbms :=
                 (\<lambda>name. if name = ''rgb'' then Some ex_rgb_coverage
                         else if name = ''gray'' then Some (ex_coverage\<lparr> cvg_no_data := Some ex_black \<rparr>)
                         else if name = ''odd'' then Some (ex_coverage\<lparr> cvg_no_data := Some ex_white \<rparr>)
                         else None) \<rparr>"

text \<open>The same store when \<open>cov\<close> has the single section 7 (\<open>only\<close>).\<close>

definition ex_single_dbms :: rl2_dbms where
  "ex_single_dbms = ex_dbms\<lparr> select_sections := (\<lambda>t. (True, [(Some ''7'', Some ''only'')])) \<rparr>"

section \<open>Properties\<close>

subsection \<open>The ingestion pipeline\<close>

lemma upper_literals:
  "map toupper_c ''JPEG'' = ''JPEG''" "map toupper_c ''WEBP'' = ''WEBP''"
  "map toupper_c ''JPEG2000'' = ''JPEG2000''" "map toupper_c ''NONE'' = ''NONE''"
  "map toupper_c ''DEFLATE'' = ''DEFLATE''" "map toupper_c ''LZMA'' = ''LZMA''"
  "map toupper_c ''PNG'' = ''PNG''" "map toupper_c ''CCITTFAX4'' = ''CCITTFAX4''"
  "map toupper_c ''CHARLS'' = ''CHARLS''"
  by (simp_all add: toupper_c_def)

lemma EQUAL_both: "EQUAL c a \<Longrightarrow> EQUAL c b \<Longrightarrow> map toupper_c a = map toupper_c b"
  by (simp add: EQUAL_def)

lemma EQUAL_JPEG_only:
  assumes "EQUAL c ''JPEG''"
  shows "\<not> EQUAL c ''NONE''" "\<not> EQUAL c ''DEFLATE''" "\<not> EQUAL c ''LZMA''" "\<not> EQUAL c ''PNG''"
    "\<not> EQUAL c ''CCITTFAX4''" "\<not> EQUAL c ''WEBP''" "\<not> EQUAL c ''JPEG2000''"
  using EQUAL_both [OF assms, of "''NONE''"] EQUAL_both [OF assms, of "''DEFLATE''"]
    EQUAL_both [OF assms, of "''LZMA''"] EQUAL_both [OF assms, of "''PNG''"]
    EQUAL_both [OF assms, of "''CCITTFAX4''"] EQUAL_both [OF assms, of "''WEBP''"]
    EQUAL_both [OF assms, of "''JPEG2000''"]
  by (auto simp: toupper_c_def)

lemma EQUAL_WEBP_only:
  assumes "EQUAL c ''WEBP''"
  shows "\<not> EQUAL c ''NONE''" "\<not> EQUAL c ''DEFLATE''" "\<not> EQUAL c ''LZMA''" "\<not> EQUAL c ''PNG''"
    "\<not> EQUAL c ''CCITTFAX4''" "\<not> EQUAL c ''JPEG''" "\<not> EQUAL c ''JPEG2000''"
  using EQUAL_both [OF assms, of "''NONE''"] EQUAL_both [OF assms, of "''DEFLATE''"]
    EQUAL_both [OF assms, of "''LZMA''"] EQUAL_both [OF assms, of "''PNG''"]
    EQUAL_both [OF assms, of "''CCITTFAX4''"] EQUAL_both [OF assms, of "''JPEG''"]
    EQUAL_both [OF assms, of "''JPEG2000''"]
  by (auto simp: toupper_c_def)

lemma EQUAL_JPEG2000_only:
  assumes "EQUAL c ''JPEG2000''"
  shows "\<not> EQUAL c ''NONE''" "\<not> EQUAL c ''DEFLATE''" "\<not> EQUAL c ''LZMA''" "\<not> EQUAL c ''PNG''"
    "\<not> EQUAL c ''CCITTFAX4''" "\<not> EQUAL c ''JPEG''" "\<not> EQUAL c ''WEBP''" "\<not> EQUAL c ''CHARLS''"
  using EQUAL_both [OF assms, of "''NONE''"] EQUAL_both [OF assms, of "''DEFLATE''"]
    EQUAL_both [OF assms, of "''LZMA''"] EQUAL_both [OF assms, of "''PNG''"]
    EQUAL_both [OF assms, of "''CCITTFAX4''"] EQUAL_both [OF assms, of "''JPEG''"]
    EQUAL_both [OF assms, of "''WEBP''"] EQUAL_both [OF assms, of "''CHARLS''"]
  by (auto simp: toupper_c_def)

lemma compression_JPEG:
  "papszOptions ''COMPRESS'' = Some c \<Longrightarrow> EQUAL c ''JPEG'' \<Longrightarrow>
   CreateCopy_compression papszOptions = (RL2_COMPRESSION_JPEG, 75)"
  by (simp add: CreateCopy_compression_def EQUAL_JPEG_only)

lemma compression_WEBP:
  "papszOptions ''COMPRESS'' = Some c \<Longrightarrow> EQUAL c ''WEBP'' \<Longrightarrow>
   CreateCopy_compression papszOptions = (RL2_COMPRESSION_LOSSY_WEBP, 75)"
  by (simp add: CreateCopy_compression_def EQUAL_WEBP_only)

lemma compression_JPEG2000:
  "papszOptions ''COMPRESS'' = Some c \<Longrightarrow> EQUAL c ''JPEG2000'' \<Longrightarrow>
   CreateCopy_compression papszOptions = (RL2_COMPRESSION_LOSSY_JP2, 20)"
  by (simp add: CreateCopy_compression_def EQUAL_JPEG2000_only)

lemma compression_other:
  "papszOptions ''COMPRESS'' = Some c \<Longrightarrow> \<not> EQUAL c ''JPEG'' \<Longrightarrow> \<not> EQUAL c ''WEBP'' \<Longrightarrow>
   \<not> EQUAL c ''JPEG2000'' \<Longrightarrow> snd (CreateCopy_compression papszOptions) = 100"
  by (simp add: CreateCopy_compression_def)

lemma compression_absent:
  "papszOptions ''COMPRESS'' = None \<Longrightarrow>
   CreateCopy_compression papszOptions = (RL2_COMPRESSION_NONE, 100)"
  by (simp add: CreateCopy_compression_def)

lemma quality_absent: "papszOptions ''QUALITY'' = None \<Longrightarrow> CreateCopy_quality a papszOptions cq = cq"
  by (simp add: CreateCopy_quality_def)

lemma settings_simps:
  "created_coverage_settings [] = []"
  "created_coverage_settings (e # es) = event_settings e @ created_coverage_settings es"
  "created_coverage_settings (xs @ ys) = created_coverage_settings xs @ created_coverage_settings ys"
  by (simp_all add: created_coverage_settings_def)

lemma store_settings:
  fixes env pszName poSrcDS papszOptions nSampleType nPixelType nBandCount nCompression nQuality
    nTileWidth nTileHeight
  defines "r \<equiv> CreateCopy_store env pszName poSrcDS papszOptions nSampleType nPixelType
                  nBandCount nCompression nQuality nTileWidth nTileHeight"
  shows "set (created_coverage_settings (snd r)) \<subseteq> {(nCompression, nQuality)}"
    and "fst r \<noteq> None \<Longrightarrow>
         coverage_name_rows env
           (case papszOptions ''COVERAGE'' of Some c \<Rightarrow> c | None \<Rightarrow> CPLGetBasename env pszName) \<noteq> 1 \<Longrightarrow>
         created_coverage_settings (snd r) = [(nCompression, nQuality)]"
proof -
  define bAppend where "bAppend = (papszOptions ''APPEND_SUBDATASET'' \<noteq> None)"
  define ev1 where "ev1 = [if bAppend then Ev_Open pszName else Ev_Create pszName]"
  define evSRS where "evSRS =
            (case papszOptions ''SRID'' of
               Some pszSRID \<Rightarrow> []
             | None \<Rightarrow>
                 (case GetProjectionRef poSrcDS of
                    None \<Rightarrow> []
                  | Some pszProjectionRef \<Rightarrow>
                      if EQUAL pszProjectionRef [] then []
                      else (case FetchSRSId_of_wkt env pszProjectionRef of
                              None \<Rightarrow> []
                            | Some _ \<Rightarrow> [Ev_FetchSRSId pszProjectionRef])))"
  define ev2 where "ev2 = ev1 @ evSRS @ [Ev_StartTransaction]"
  define bNoTable where "bNoTable = (raster_coverages_table_rows env = 0)"
  define ev3 where "ev3 = ev2 @ (if bNoTable then [Ev_CreateRasterCoveragesTable] else [])"
  define osCoverageName where "osCoverageName =
            (case papszOptions ''COVERAGE'' of
               Some c \<Rightarrow> c | None \<Rightarrow> CPLGetBasename env pszName)"
  define bExists where "bExists = (coverage_name_rows env osCoverageName = 1)"
  define evCreate where "evCreate = Ev_create_dbms_coverage osCoverageName nSampleType nPixelType
                       nBandCount nCompression nQuality nTileWidth nTileHeight"
  define ev4 where "ev4 = ev3 @ (if bExists then [] else [evCreate])"
  define osSectionName where "osSectionName =
            (case papszOptions ''SECTION'' of
               Some s \<Rightarrow> s | None \<Rightarrow> CPLGetBasename env pszName)"
  define ev5 where "ev5 = ev4 @ [Ev_load_raw_tiles_into_dbms osCoverageName osSectionName]"
  define conn where "conn = ''RASTERLITE2:'' @
      EscapeNameAndQuoteIfNeeded (cc_OGRSQLiteEscapeName env) pszName @ '':'' @
      EscapeNameAndQuoteIfNeeded (cc_OGRSQLiteEscapeName env) osCoverageName"
  have r: "r =
     (if \<not> (if bAppend then ds_Open env pszName else ds_Create env pszName) then (None, ev1)
      else if bNoTable \<and> \<not> CreateRasterCoveragesTable_ok env
        then (None, ev2 @ [Ev_CreateRasterCoveragesTable])
      else if bExists \<and> \<not> existing_coverage_from_dbms_ok env osCoverageName then (None, ev3)
      else if \<not> bExists \<and>
              CreateDefaultNoData (rl2_create_pixel env) nSampleType nPixelType nBandCount = None
        then (None, ev3)
      else if \<not> bExists \<and> \<not> rl2_create_dbms_coverage_ok env then (None, ev3 @ [evCreate])
      else if \<not> bExists \<and> \<not> created_coverage_from_dbms_ok env osCoverageName then (None, ev4)
      else if \<not> rl2_load_raw_tiles_into_dbms_ok env then (None, ev5)
      else (Some conn, ev5 @ [Ev_CommitTransaction, Ev_Reopen conn]))"
    unfolding r_def CreateCopy_store_def Let_def bAppend_def ev1_def evSRS_def ev2_def bNoTable_def
      ev3_def osCoverageName_def bExists_def evCreate_def ev4_def osSectionName_def ev5_def
      conn_def
    by (rule refl)
  have s1: "created_coverage_settings ev1 = []"
    by (simp add: ev1_def settings_simps)
  have sS: "created_coverage_settings evSRS = []"
    by (simp add: evSRS_def settings_simps split: option.splits)
  have s2: "created_coverage_settings ev2 = []"
    by (simp add: ev2_def settings_simps s1 sS)
  have s3: "created_coverage_settings ev3 = []"
    by (simp add: ev3_def settings_simps s2)
  have sE: "event_settings evCreate = [(nCompression, nQuality)]"
    by (simp add: evCreate_def)
  have sC: "created_coverage_settings [evCreate] = [(nCompression, nQuality)]"
    by (simp add: settings_simps sE)
  have s4: "created_coverage_settings ev4 = (if bExists then [] else [(nCompression, nQuality)])"
    by (simp add: ev4_def settings_simps s3 sE)
  have s5: "created_coverage_settings ev5 = created_coverage_settings ev4"
    by (simp add: ev5_def settings_simps)
  show "set (created_coverage_settings (snd r)) \<subseteq> {(nCompression, nQuality)}"
    unfolding r by (simp add: settings_simps s1 s2 s3 s4 s5 sE)
  show "created_coverage_settings (snd r) = [(nCompression, nQuality)]"
    if "fst r \<noteq> None"
      and "coverage_name_rows env
           (case papszOptions ''COVERAGE'' of Some c \<Rightarrow> c | None \<Rightarrow> CPLGetBasename env pszName) \<noteq> 1"
  proof -
    from that(2) have e: "\<not> bExists" by (simp add: bExists_def osCoverageName_def)
    from that(1) show ?thesis
      unfolding r by (simp add: settings_simps s1 s2 s3 s4 s5 sE e split: if_splits)
  qed
qed

lemma CreateCopy_reaches_store:
  "OGRSQLiteDriverCreateCopy env pszName poSrcDS papszOptions = (None, []) \<or>
   (\<exists>nSampleType nPixelType nBandCount nTileWidth nTileHeight.
      OGRSQLiteDriverCreateCopy env pszName poSrcDS papszOptions =
        CreateCopy_store env pszName poSrcDS papszOptions nSampleType nPixelType nBandCount
          (fst (CreateCopy_quality (atoi env) papszOptions (CreateCopy_compression papszOptions)))
          (snd (CreateCopy_quality (atoi env) papszOptions (CreateCopy_compression papszOptions)))
          nTileWidth nTileHeight)"
proof (cases "CreateCopy_sample_type (GetRasterDataType poSrcDS 1)")
  case None
  then show ?thesis by (simp add: OGRSQLiteDriverCreateCopy_def Let_def)
next
  case (Some nSampleType)
  show ?thesis
  proof (cases "OGRSQLiteDriverCreateCopy env pszName poSrcDS papszOptions = (None, [])")
    case True
    then show ?thesis by simp
  next
    case False
    then have "OGRSQLiteDriverCreateCopy env pszName poSrcDS papszOptions =
        CreateCopy_store env pszName poSrcDS papszOptions nSampleType
          (CreateCopy_pixel_type papszOptions poSrcDS (GetRasterDataType poSrcDS 1)
             (GetRasterCount poSrcDS))
          (GetRasterCount poSrcDS)
          (fst (CreateCopy_quality (atoi env) papszOptions (CreateCopy_compression papszOptions)))
          (snd (CreateCopy_quality (atoi env) papszOptions (CreateCopy_compression papszOptions)))
          (atoi env (case papszOptions ''BLOCKXSIZE'' of Some s \<Rightarrow> s | None \<Rightarrow> ''512'')
             mod 4294967296)
          (atoi env (case papszOptions ''BLOCKYSIZE'' of Some s \<Rightarrow> s | None \<Rightarrow> ''512'')
             mod 4294967296)"
      using Some by (simp add: OGRSQLiteDriverCreateCopy_def Let_def split: if_splits)
    then show ?thesis by blast
  qed
qed

lemma CreateCopy_settings_subset:
  "set (created_coverage_settings (snd (OGRSQLiteDriverCreateCopy env pszName poSrcDS papszOptions)))
     \<subseteq> {CreateCopy_quality (atoi env) papszOptions (CreateCopy_compression papszOptions)}"
proof -
  from CreateCopy_reaches_store [of env pszName poSrcDS papszOptions] show ?thesis
  proof
    assume "OGRSQLiteDriverCreateCopy env pszName poSrcDS papszOptions = (None, [])"
    then show ?thesis by (simp add: created_coverage_settings_def)
  next
    assume "\<exists>nSampleType nPixelType nBandCount nTileWidth nTileHeight.
      OGRSQLiteDriverCreateCopy env pszName poSrcDS papszOptions =
        CreateCopy_store env pszName poSrcDS papszOptions nSampleType nPixelType nBandCount
          (fst (CreateCopy_quality (atoi env) papszOptions (CreateCopy_compression papszOptions)))
          (snd (CreateCopy_quality (atoi env) papszOptions (CreateCopy_compression papszOptions)))
          nTileWidth nTileHeight"
    then obtain s p n w h where
      e: "OGRSQLiteDriverCreateCopy env pszName poSrcDS papszOptions =
        CreateCopy_store env pszName poSrcDS papszOptions s p n
          (fst (CreateCopy_quality (atoi env) papszOptions (CreateCopy_compression papszOptions)))
          (snd (CreateCopy_quality (atoi env) papszOptions (CreateCopy_compression papszOptions)))
          w h"
      by blast
    show ?thesis unfolding e
      using store_settings(1) [of env pszName poSrcDS papszOptions s p n
          "fst (CreateCopy_quality (atoi env) papszOptions (CreateCopy_compression papszOptions))"
          "snd (CreateCopy_quality (atoi env) papszOptions (CreateCopy_compression papszOptions))"
          w h]
      by simp
  qed
qed

lemma CreateCopy_settings_created:
  assumes "fst (OGRSQLiteDriverCreateCopy env pszName poSrcDS papszOptions) \<noteq> None"
    and "coverage_name_rows env
           (case papszOptions ''COVERAGE'' of Some c \<Rightarrow> c | None \<Rightarrow> CPLGetBasename env pszName) \<noteq> 1"
  shows "created_coverage_settings (snd (OGRSQLiteDriverCreateCopy env pszName poSrcDS papszOptions)) =
         [CreateCopy_quality (atoi env) papszOptions (CreateCopy_compression papszOptions)]"
proof -
  from CreateCopy_reaches_store [of env pszName poSrcDS papszOptions] assms(1)
  obtain s p n w h where
      e: "OGRSQLiteDriverCreateCopy env pszName poSrcDS papszOptions =
        CreateCopy_store env pszName poSrcDS papszOptions s p n
          (fst (CreateCopy_quality (atoi env) papszOptions (CreateCopy_compression papszOptions)))
          (snd (CreateCopy_quality (atoi env) papszOptions (CreateCopy_compression papszOptions)))
          w h"
    by auto
  from assms(1) have "fst (CreateCopy_store env pszName poSrcDS papszOptions s p n
          (fst (CreateCopy_quality (atoi env) papszOptions (CreateCopy_compression papszOptions)))
          (snd (CreateCopy_quality (atoi env) papszOptions (CreateCopy_compression papszOptions)))
          w h) \<noteq> None"
    unfolding e .
  from store_settings(2) [OF this assms(2)] show ?thesis
    unfolding e by simp
qed

lemma quality_pair_rules:
  "(papszOptions ''QUALITY'' = None \<longrightarrow>
      snd (CreateCopy_quality a papszOptions (CreateCopy_compression papszOptions)) =
        (case papszOptions ''COMPRESS'' of
           None \<Rightarrow> 100
         | Some c \<Rightarrow> if EQUAL c ''JPEG'' \<or> EQUAL c ''WEBP'' then 75
                     else if EQUAL c ''JPEG2000'' then 20 else 100)) \<and>
   (papszOptions ''QUALITY'' = Some q \<and> a q = 100 \<and> papszOptions ''COMPRESS'' = Some c \<longrightarrow>
      (EQUAL c ''WEBP'' \<longrightarrow>
         CreateCopy_quality a papszOptions (CreateCopy_compression papszOptions) =
           (RL2_COMPRESSION_LOSSLESS_WEBP, 100)) \<and>
      (EQUAL c ''JPEG2000'' \<longrightarrow>
         CreateCopy_quality a papszOptions (CreateCopy_compression papszOptions) =
           (RL2_COMPRESSION_LOSSLESS_JP2, 100)))"
proof (intro conjI impI)
  assume nq: "papszOptions ''QUALITY'' = None"
  show "snd (CreateCopy_quality a papszOptions (CreateCopy_compression papszOptions)) =
        (case papszOptions ''COMPRESS'' of
           None \<Rightarrow> 100
         | Some c \<Rightarrow> if EQUAL c ''JPEG'' \<or> EQUAL c ''WEBP'' then 75
                     else if EQUAL c ''JPEG2000'' then 20 else 100)"
  proof (cases "papszOptions ''COMPRESS''")
    case None
    then show ?thesis by (simp add: quality_absent [of papszOptions, OF nq] compression_absent)
  next
    case (Some d)
    consider "EQUAL d ''JPEG''" | "EQUAL d ''WEBP''" | "EQUAL d ''JPEG2000''"
      | "\<not> EQUAL d ''JPEG''" "\<not> EQUAL d ''WEBP''" "\<not> EQUAL d ''JPEG2000''"
      by blast
    then show ?thesis
    proof cases
      case 1
      then show ?thesis by (simp add: Some quality_absent [of papszOptions, OF nq] compression_JPEG [of papszOptions, OF Some])
    next
      case 2
      then show ?thesis by (simp add: Some quality_absent [of papszOptions, OF nq] compression_WEBP [of papszOptions, OF Some])
    next
      case 3
      then show ?thesis
        by (simp add: Some quality_absent [of papszOptions, OF nq] compression_JPEG2000 [of papszOptions, OF Some]
            EQUAL_JPEG2000_only)
    next
      case 4
      then show ?thesis by (simp add: Some quality_absent [of papszOptions, OF nq] compression_other [of papszOptions, OF Some])
    qed
  qed
next
  assume h: "papszOptions ''QUALITY'' = Some q \<and> a q = 100 \<and> papszOptions ''COMPRESS'' = Some c"
    and w: "EQUAL c ''WEBP''"
  from h w show "CreateCopy_quality a papszOptions (CreateCopy_compression papszOptions) =
           (RL2_COMPRESSION_LOSSLESS_WEBP, 100)"
    by (simp add: compression_WEBP [of papszOptions c] CreateCopy_quality_def)
next
  assume h: "papszOptions ''QUALITY'' = Some q \<and> a q = 100 \<and> papszOptions ''COMPRESS'' = Some c"
    and w: "EQUAL c ''JPEG2000''"
  from h w show "CreateCopy_quality a papszOptions (CreateCopy_compression papszOptions) =
           (RL2_COMPRESSION_LOSSLESS_JP2, 100)"
    by (simp add: compression_JPEG2000 [of papszOptions c] CreateCopy_quality_def)
qed

text \<open>
  Claim C9. The compression code and the quality that \<^verbatim>\<open>CreateCopy\<close> passes to
  \<^verbatim>\<open>rl2_create_dbms_coverage\<close> follow the rules of lines 1561-1603. In every such call of
  a run: without a \<^verbatim>\<open>QUALITY\<close> option the quality is 75 when the \<^verbatim>\<open>COMPRESS\<close> option
  selects JPEG or WEBP, 20 when it selects JPEG2000 and 100 otherwise (also when there is no
  \<^verbatim>\<open>COMPRESS\<close> option); with a \<^verbatim>\<open>QUALITY\<close> option whose value is 100, the lossy WEBP and
  the lossy JPEG2000 choice have become the lossless code of the same codec. A run that
  returns a dataset for a coverage that did not exist makes exactly one such call, with the
  pair computed from the options.
\<close>

theorem CreateCopy_quality_rules:
  "list_all (\<lambda>(nCompression, nQuality).
       (papszOptions ''QUALITY'' = None \<longrightarrow>
          nQuality =
            (case papszOptions ''COMPRESS'' of
               None \<Rightarrow> 100
             | Some c \<Rightarrow> if EQUAL c ''JPEG'' \<or> EQUAL c ''WEBP'' then 75
                         else if EQUAL c ''JPEG2000'' then 20 else 100)) \<and>
       (papszOptions ''QUALITY'' = Some q \<and> atoi env q = 100 \<and>
        papszOptions ''COMPRESS'' = Some c \<longrightarrow>
          (EQUAL c ''WEBP'' \<longrightarrow>
             nCompression = RL2_COMPRESSION_LOSSLESS_WEBP \<and> nQuality = 100) \<and>
          (EQUAL c ''JPEG2000'' \<longrightarrow>
             nCompression = RL2_COMPRESSION_LOSSLESS_JP2 \<and> nQuality = 100)))
     (created_coverage_settings
        (snd (OGRSQLiteDriverCreateCopy env pszName poSrcDS papszOptions))) \<and>
   (fst (OGRSQLiteDriverCreateCopy env pszName poSrcDS papszOptions) \<noteq> None \<and>
    coverage_name_rows env
      (case papszOptions ''COVERAGE'' of Some c \<Rightarrow> c | None \<Rightarrow> CPLGetBasename env pszName) \<noteq> 1 \<longrightarrow>
      created_coverage_settings
        (snd (OGRSQLiteDriverCreateCopy env pszName poSrcDS papszOptions)) =
        [CreateCopy_quality (atoi env) papszOptions (CreateCopy_compression papszOptions)])"
proof (intro conjI impI)
  let ?cq = "CreateCopy_quality (atoi env) papszOptions (CreateCopy_compression papszOptions)"
  note r = quality_pair_rules [of papszOptions "atoi env" q c]
  have "(papszOptions ''QUALITY'' = None \<longrightarrow>
          snd ?cq =
            (case papszOptions ''COMPRESS'' of
               None \<Rightarrow> 100
             | Some c \<Rightarrow> if EQUAL c ''JPEG'' \<or> EQUAL c ''WEBP'' then 75
                         else if EQUAL c ''JPEG2000'' then 20 else 100)) \<and>
       (papszOptions ''QUALITY'' = Some q \<and> atoi env q = 100 \<and>
        papszOptions ''COMPRESS'' = Some c \<longrightarrow>
          (EQUAL c ''WEBP'' \<longrightarrow>
             fst ?cq = RL2_COMPRESSION_LOSSLESS_WEBP \<and> snd ?cq = 100) \<and>
          (EQUAL c ''JPEG2000'' \<longrightarrow>
             fst ?cq = RL2_COMPRESSION_LOSSLESS_JP2 \<and> snd ?cq = 100))"
    using r by simp
  then show "list_all (\<lambda>(nCompression, nQuality).
       (papszOptions ''QUALITY'' = None \<longrightarrow>
          nQuality =
            (case papszOptions ''COMPRESS'' of
               None \<Rightarrow> 100
             | Some c \<Rightarrow> if EQUAL c ''JPEG'' \<or> EQUAL c ''WEBP'' then 75
                         else if EQUAL c ''JPEG2000'' then 20 else 100)) \<and>
       (papszOptions ''QUALITY'' = Some q \<and> atoi env q = 100 \<and>
        papszOptions ''COMPRESS'' = Some c \<longrightarrow>
          (EQUAL c ''WEBP'' \<longrightarrow>
             nCompression = RL2_COMPRESSION_LOSSLESS_WEBP \<and> nQuality = 100) \<and>
          (EQUAL c ''JPEG2000'' \<longrightarrow>
             nCompression = RL2_COMPRESSION_LOSSLESS_JP2 \<and> nQuality = 100)))
     (created_coverage_settings
        (snd (OGRSQLiteDriverCreateCopy env pszName poSrcDS papszOptions)))"
    using CreateCopy_settings_subset [of env pszName poSrcDS papszOptions]
    unfolding list_all_iff by (auto simp: case_prod_beta)
next
  assume "fst (OGRSQLiteDriverCreateCopy env pszName poSrcDS papszOptions) \<noteq> None \<and>
    coverage_name_rows env
      (case papszOptions ''COVERAGE'' of Some c \<Rightarrow> c | None \<Rightarrow> CPLGetBasename env pszName) \<noteq> 1"
  then show "created_coverage_settings
        (snd (OGRSQLiteDriverCreateCopy env pszName poSrcDS papszOptions)) =
        [CreateCopy_quality (atoi env) papszOptions (CreateCopy_compression papszOptions)]"
    using CreateCopy_settings_created [of env pszName poSrcDS papszOptions] by blast
qed

theorem CreateCopy_quality_rules_witness:
  "created_coverage_settings
     (snd (OGRSQLiteDriverCreateCopy ex_create_env ''out.sqlite'' ex_source
             [''COMPRESS'' \<mapsto> ''jpeg''])) = [(RL2_COMPRESSION_JPEG, 75)] \<and>
   created_coverage_settings
     (snd (OGRSQLiteDriverCreateCopy ex_create_env ''out.sqlite'' ex_source
             [''COMPRESS'' \<mapsto> ''JPEG2000''])) = [(RL2_COMPRESSION_LOSSY_JP2, 20)] \<and>
   created_coverage_settings
     (snd (OGRSQLiteDriverCreateCopy ex_create_env ''out.sqlite'' ex_source Map.empty)) =
       [(RL2_COMPRESSION_NONE, 100)] \<and>
   created_coverage_settings
     (snd (OGRSQLiteDriverCreateCopy ex_create_env ''out.sqlite'' ex_source
             [''COMPRESS'' \<mapsto> ''WEBP'', ''QUALITY'' \<mapsto> ''100''])) =
       [(RL2_COMPRESSION_LOSSLESS_WEBP, 100)] \<and>
   snd (OGRSQLiteDriverCreateCopy ex_create_env ''out.sqlite'' ex_source
          [''COMPRESS'' \<mapsto> ''WEBP'', ''QUALITY'' \<mapsto> ''100'']) =
     [Ev_Create ''out.sqlite'', Ev_StartTransaction, Ev_CreateRasterCoveragesTable,
      Ev_create_dbms_coverage ''out'' RL2_SAMPLE_UINT8 RL2_PIXEL_DATAGRID 1
        RL2_COMPRESSION_LOSSLESS_WEBP 100 512 512,
      Ev_load_raw_tiles_into_dbms ''out'' ''out'', Ev_CommitTransaction,
      Ev_Reopen ''RASTERLITE2:out.sqlite:out'']"
proof -
  let ?run = "OGRSQLiteDriverCreateCopy ex_create_env ''out.sqlite'' ex_source"
  have f: "fst (?run [''COMPRESS'' \<mapsto> ''jpeg'']) \<noteq> None"
      "fst (?run [''COMPRESS'' \<mapsto> ''JPEG2000'']) \<noteq> None"
      "fst (?run Map.empty) \<noteq> None"
      "fst (?run [''COMPRESS'' \<mapsto> ''WEBP'', ''QUALITY'' \<mapsto> ''100'']) \<noteq> None"
    by code_simp+
  have n: "coverage_name_rows ex_create_env s \<noteq> 1" for s
    by (simp add: ex_create_env_def)
  have q: "CreateCopy_quality (atoi ex_create_env) [''COMPRESS'' \<mapsto> ''jpeg'']
             (CreateCopy_compression [''COMPRESS'' \<mapsto> ''jpeg'']) = (RL2_COMPRESSION_JPEG, 75)"
      "CreateCopy_quality (atoi ex_create_env) [''COMPRESS'' \<mapsto> ''JPEG2000'']
             (CreateCopy_compression [''COMPRESS'' \<mapsto> ''JPEG2000'']) =
         (RL2_COMPRESSION_LOSSY_JP2, 20)"
      "CreateCopy_quality (atoi ex_create_env) Map.empty (CreateCopy_compression Map.empty) =
         (RL2_COMPRESSION_NONE, 100)"
      "CreateCopy_quality (atoi ex_create_env) [''COMPRESS'' \<mapsto> ''WEBP'', ''QUALITY'' \<mapsto> ''100'']
             (CreateCopy_compression [''COMPRESS'' \<mapsto> ''WEBP'', ''QUALITY'' \<mapsto> ''100'']) =
         (RL2_COMPRESSION_LOSSLESS_WEBP, 100)"
    by code_simp+
  have t: "snd (?run [''COMPRESS'' \<mapsto> ''WEBP'', ''QUALITY'' \<mapsto> ''100'']) =
     [Ev_Create ''out.sqlite'', Ev_StartTransaction, Ev_CreateRasterCoveragesTable,
      Ev_create_dbms_coverage ''out'' RL2_SAMPLE_UINT8 RL2_PIXEL_DATAGRID 1
        RL2_COMPRESSION_LOSSLESS_WEBP 100 512 512,
      Ev_load_raw_tiles_into_dbms ''out'' ''out'', Ev_CommitTransaction,
      Ev_Reopen ''RASTERLITE2:out.sqlite:out'']"
    by code_simp
  show ?thesis
    using CreateCopy_quality_rules [of "[''COMPRESS'' \<mapsto> ''jpeg'']" "''100''" ex_create_env "''jpeg''"
            "''out.sqlite''" ex_source]
      CreateCopy_quality_rules [of "[''COMPRESS'' \<mapsto> ''JPEG2000'']" "''100''" ex_create_env
            "''JPEG2000''" "''out.sqlite''" ex_source]
      CreateCopy_quality_rules [of Map.empty "''100''" ex_create_env "''x''" "''out.sqlite''" ex_source]
      CreateCopy_quality_rules [of "[''COMPRESS'' \<mapsto> ''WEBP'', ''QUALITY'' \<mapsto> ''100'']" "''100''"
            ex_create_env "''WEBP''" "''out.sqlite''" ex_source]
      f n q t
    by simp
qed

text \<open>
  Claim C6. \<^verbatim>\<open>CreateCopy\<close> returns \<^verbatim>\<open>NULL\<close> without a single call on the target store
  (it is neither opened nor created, and nothing is written) when the source has no band or
  more than 255 bands, when the source reports a geotransform with a nonzero rotation or
  shear term, or when \<^verbatim>\<open>APPEND_SUBDATASET\<close> is given without \<^verbatim>\<open>COVERAGE\<close>.
\<close>

theorem CreateCopy_preflight_failures:
  assumes "GetRasterCount poSrcDS < 1 \<or> 255 < GetRasterCount poSrcDS \<or>
           (fst (GetGeoTransform poSrcDS) = CE_None \<and>
            (snd (GetGeoTransform poSrcDS) 2 \<noteq> 0 \<or> snd (GetGeoTransform poSrcDS) 4 \<noteq> 0)) \<or>
           (papszOptions ''APPEND_SUBDATASET'' \<noteq> None \<and> papszOptions ''COVERAGE'' = None)"
  shows "OGRSQLiteDriverCreateCopy env pszName poSrcDS papszOptions = (None, [])"
  using assms by (auto simp: OGRSQLiteDriverCreateCopy_def Let_def)

theorem CreateCopy_preflight_failures_witness:
  "OGRSQLiteDriverCreateCopy ex_create_env ''out.sqlite'' (ex_source\<lparr>GetRasterCount := 256\<rparr>)
      Map.empty = (None, []) \<and>
   OGRSQLiteDriverCreateCopy ex_create_env ''out.sqlite''
      (ex_source\<lparr>GetGeoTransform := (CE_None, ex_north_up(2 := 1 / 2))\<rparr>) Map.empty = (None, []) \<and>
   OGRSQLiteDriverCreateCopy ex_create_env ''out.sqlite'' ex_source
      [''APPEND_SUBDATASET'' \<mapsto> ''YES''] = (None, [])"
  using CreateCopy_preflight_failures [of "ex_source\<lparr>GetRasterCount := 256\<rparr>" Map.empty
          ex_create_env "''out.sqlite''"]
        CreateCopy_preflight_failures [of "ex_source\<lparr>GetGeoTransform := (CE_None, ex_north_up(2 := 1 / 2))\<rparr>"
          Map.empty ex_create_env "''out.sqlite''"]
        CreateCopy_preflight_failures [of ex_source "[''APPEND_SUBDATASET'' \<mapsto> ''YES'']"
          ex_create_env "''out.sqlite''"]
  by (simp add: ex_source_def ex_north_up_def)

subsection \<open>The overview chain\<close>

text \<open>
  Claim C3 (the code departs from it). A candidate whose recomputed width is at most 1 is
  discarded, and so is one whose width and height are both below 64 while
  \<^verbatim>\<open>RL2_SHOW_ALL_PYRAMID_LEVELS\<close> is off (\<open>overview_discarded\<close>). A candidate whose
  recomputed height is at most 1 is not: line 906 tests \<^verbatim>\<open>nRasterXSize <= 1\<close> twice and
  never \<^verbatim>\<open>nRasterYSize\<close>. For the raster of 200 x 2 pixels at resolution 1 the candidate of
  resolution 2 gives 100 x 1 pixels and is appended, both by the function alone and by a
  whole open of a store with that extent.
\<close>

theorem overview_of_height_one_is_kept:
  "map (\<lambda>ovr. (nRasterXSize ovr, nRasterYSize ovr))
       (m_apoOverviewDS (CreateRL2OverviewDatasetIfNeeded ex_dbms ex_thin_datasource 2 2)) =
     [(100, 1)] \<and>
   map (\<lambda>ovr. (nRasterXSize ovr, nRasterYSize ovr))
       (m_apoOverviewDS (snd (OpenRasterSubDataset ex_thin_dbms ex_datasource
          ''RASTERLITE2:f.sqlite:cov''))) = [(100, 1)]"
  by code_simp

lemma overview_discarded:
  assumes "\<not> same_resolution dfXRes (m_adfGeoTransform this 1)"
    and "\<not> list_ex (\<lambda>ovr. same_resolution dfXRes (m_adfGeoTransform ovr 1)) (m_apoOverviewDS this)"
    and "w = cast_int (0.5 + (m_adfGeoTransform this 0 +
               m_adfGeoTransform this 1 * real_of_int (nRasterXSize this) -
               m_adfGeoTransform this 0) / dfXRes)"
    and "h = cast_int (0.5 + (m_adfGeoTransform this 3 -
               (m_adfGeoTransform this 3 +
                m_adfGeoTransform this 5 * real_of_int (nRasterYSize this))) / dfYRes)"
    and "w \<le> 1 \<or> (w < 64 \<and> h < 64 \<and>
           \<not> CPLTestBool env (case CPLGetConfigOption env ''RL2_SHOW_ALL_PYRAMID_LEVELS'' of
                                 Some v \<Rightarrow> v | None \<Rightarrow> ''NO''))"
  shows "CreateRL2OverviewDatasetIfNeeded env this dfXRes dfYRes = this"
  using assms by (auto simp: CreateRL2OverviewDatasetIfNeeded_def Let_def)

lemma same_resolution_positive:
  "0 < r \<Longrightarrow>
   same_resolution x r \<longleftrightarrow> r * (1 - 1 / 100000) < x \<and> x < r * (1 + 1 / 100000)"
  unfolding same_resolution_def abs_less_iff by (auto simp: algebra_simps)

lemma within_tolerance_positive: "0 < r \<Longrightarrow> within_tolerance x r = same_resolution x r"
  by (simp add: within_tolerance_def same_resolution_def)

lemma separated_nth:
  "separated rs \<Longrightarrow> i < j \<Longrightarrow> j < length rs \<Longrightarrow> \<not> within_tolerance (rs ! j) (rs ! i)"
proof (induction rs arbitrary: i j)
  case Nil
  then show ?case by simp
next
  case (Cons r rs)
  show ?case
  proof (cases i)
    case 0
    with Cons.prems show ?thesis
      by (cases j) (auto simp: list_all_iff)
  next
    case (Suc i')
    with Cons.prems obtain j' where "j = Suc j'" "i' < j'" "j' < length rs"
      by (cases j) auto
    with Cons.IH [of i' j'] Cons.prems(1) Suc show ?thesis by simp
  qed
qed

lemma separated_snoc:
  "separated (rs @ [x]) = (separated rs \<and> list_all (\<lambda>r. \<not> within_tolerance x r) rs)"
  by (induction rs) auto

lemma CreateRL2Overview_resolutions:
  "overview_resolutions (CreateRL2OverviewDatasetIfNeeded env this dfXRes dfYRes) =
     overview_resolutions this \<or>
   (\<not> same_resolution dfXRes (m_adfGeoTransform this 1) \<and>
    list_all (\<lambda>r. \<not> same_resolution dfXRes r) (overview_resolutions this) \<and>
    overview_resolutions (CreateRL2OverviewDatasetIfNeeded env this dfXRes dfYRes) =
      overview_resolutions this @ [dfXRes])"
  by (auto simp: CreateRL2OverviewDatasetIfNeeded_def overview_resolutions_def Let_def
        list_all_iff list_ex_iff)

lemma CreateRL2Overview_base:
  "m_adfGeoTransform (CreateRL2OverviewDatasetIfNeeded env this dfXRes dfYRes) =
     m_adfGeoTransform this"
  by (simp add: CreateRL2OverviewDatasetIfNeeded_def Let_def)

lemma cast_int_small: "x \<le> 1 / 2 \<Longrightarrow> cast_int x \<le> 1"
proof -
  assume a: "x \<le> 1 / 2"
  have "0 \<le> x \<Longrightarrow> \<lfloor>x\<rfloor> \<le> 0" using a by (simp add: floor_le_iff)
  moreover have "\<not> 0 \<le> x \<Longrightarrow> \<lceil>x\<rceil> \<le> 0" by (simp add: ceiling_le_iff)
  ultimately show ?thesis by (auto simp: cast_int_def)
qed

lemma CreateRL2Overview_positive:
  assumes "0 < m_adfGeoTransform this 1" and "0 \<le> nRasterXSize this"
    and "list_all (\<lambda>r. 0 < r) (overview_resolutions this)"
  shows "list_all (\<lambda>r. 0 < r)
           (overview_resolutions (CreateRL2OverviewDatasetIfNeeded env this dfXRes dfYRes))"
proof (cases "0 < dfXRes")
  case True
  with assms(3) show ?thesis
    by (simp add: CreateRL2OverviewDatasetIfNeeded_def overview_resolutions_def Let_def
        list_all_iff)
next
  case False
  define q where "q = (m_adfGeoTransform this 0 +
               m_adfGeoTransform this 1 * real_of_int (nRasterXSize this) -
               m_adfGeoTransform this 0) / dfXRes"
  have "0 \<le> m_adfGeoTransform this 1 * real_of_int (nRasterXSize this)"
    using assms(1,2) by simp
  with False have "m_adfGeoTransform this 1 * real_of_int (nRasterXSize this) / dfXRes \<le> 0"
    by (simp add: divide_nonneg_nonpos)
  then have "q \<le> 0" by (simp add: q_def)
  then have "0.5 + q \<le> 1 / 2" by linarith
  then have "cast_int (0.5 + q) \<le> 1" by (rule cast_int_small)
  then have "CreateRL2OverviewDatasetIfNeeded env this dfXRes dfYRes = this"
    unfolding q_def by (simp add: CreateRL2OverviewDatasetIfNeeded_def Let_def)
  with assms(3) show ?thesis by simp
qed

lemma CreateRL2Overview_raster_size:
  "nRasterXSize (CreateRL2OverviewDatasetIfNeeded env this dfXRes dfYRes) = nRasterXSize this"
  by (simp add: CreateRL2OverviewDatasetIfNeeded_def Let_def)

lemma CreateRL2Overview_deduplicated:
  assumes "0 < m_adfGeoTransform this 1"
    and "list_all (\<lambda>r. 0 < r) (overview_resolutions this)"
    and "overviews_deduplicated this"
  shows "overviews_deduplicated (CreateRL2OverviewDatasetIfNeeded env this dfXRes dfYRes)"
proof -
  from CreateRL2Overview_resolutions [of env this dfXRes dfYRes] show ?thesis
  proof
    assume "overview_resolutions (CreateRL2OverviewDatasetIfNeeded env this dfXRes dfYRes) =
              overview_resolutions this"
    with assms(3) show ?thesis
      by (simp add: overviews_deduplicated_def CreateRL2Overview_base)
  next
    assume a: "\<not> same_resolution dfXRes (m_adfGeoTransform this 1) \<and>
      list_all (\<lambda>r. \<not> same_resolution dfXRes r) (overview_resolutions this) \<and>
      overview_resolutions (CreateRL2OverviewDatasetIfNeeded env this dfXRes dfYRes) =
        overview_resolutions this @ [dfXRes]"
    from a assms(1) have b: "\<not> within_tolerance dfXRes (m_adfGeoTransform this 1)"
      by (simp add: within_tolerance_positive)
    from a assms(2) have e: "list_all (\<lambda>r. \<not> within_tolerance dfXRes r) (overview_resolutions this)"
      by (auto simp: list_all_iff within_tolerance_positive)
    from a b e assms(3) show ?thesis
      by (simp add: overviews_deduplicated_def CreateRL2Overview_base separated_snoc)
  qed
qed

lemma overview_candidate_deduplicated:
  assumes "0 < m_adfGeoTransform this 1" and "0 \<le> nRasterXSize this"
    and "list_all (\<lambda>r. 0 < r) (overview_resolutions this)"
    and "overviews_deduplicated this"
  shows "0 < m_adfGeoTransform (overview_candidate env cell this) 1 \<and>
         0 \<le> nRasterXSize (overview_candidate env cell this) \<and>
         list_all (\<lambda>r. 0 < r) (overview_resolutions (overview_candidate env cell this)) \<and>
         overviews_deduplicated (overview_candidate env cell this)"
proof (cases "\<exists>x y. cell = (Some x, Some y)")
  case True
  then obtain x y where c: "cell = (Some x, Some y)" by blast
  show ?thesis
    using assms CreateRL2Overview_positive [OF assms(1-3), of env x y]
      CreateRL2Overview_deduplicated [OF assms(1,3,4), of env x y]
    by (simp add: c overview_candidate_def CreateRL2Overview_base CreateRL2Overview_raster_size)
next
  case False
  then have "overview_candidate env cell this = this"
    by (cases cell; cases "fst cell"; cases "snd cell") (auto simp: overview_candidate_def)
  with assms show ?thesis by simp
qed

lemma overview_row_deduplicated:
  assumes "0 < m_adfGeoTransform this 1" and "0 \<le> nRasterXSize this"
    and "list_all (\<lambda>r. 0 < r) (overview_resolutions this)"
    and "overviews_deduplicated this"
  shows "0 < m_adfGeoTransform (overview_row env row this) 1 \<and>
         0 \<le> nRasterXSize (overview_row env row this) \<and>
         list_all (\<lambda>r. 0 < r) (overview_resolutions (overview_row env row this)) \<and>
         overviews_deduplicated (overview_row env row this)"
proof -
  obtain c1 c2 c4 c8 where r: "row = (c1, c2, c4, c8)" by (metis prod_cases4)
  note 1 = overview_candidate_deduplicated [OF assms, of env c1]
  note 2 = overview_candidate_deduplicated [OF 1 [THEN conjunct1] 1 [THEN conjunct2, THEN conjunct1]
      1 [THEN conjunct2, THEN conjunct2, THEN conjunct1]
      1 [THEN conjunct2, THEN conjunct2, THEN conjunct2], of env c2]
  note 3 = overview_candidate_deduplicated [OF 2 [THEN conjunct1] 2 [THEN conjunct2, THEN conjunct1]
      2 [THEN conjunct2, THEN conjunct2, THEN conjunct1]
      2 [THEN conjunct2, THEN conjunct2, THEN conjunct2], of env c4]
  note 4 = overview_candidate_deduplicated [OF 3 [THEN conjunct1] 3 [THEN conjunct2, THEN conjunct1]
      3 [THEN conjunct2, THEN conjunct2, THEN conjunct1]
      3 [THEN conjunct2, THEN conjunct2, THEN conjunct2], of env c8]
  from 4 show ?thesis by (simp add: r overview_row_def)
qed

lemma overview_rows_deduplicated:
  assumes "0 < m_adfGeoTransform this 1" and "0 \<le> nRasterXSize this"
    and "list_all (\<lambda>r. 0 < r) (overview_resolutions this)"
    and "overviews_deduplicated this"
  shows "overviews_deduplicated (fold (overview_row env) rows this)"
  using assms
proof (induction rows arbitrary: this)
  case Nil
  then show ?case by simp
next
  case (Cons row rows)
  note s = overview_row_deduplicated [OF Cons.prems, of env row]
  from Cons.IH [OF s [THEN conjunct1] s [THEN conjunct2, THEN conjunct1]
      s [THEN conjunct2, THEN conjunct2, THEN conjunct1]
      s [THEN conjunct2, THEN conjunct2, THEN conjunct2]]
  show ?case by simp
qed

lemma Open_overviews_deduplicated:
  assumes "0 < m_adfGeoTransform this 1" and "0 \<le> nRasterXSize this"
    and "m_apoOverviewDS this = []"
  shows "overviews_deduplicated (Open_overviews env this cvg)"
proof -
  have 1: "0 < m_adfGeoTransform (this\<lparr> m_bRL2MixedResolutions := b \<rparr>) 1"
      "0 \<le> nRasterXSize (this\<lparr> m_bRL2MixedResolutions := b \<rparr>)" for b
    using assms(1,2) by simp_all
  have 2: "list_all (\<lambda>r. 0 < r) (overview_resolutions (this\<lparr> m_bRL2MixedResolutions := b \<rparr>))"
      "overviews_deduplicated (this\<lparr> m_bRL2MixedResolutions := b \<rparr>)" for b
    using assms(3) by (simp_all add: overview_resolutions_def overviews_deduplicated_def)
  have f: "overviews_deduplicated
             (fold (overview_row env) rows (this\<lparr> m_bRL2MixedResolutions := b \<rparr>))" for rows b
    using 1 2 by (rule overview_rows_deduplicated)
  show ?thesis
    using f 2(2) by (simp add: Open_overviews_def Let_def)
qed

text \<open>
  Claim C5 as stated fails on a dataset of negative pixel width: lines 877 and 882 compare
  \<open>\<bar>x - r\<bar>\<close> with \<open>1e-5 * r\<close>, which is never below a negative \<open>r\<close>. The store gives
  \<open>cov\<close> the x resolution \<open>-1\<close> and an extent from \<open>x = 0\<close> down to \<open>x = -200\<close>; the
  open succeeds with a raster of 200 x 200 pixels of width \<open>-1\<close>, and of the candidates
  \<open>-1\<close>, \<open>-2\<close> and \<open>-2\<close> all three are retained, the first equal to the base resolution
  and the last two equal to each other.
\<close>

theorem negative_pixel_width_keeps_duplicates:
  "fst (OpenRasterSubDataset ex_mirrored_dbms ex_datasource ''RASTERLITE2:f.sqlite:cov'') \<and>
   m_adfGeoTransform
     (snd (OpenRasterSubDataset ex_mirrored_dbms ex_datasource ''RASTERLITE2:f.sqlite:cov'')) 1 = - 1 \<and>
   overview_resolutions
     (snd (OpenRasterSubDataset ex_mirrored_dbms ex_datasource ''RASTERLITE2:f.sqlite:cov'')) =
       [- 1, - 2, - 2] \<and>
   map (\<lambda>ovr. (nRasterXSize ovr, nRasterYSize ovr))
     (m_apoOverviewDS
        (snd (OpenRasterSubDataset ex_mirrored_dbms ex_datasource ''RASTERLITE2:f.sqlite:cov''))) =
       [(200, 200), (100, 100), (100, 100)] \<and>
   within_tolerance (- 1) (- 1) \<and> within_tolerance (- 2) (- 2) \<and>
   \<not> overviews_deduplicated
     (snd (OpenRasterSubDataset ex_mirrored_dbms ex_datasource ''RASTERLITE2:f.sqlite:cov''))"
proof -
  let ?d = "snd (OpenRasterSubDataset ex_mirrored_dbms ex_datasource ''RASTERLITE2:f.sqlite:cov'')"
  have "fst (OpenRasterSubDataset ex_mirrored_dbms ex_datasource ''RASTERLITE2:f.sqlite:cov'')"
    by code_simp
  moreover have g: "m_adfGeoTransform ?d 1 = - 1"
    by code_simp
  moreover have r: "overview_resolutions ?d = [- 1, - 2, - 2]"
    by code_simp
  moreover have "map (\<lambda>ovr. (nRasterXSize ovr, nRasterYSize ovr)) (m_apoOverviewDS ?d) =
       [(200, 200), (100, 100), (100, 100)]"
    by code_simp
  moreover have w: "within_tolerance (- 1) (- 1)" "within_tolerance (- 2) (- 2)"
    by (simp_all add: within_tolerance_def)
  moreover have "\<not> overviews_deduplicated ?d"
    unfolding overviews_deduplicated_def r g using w by simp
  ultimately show ?thesis by simp
qed

text \<open>
  Claim C5, amended. On a dataset of positive pixel width and non-negative raster width
  whose overviews have positive resolutions, any sequence of
  \<^verbatim>\<open>CreateRL2OverviewDatasetIfNeeded\<close> calls keeps the overview list deduplicated: when it
  is before the calls (as the empty list of a data source being opened is), then afterwards
  no overview's x resolution differs from the base resolution by less than \<open>1e-5\<close> times
  the base resolution, none differs from the resolution \<open>r\<close> of an overview retained before
  it by less than \<open>1e-5\<close> times \<open>r\<close>, and the retained resolutions are positive again.
  The loop of lines 826-857 is such a sequence (\<open>Open_overviews_deduplicated\<close>).
\<close>

theorem overviews_stay_deduplicated:
  assumes "0 < m_adfGeoTransform this 1" and "0 \<le> nRasterXSize this"
    and "list_all (\<lambda>r. 0 < r) (overview_resolutions this)"
    and "overviews_deduplicated this"
  shows "overviews_deduplicated
           (fold (\<lambda>c d. CreateRL2OverviewDatasetIfNeeded env d (fst c) (snd c)) cands this) \<and>
         list_all (\<lambda>r. 0 < r)
           (overview_resolutions
              (fold (\<lambda>c d. CreateRL2OverviewDatasetIfNeeded env d (fst c) (snd c)) cands this))"
  using assms
proof (induction cands arbitrary: this)
  case Nil
  then show ?case by simp
next
  case (Cons c cands)
  let ?t = "CreateRL2OverviewDatasetIfNeeded env this (fst c) (snd c)"
  have 1: "0 < m_adfGeoTransform ?t 1"
    using Cons.prems(1) by (simp add: CreateRL2Overview_base)
  have 2: "0 \<le> nRasterXSize ?t"
    using Cons.prems(2) by (simp add: CreateRL2Overview_raster_size)
  have 3: "list_all (\<lambda>r. 0 < r) (overview_resolutions ?t)"
    using Cons.prems(1-3) by (rule CreateRL2Overview_positive)
  have 4: "overviews_deduplicated ?t"
    using Cons.prems(1,3,4) by (rule CreateRL2Overview_deduplicated)
  from Cons.IH [OF 1 2 3 4] show ?case by simp
qed

theorem overviews_stay_deduplicated_witness:
  "overview_resolutions
     (fold (\<lambda>c d. CreateRL2OverviewDatasetIfNeeded ex_dbms d (fst c) (snd c))
        [(1, 1), (2, 2), (2, 2), (4, 4), (8, 8)] ex_square_datasource) = [2, 4, 8] \<and>
   map (\<lambda>ovr. (nRasterXSize ovr, nRasterYSize ovr))
     (m_apoOverviewDS
        (fold (\<lambda>c d. CreateRL2OverviewDatasetIfNeeded ex_dbms d (fst c) (snd c))
           [(1, 1), (2, 2), (2, 2), (4, 4), (8, 8)] ex_square_datasource)) =
       [(512, 512), (256, 256), (128, 128)] \<and>
   overviews_deduplicated
     (fold (\<lambda>c d. CreateRL2OverviewDatasetIfNeeded ex_dbms d (fst c) (snd c))
        [(1, 1), (2, 2), (2, 2), (4, 4), (8, 8)] ex_square_datasource)"
proof -
  have h: "0 < m_adfGeoTransform ex_square_datasource 1" "0 \<le> nRasterXSize ex_square_datasource"
      "list_all (\<lambda>r. 0 < r) (overview_resolutions ex_square_datasource)"
      "overviews_deduplicated ex_square_datasource"
    by code_simp+
  have r: "overview_resolutions
     (fold (\<lambda>c d. CreateRL2OverviewDatasetIfNeeded ex_dbms d (fst c) (snd c))
        [(1, 1), (2, 2), (2, 2), (4, 4), (8, 8)] ex_square_datasource) = [2, 4, 8]"
    by code_simp
  have s: "map (\<lambda>ovr. (nRasterXSize ovr, nRasterYSize ovr))
     (m_apoOverviewDS
        (fold (\<lambda>c d. CreateRL2OverviewDatasetIfNeeded ex_dbms d (fst c) (snd c))
           [(1, 1), (2, 2), (2, 2), (4, 4), (8, 8)] ex_square_datasource)) =
       [(512, 512), (256, 256), (128, 128)]"
    by code_simp
  show ?thesis
    using r s overviews_stay_deduplicated [OF h, of ex_dbms "[(1, 1), (2, 2), (2, 2), (4, 4), (8, 8)]"]
    by simp
qed

subsection \<open>Raster size of a coverage opened without a section\<close>






subsection \<open>The block reader\<close>

lemma wrap32_in_range: "- 2147483648 \<le> x \<Longrightarrow> x < 2147483648 \<Longrightarrow> wrap32 x = x"
  by (simp add: wrap32_def)

lemma product_bounds:
  fixes a b c d :: int
  assumes "0 < a" "0 < b" "0 < c" "0 < d" "a * b * c * d \<le> m"
  shows "a * b \<le> m" "a * b * c \<le> m"
proof -
  have ab: "0 < a * b" using assms by simp
  have abc: "0 < a * b * c" using ab assms by simp
  have "a * b * c * 1 \<le> a * b * c * d"
    using abc assms(4) by (intro mult_left_mono) auto
  then show 2: "a * b * c \<le> m" using assms(5) by simp
  have "a * b * 1 \<le> a * b * c"
    using ab assms(3) by (intro mult_left_mono) auto
  then show "a * b \<le> m" using 2 by simp
qed

lemma expected_bytes_exact:
  assumes "0 < nBlockXSize band" "0 < nBlockYSize band"
    and "0 < GDALGetDataTypeSizeBytes st (eDataType band)"
    and "papoBands poGDS \<noteq> []"
    and "nBlockXSize band * nBlockYSize band * GDALGetDataTypeSizeBytes st (eDataType band) *
           int (length (papoBands poGDS)) \<le> INT_MAX"
  shows "nExpectedBytesAllBands st poGDS band =
           nBlockXSize band * nBlockYSize band * GDALGetDataTypeSizeBytes st (eDataType band) *
             int (length (papoBands poGDS))"
proof -
  let ?a = "nBlockXSize band" and ?b = "nBlockYSize band"
  let ?c = "GDALGetDataTypeSizeBytes st (eDataType band)"
  let ?d = "int (length (papoBands poGDS))"
  have d: "0 < ?d" using assms(4) by simp
  have le: "?a * ?b * ?c * ?d \<le> 2147483647" using assms(5) by (simp add: INT_MAX_def)
  note b = product_bounds [OF assms(1) assms(2) assms(3) d le]
  have p1: "0 < ?a * ?b" using assms by simp
  have p2: "0 < ?a * ?b * ?c" using p1 assms by simp
  have p3: "0 < ?a * ?b * ?c * ?d" using p2 d by simp
  have w1: "wrap32 (?a * ?b) = ?a * ?b"
    using b(1) p1 by (intro wrap32_in_range) auto
  have w2: "wrap32 (?a * ?b * ?c) = ?a * ?b * ?c"
    using b(2) p2 by (intro wrap32_in_range) auto
  have w3: "wrap32 (?a * ?b * ?c * ?d) = ?a * ?b * ?c * ?d"
    using le p3 by (intro wrap32_in_range) auto
  show ?thesis
    by (simp add: nExpectedBytesAllBands_def nExpectedBytesOnBand_def mul32_def w1 w2 w3)
qed

text \<open>
  Claim C4. Once the storage primitive has answered a buffer, \<^verbatim>\<open>IReadBlock\<close> compares its
  size with block width x block height x bytes per sample x band count. On a difference it
  returns \<^verbatim>\<open>CE_Failure\<close>, has released the buffer and leaves the caller's block and every
  block cache as they were; on equality it goes on (it returns \<^verbatim>\<open>CE_None\<close> and releases the
  buffer at the end). The product is the one of the source as long as it fits an \<^verbatim>\<open>int\<close>,
  which the hypotheses say.
\<close>

theorem IReadBlock_size_check:
  assumes "fetch_block st poGDS band nBlockXOff nBlockYOff = Some pBuffer"
    and "0 < nBlockXSize band" "0 < nBlockYSize band"
    and "0 < GDALGetDataTypeSizeBytes st (eDataType band)"
    and "papoBands poGDS \<noteq> []"
    and "nBlockXSize band * nBlockYSize band * GDALGetDataTypeSizeBytes st (eDataType band) *
           int (length (papoBands poGDS)) \<le> INT_MAX"
  shows "(int (length pBuffer) \<noteq>
            nBlockXSize band * nBlockYSize band * GDALGetDataTypeSizeBytes st (eDataType band) *
              int (length (papoBands poGDS)) \<longrightarrow>
          IReadBlock st poGDS band nBand nBlockXOff nBlockYOff pData cache =
            \<lparr> rr_err = CE_Failure, rr_pData = pData, rr_cache = cache,
              rr_buffer_released = True \<rparr>) \<and>
         (int (length pBuffer) =
            nBlockXSize band * nBlockYSize band * GDALGetDataTypeSizeBytes st (eDataType band) *
              int (length (papoBands poGDS)) \<longrightarrow>
          rr_err (IReadBlock st poGDS band nBand nBlockXOff nBlockYOff pData cache) = CE_None \<and>
          rr_buffer_released (IReadBlock st poGDS band nBand nBlockXOff nBlockYOff pData cache))"
  using assms(1) expected_bytes_exact [OF assms(2-6)]
  by (simp add: IReadBlock_def Let_def)

theorem IReadBlock_size_check_witness:
  "IReadBlock (ex_storage\<lparr> rl2_get_raw_raster_data := (\<lambda>cov req. Some [255, 0, 255]) \<rparr>)
      ex_mono_base ex_mono_band 1 0 0 [7, 7] Map.empty =
     \<lparr> rr_err = CE_Failure, rr_pData = [7, 7], rr_cache = Map.empty, rr_buffer_released = True \<rparr> \<and>
   rr_err (IReadBlock ex_storage ex_mono_base ex_mono_band 1 0 0 [7, 7] Map.empty) = CE_None"
proof -
  let ?st = "ex_storage\<lparr> rl2_get_raw_raster_data := (\<lambda>cov req. Some [255, 0, 255]) \<rparr>"
  have f1: "fetch_block ?st ex_mono_base ex_mono_band 0 0 = Some [255, 0, 255]"
    by code_simp
  have f2: "fetch_block ex_storage ex_mono_base ex_mono_band 0 0 = Some [255, 0]"
    by code_simp
  have b: "0 < nBlockXSize ex_mono_band" "0 < nBlockYSize ex_mono_band"
      "papoBands ex_mono_base \<noteq> []"
    by code_simp+
  have s1: "0 < GDALGetDataTypeSizeBytes ?st (eDataType ex_mono_band)"
    by code_simp
  have s2: "0 < GDALGetDataTypeSizeBytes ex_storage (eDataType ex_mono_band)"
    by code_simp
  have m1: "nBlockXSize ex_mono_band * nBlockYSize ex_mono_band *
              GDALGetDataTypeSizeBytes ?st (eDataType ex_mono_band) *
              int (length (papoBands ex_mono_base)) = 2"
    by code_simp
  have m2: "nBlockXSize ex_mono_band * nBlockYSize ex_mono_band *
              GDALGetDataTypeSizeBytes ex_storage (eDataType ex_mono_band) *
              int (length (papoBands ex_mono_base)) = 2"
    by code_simp
  have i1: "nBlockXSize ex_mono_band * nBlockYSize ex_mono_band *
              GDALGetDataTypeSizeBytes ?st (eDataType ex_mono_band) *
              int (length (papoBands ex_mono_base)) \<le> INT_MAX"
    unfolding m1 by (simp add: INT_MAX_def)
  have i2: "nBlockXSize ex_mono_band * nBlockYSize ex_mono_band *
              GDALGetDataTypeSizeBytes ex_storage (eDataType ex_mono_band) *
              int (length (papoBands ex_mono_base)) \<le> INT_MAX"
    unfolding m2 by (simp add: INT_MAX_def)
  show ?thesis
    using IReadBlock_size_check [OF f1 b(1) b(2) s1 b(3) i1, of 1 "[7, 7]" Map.empty]
      IReadBlock_size_check [OF f2 b(1) b(2) s2 b(3) i2, of 1 "[7, 7]" Map.empty]
    unfolding m1 m2 by simp
qed

text \<open>
  Claim C2 as stated fails on the top-level dataset: there (\<open>m_poParentDS\<close> is \<^verbatim>\<open>NULL\<close>)
  the bytes of the storage buffer are copied as they are, so a buffer holding 255 gives a
  block holding 255, for a 1-bit monochrome coverage opened without promotion.
\<close>

theorem base_block_keeps_storage_bytes:
  "rr_err (IReadBlock ex_storage ex_mono_base ex_mono_band 1 0 0 [0, 0] Map.empty) = CE_None \<and>
   rr_pData (IReadBlock ex_storage ex_mono_base ex_mono_band 1 0 0 [0, 0] Map.empty) = [255, 0] \<and>
   block_coverage_type ex_mono_base = (RL2_SAMPLE_1_BIT, RL2_PIXEL_MONOCHROME, 1) \<and>
   \<not> m_bPromote1BitAs8Bit ex_mono_base"
  by code_simp

lemma overview_block_example:
  "rr_pData (IReadBlock ex_storage ex_mono_overview ex_mono_band 1 0 0 [0, 0] Map.empty) = [1, 0]"
  by code_simp

lemma wrap32_idem: "wrap32 (wrap32 x) = wrap32 x"
  by (simp add: wrap32_def)

lemma GDALCopyWords_bytes: "GDALCopyWords xs 0 1 1 (int (length xs)) = xs"
proof -
  have "map (\<lambda>k. take (Suc 0) (drop k xs)) [0..<length xs] = map (\<lambda>k. [xs ! k]) [0..<length xs]"
    by (simp add: take_Suc_conv_app_nth)
  then have "concat (map (\<lambda>k. take (Suc 0) (drop k xs)) [0..<length xs]) =
             concat (map (\<lambda>k. [xs ! k]) [0..<length xs])"
    by (rule arg_cong)
  also have "\<dots> = map (\<lambda>k. xs ! k) [0..<length xs]"
    by simp
  also have "\<dots> = xs"
    by (rule map_nth)
  finally show ?thesis by (simp add: GDALCopyWords_def)
qed

lemma IReadBlock_success:
  assumes "rr_err (IReadBlock st poGDS band nBand nBlockXOff nBlockYOff pData cache) = CE_None"
  obtains pBuffer where "fetch_block st poGDS band nBlockXOff nBlockYOff = Some pBuffer"
    and "int (length pBuffer) = nExpectedBytesAllBands st poGDS band"
proof (cases "fetch_block st poGDS band nBlockXOff nBlockYOff")
  case None
  with assms show ?thesis by (simp add: IReadBlock_def)
next
  case (Some pBuffer)
  with assms have "int (length pBuffer) = nExpectedBytesAllBands st poGDS band"
    by (simp add: IReadBlock_def Let_def split: if_splits)
  with Some that show ?thesis by blast
qed

lemma IReadBlock_collapsed:
  assumes "fetch_block st poGDS band nBlockXOff nBlockYOff = Some pBuffer"
    and "int (length pBuffer) = nExpectedBytesAllBands st poGDS band"
    and "fst (block_coverage_type poGDS) = RL2_SAMPLE_1_BIT"
    and "fst (snd (block_coverage_type poGDS)) = RL2_PIXEL_MONOCHROME"
    and "\<not> m_bPromote1BitAs8Bit poGDS" and "m_poParentDS poGDS \<noteq> None"
  shows "rr_pData (IReadBlock st poGDS band nBand nBlockXOff nBlockYOff pData cache) =
           store_bytes pData (map (\<lambda>b. if b > 127 then 1 else 0) pBuffer)"
proof -
  from assms(2) have n: "nat (nExpectedBytesAllBands st poGDS band) = length pBuffer" by simp
  show ?thesis using assms by (simp add: IReadBlock_def Let_def n)
qed

lemma IReadBlock_copied:
  assumes "fetch_block st poGDS band nBlockXOff nBlockYOff = Some pBuffer"
    and "int (length pBuffer) = nExpectedBytesAllBands st poGDS band"
    and "m_poParentDS poGDS = None"
  shows "rr_pData (IReadBlock st poGDS band nBand nBlockXOff nBlockYOff pData cache) =
           store_bytes pData
             (GDALCopyWords pBuffer
                (mul32 (nBand - 1) (GDALGetDataTypeSizeBytes st (eDataType band)))
                (mul32 (GDALGetDataTypeSizeBytes st (eDataType band))
                   (int (length (papoBands poGDS))))
                (GDALGetDataTypeSizeBytes st (eDataType band))
                (mul32 (nBlockXSize band) (nBlockYSize band)))"
  using assms by (simp add: IReadBlock_def Let_def)

lemma single_byte_band_copy:
  assumes "int (length pBuffer) = nExpectedBytesAllBands st poGDS band"
    and "length (papoBands poGDS) = 1" and "GDALGetDataTypeSizeBytes st (eDataType band) = 1"
    and "length pData \<le> length pBuffer"
  shows "store_bytes pData
             (GDALCopyWords pBuffer
                (mul32 (1 - 1) (GDALGetDataTypeSizeBytes st (eDataType band)))
                (mul32 (GDALGetDataTypeSizeBytes st (eDataType band))
                   (int (length (papoBands poGDS))))
                (GDALGetDataTypeSizeBytes st (eDataType band))
                (mul32 (nBlockXSize band) (nBlockYSize band))) = pBuffer"
proof -
  have w: "mul32 (nBlockXSize band) (nBlockYSize band) = int (length pBuffer)"
    using assms(1-3)
    by (simp add: nExpectedBytesAllBands_def nExpectedBytesOnBand_def mul32_def wrap32_idem)
  have z: "mul32 0 1 = 0" "mul32 1 1 = 1" by (simp_all add: mul32_def wrap32_def)
  show ?thesis
    using assms(4) by (simp add: assms(2,3) w z GDALCopyWords_bytes store_bytes_def)
qed

text \<open>
  Claim C2, amended. For a 1-bit monochrome coverage opened with promotion off, a successful
  block read depends on the dataset it is made on. On an overview dataset of the chain
  (\<open>m_poParentDS\<close> is set) it leaves only the bytes 0 and 1 in the caller's block, whatever
  bytes the storage primitive answered, the caller's block being at most as long as the
  region the loop of line 1195 writes. On the top-level dataset (\<open>m_poParentDS\<close> is
  \<^verbatim>\<open>NULL\<close>) the block receives the strided copy of the storage buffer for the band, its
  bytes unchanged; for the single byte-sized band such a coverage has, the block is the
  storage buffer itself.
\<close>

theorem overview_block_is_zero_or_one:
  assumes "fst (block_coverage_type poGDS) = RL2_SAMPLE_1_BIT"
    and "fst (snd (block_coverage_type poGDS)) = RL2_PIXEL_MONOCHROME"
    and "\<not> m_bPromote1BitAs8Bit poGDS"
    and "rr_err (IReadBlock st poGDS band nBand nBlockXOff nBlockYOff pData cache) = CE_None"
  shows "(m_poParentDS poGDS \<noteq> None \<and>
          int (length pData) \<le> nExpectedBytesAllBands st poGDS band \<longrightarrow>
            (\<forall>b \<in> set (rr_pData (IReadBlock st poGDS band nBand nBlockXOff nBlockYOff pData cache)).
               b = 0 \<or> b = 1)) \<and>
         (m_poParentDS poGDS = None \<longrightarrow>
            (\<exists>pBuffer. fetch_block st poGDS band nBlockXOff nBlockYOff = Some pBuffer \<and>
               rr_pData (IReadBlock st poGDS band nBand nBlockXOff nBlockYOff pData cache) =
                 store_bytes pData
                   (GDALCopyWords pBuffer
                      (mul32 (nBand - 1) (GDALGetDataTypeSizeBytes st (eDataType band)))
                      (mul32 (GDALGetDataTypeSizeBytes st (eDataType band))
                         (int (length (papoBands poGDS))))
                      (GDALGetDataTypeSizeBytes st (eDataType band))
                      (mul32 (nBlockXSize band) (nBlockYSize band))))) \<and>
         (m_poParentDS poGDS = None \<and>
          int (length pData) \<le> nExpectedBytesAllBands st poGDS band \<and>
          nBand = 1 \<and> length (papoBands poGDS) = 1 \<and>
          GDALGetDataTypeSizeBytes st (eDataType band) = 1 \<longrightarrow>
            fetch_block st poGDS band nBlockXOff nBlockYOff =
              Some (rr_pData (IReadBlock st poGDS band nBand nBlockXOff nBlockYOff pData cache)))"
proof -
  from assms(4) obtain pBuffer where
    f: "fetch_block st poGDS band nBlockXOff nBlockYOff = Some pBuffer"
    and l: "int (length pBuffer) = nExpectedBytesAllBands st poGDS band"
    by (rule IReadBlock_success)
  let ?r = "rr_pData (IReadBlock st poGDS band nBand nBlockXOff nBlockYOff pData cache)"
  have 1: "\<forall>b \<in> set ?r. b = 0 \<or> b = 1"
    if "m_poParentDS poGDS \<noteq> None"
      and "int (length pData) \<le> nExpectedBytesAllBands st poGDS band"
  proof -
    from that(2) l have "length pData \<le> length pBuffer" by simp
    then have "?r = map (\<lambda>b. if b > 127 then 1 else 0) pBuffer"
      using IReadBlock_collapsed [OF f l assms(1-3) that(1), of nBand pData cache]
      by (simp add: store_bytes_def)
    then show ?thesis by auto
  qed
  have 2: "?r = store_bytes pData
                   (GDALCopyWords pBuffer
                      (mul32 (nBand - 1) (GDALGetDataTypeSizeBytes st (eDataType band)))
                      (mul32 (GDALGetDataTypeSizeBytes st (eDataType band))
                         (int (length (papoBands poGDS))))
                      (GDALGetDataTypeSizeBytes st (eDataType band))
                      (mul32 (nBlockXSize band) (nBlockYSize band)))"
    if "m_poParentDS poGDS = None"
    using f l that by (rule IReadBlock_copied)
  have 3: "fetch_block st poGDS band nBlockXOff nBlockYOff = Some ?r"
    if "m_poParentDS poGDS = None"
      and "int (length pData) \<le> nExpectedBytesAllBands st poGDS band"
      and "nBand = 1" and "length (papoBands poGDS) = 1"
      and "GDALGetDataTypeSizeBytes st (eDataType band) = 1"
  proof -
    from that(2) l have "length pData \<le> length pBuffer" by simp
    from single_byte_band_copy [OF l that(4) that(5) this] 2 [OF that(1)] that(3) f
    show ?thesis by simp
  qed
  from 1 2 3 f show ?thesis by blast
qed

theorem overview_block_is_zero_or_one_witness:
  "rr_err (IReadBlock ex_storage ex_mono_overview ex_mono_band 1 0 0 [7, 7] Map.empty) = CE_None \<and>
   list_all (\<lambda>b. b = 0 \<or> b = 1)
     (rr_pData (IReadBlock ex_storage ex_mono_overview ex_mono_band 1 0 0 [7, 7] Map.empty)) \<and>
   rr_err (IReadBlock ex_storage ex_mono_base ex_mono_band 1 0 0 [7, 7] Map.empty) = CE_None \<and>
   fetch_block ex_storage ex_mono_base ex_mono_band 0 0 =
     Some (rr_pData (IReadBlock ex_storage ex_mono_base ex_mono_band 1 0 0 [7, 7] Map.empty)) \<and>
   fetch_block ex_storage ex_mono_base ex_mono_band 0 0 = Some [255, 0]"
proof -
  have h: "fst (block_coverage_type ex_mono_overview) = RL2_SAMPLE_1_BIT"
      "fst (snd (block_coverage_type ex_mono_overview)) = RL2_PIXEL_MONOCHROME"
      "\<not> m_bPromote1BitAs8Bit ex_mono_overview"
      "rr_err (IReadBlock ex_storage ex_mono_overview ex_mono_band 1 0 0 [7, 7] Map.empty) = CE_None"
    by code_simp+
  have p: "m_poParentDS ex_mono_overview \<noteq> None"
      "int (length [7, 7 :: byte]) \<le> nExpectedBytesAllBands ex_storage ex_mono_overview ex_mono_band"
    by code_simp+
  have g: "fst (block_coverage_type ex_mono_base) = RL2_SAMPLE_1_BIT"
      "fst (snd (block_coverage_type ex_mono_base)) = RL2_PIXEL_MONOCHROME"
      "\<not> m_bPromote1BitAs8Bit ex_mono_base"
      "rr_err (IReadBlock ex_storage ex_mono_base ex_mono_band 1 0 0 [7, 7] Map.empty) = CE_None"
    by code_simp+
  have q: "m_poParentDS ex_mono_base = None"
      "int (length [7, 7 :: byte]) \<le> nExpectedBytesAllBands ex_storage ex_mono_base ex_mono_band"
      "length (papoBands ex_mono_base) = 1"
      "GDALGetDataTypeSizeBytes ex_storage (eDataType ex_mono_band) = 1"
    by code_simp+
  have b: "fetch_block ex_storage ex_mono_base ex_mono_band 0 0 = Some [255, 0]"
    by code_simp
  show ?thesis
    using h(4) g(4) p q b overview_block_is_zero_or_one [OF h] overview_block_is_zero_or_one [OF g]
    by (simp add: list_all_iff)
qed

subsection \<open>Opening a coverage without a section\<close>

text \<open>
  Claim C1 as stated fails: listing the sections does not stop the resolution. The store
  has the two sections 1 and 2 of \<open>cov\<close>; opening \<open>cov\<close> without a section lists both and
  then goes on to return \<^verbatim>\<open>true\<close> with a dataset of the whole coverage, 200 x 200 pixels
  with one band, no section selected.
\<close>

theorem open_without_section_still_opens:
  "select_sections ex_dbms ''cov_sections'' =
     (True, [(Some ''1'', Some ''north''), (Some ''2'', Some ''south'')]) \<and>
   fst (OpenRasterSubDataset ex_dbms ex_datasource ''RASTERLITE2:f.sqlite:cov'') \<and>
   m_aosSubDatasets (snd (OpenRasterSubDataset ex_dbms ex_datasource ''RASTERLITE2:f.sqlite:cov'')) =
     [(''SUBDATASET_1_NAME'', ''RASTERLITE2:f.sqlite:cov:1:north''),
      (''SUBDATASET_1_DESC'', ''Coverage cov, section north / 1''),
      (''SUBDATASET_2_NAME'', ''RASTERLITE2:f.sqlite:cov:2:south''),
      (''SUBDATASET_2_DESC'', ''Coverage cov, section south / 2'')] \<and>
   m_nSectionId (snd (OpenRasterSubDataset ex_dbms ex_datasource ''RASTERLITE2:f.sqlite:cov'')) = - 1 \<and>
   nRasterXSize (snd (OpenRasterSubDataset ex_dbms ex_datasource ''RASTERLITE2:f.sqlite:cov'')) = 200 \<and>
   nRasterYSize (snd (OpenRasterSubDataset ex_dbms ex_datasource ''RASTERLITE2:f.sqlite:cov'')) = 200 \<and>
   length (papoBands (snd (OpenRasterSubDataset ex_dbms ex_datasource ''RASTERLITE2:f.sqlite:cov''))) = 1"
  by code_simp

lemma section_entries_cong:
  "m_pszFilename t = m_pszFilename this \<Longrightarrow> m_osCoverageName t = m_osCoverageName this \<Longrightarrow>
   section_entries env t = section_entries env this"
  by (intro ext) (simp add: section_entries_def)

lemma list_sections_many:
  assumes "1 < n"
  shows "int k = int (length (m_aosSubDatasets this)) div 2 + 1 \<Longrightarrow>
     list_sections env n (map (\<lambda>s. (Some (fst s), Some (snd s))) secs) (this, b) =
       (this\<lparr> m_aosSubDatasets :=
                m_aosSubDatasets this @
                  concat (map (\<lambda>(i, s). section_entries env this (int i) (fst s) (snd s))
                              (enumerate k secs)) \<rparr>, b)"
proof (induction secs arbitrary: this k)
  case Nil
  then show ?case by simp
next
  case (Cons s secs)
  let ?e = "section_entries env this (int k) (fst s) (snd s)"
  let ?t = "this\<lparr> m_aosSubDatasets := m_aosSubDatasets this @ ?e \<rparr>"
  have len: "length ?e = 2" by (simp add: section_entries_def)
  have k': "int (Suc k) = int (length (m_aosSubDatasets ?t)) div 2 + 1"
    using Cons.prems len by simp
  have c: "section_entries env ?t = section_entries env this"
    by (rule section_entries_cong) simp_all
  have step: "list_sections env n (map (\<lambda>s. (Some (fst s), Some (snd s))) (s # secs)) (this, b) =
              list_sections env n (map (\<lambda>s. (Some (fst s), Some (snd s))) secs) (?t, b)"
    using assms Cons.prems by simp
  show ?case
    unfolding step Cons.IH [OF k'] c by simp
qed

lemma list_sections_single:
  "list_sections env 1 [(Some i, Some nm)] (this, b) =
     (this\<lparr> m_nSectionId := CPLAtoGIntBig env i \<rparr>, True)"
  by simp

text \<open>
  Claim C1, amended. When the identifier has no section field and the section table (all
  of whose rows have an id and a name) holds more than one section, each section is listed
  as a \<^verbatim>\<open>SUBDATASET_n_NAME\<close>/\<^verbatim>\<open>SUBDATASET_n_DESC\<close> pair, numbered from 1 in table order, no
  section is selected, and the open continues with the whole coverage: its extent is the
  registry extent of the coverage and its result is that of the remaining steps. When the
  table holds exactly one section, that section is selected, nothing is listed, and the
  remaining steps run with the single-section flag set.
\<close>

theorem open_without_section_lists_or_selects:
  assumes "STARTS_WITH_CI pszConnectionId ''RASTERLITE2:''"
    and "CSLTokenizeString2 env pszConnectionId = [t0, t1, t2]"
    and "rl2_create_coverage_from_dbms env (OGRSQLiteParamsUnquote env t2) = Some cvg"
    and "select_sections env (OGRSQLiteParamsUnquote env t2 @ ''_sections'') =
           (True, map (\<lambda>s. (Some (fst s), Some (snd s))) secs)"
    and "this2 = this\<lparr> m_osCoverageName := OGRSQLiteParamsUnquote env t2,
                       m_nSectionId := - 1,
                       m_aosSubDatasets := [],
                       m_pRL2Coverage := Some cvg \<rparr>"
    and "listed = this2\<lparr> m_aosSubDatasets :=
                    concat (map (\<lambda>(i, s). section_entries env this2 (int i) (fst s) (snd s))
                                (enumerate 1 secs)) \<rparr>"
  shows "(1 < length secs \<longrightarrow>
            OpenRasterSubDataset env this pszConnectionId = Open_resolved env listed cvg False \<and>
            length (m_aosSubDatasets listed) = 2 * length secs \<and>
            Open_extent env listed cvg =
              (case coverage_dimensions (cvg_resolution cvg)
                      (registry_extent env (m_osCoverageName listed)) of
                 None \<Rightarrow> None
               | Some (nWidth, nHeight) \<Rightarrow>
                   Some (registry_extent env (m_osCoverageName listed), nWidth, nHeight))) \<and>
         (length secs = 1 \<longrightarrow>
            OpenRasterSubDataset env this pszConnectionId =
              Open_resolved env (this2\<lparr> m_nSectionId := CPLAtoGIntBig env (fst (hd secs)) \<rparr>)
                cvg True)"
proof (intro conjI impI)
  assume many: "1 < length secs"
  have k: "int 1 = int (length (m_aosSubDatasets this2)) div 2 + 1"
    by (simp add: assms(5))
  have s: "Open_sections env this2 = (listed, False)"
    using list_sections_many [OF _ k, of "length secs" env secs False] many
    by (simp add: Open_sections_def assms(4,5,6) Let_def)
  show "OpenRasterSubDataset env this pszConnectionId = Open_resolved env listed cvg False"
    using s by (simp add: OpenRasterSubDataset_def assms(1,2,3,5) Let_def)
  show "length (m_aosSubDatasets listed) = 2 * length secs"
    by (simp add: assms(6) length_concat comp_def section_entries_def split_def sum_list_triv)
  show "Open_extent env listed cvg =
          (case coverage_dimensions (cvg_resolution cvg)
                  (registry_extent env (m_osCoverageName listed)) of
             None \<Rightarrow> None
           | Some (nWidth, nHeight) \<Rightarrow>
               Some (registry_extent env (m_osCoverageName listed), nWidth, nHeight))"
  proof -
    have "m_nSectionId listed < 0" by (simp add: assms(5,6))
    then show ?thesis by (simp add: Open_extent_def Let_def)
  qed
next
  assume one: "length secs = 1"
  then obtain s where secs: "secs = [s]"
    by (cases secs) auto
  have s: "Open_sections env this2 =
             (this2\<lparr> m_nSectionId := CPLAtoGIntBig env (fst (hd secs)) \<rparr>, True)"
    by (simp add: Open_sections_def assms(4,5) secs Let_def)
  show "OpenRasterSubDataset env this pszConnectionId =
          Open_resolved env (this2\<lparr> m_nSectionId := CPLAtoGIntBig env (fst (hd secs)) \<rparr>) cvg True"
    using s by (simp add: OpenRasterSubDataset_def assms(1,2,3,5) Let_def)
qed

theorem open_without_section_lists_or_selects_witness:
  "OpenRasterSubDataset ex_dbms ex_datasource ''RASTERLITE2:f.sqlite:cov'' =
     Open_resolved ex_dbms
       (ex_datasource\<lparr> m_osCoverageName := ''cov'', m_nSectionId := - 1,
                       m_pRL2Coverage := Some ex_coverage,
                       m_aosSubDatasets :=
                         [(''SUBDATASET_1_NAME'', ''RASTERLITE2:f.sqlite:cov:1:north''),
                          (''SUBDATASET_1_DESC'', ''Coverage cov, section north / 1''),
                          (''SUBDATASET_2_NAME'', ''RASTERLITE2:f.sqlite:cov:2:south''),
                          (''SUBDATASET_2_DESC'', ''Coverage cov, section south / 2'')] \<rparr>)
       ex_coverage False \<and>
   OpenRasterSubDataset ex_single_dbms ex_datasource ''RASTERLITE2:f.sqlite:cov'' =
     Open_resolved ex_single_dbms
       (ex_datasource\<lparr> m_osCoverageName := ''cov'', m_aosSubDatasets := [],
                       m_pRL2Coverage := Some ex_coverage, m_nSectionId := 7 \<rparr>)
       ex_coverage True"
proof -
  let ?conn = "''RASTERLITE2:f.sqlite:cov''"
  let ?this2 = "ex_datasource\<lparr> m_osCoverageName := ''cov'',
                                m_nSectionId := - 1, m_aosSubDatasets := [],
                                m_pRL2Coverage := Some ex_coverage \<rparr>"
  let ?secs = "[(''1'', ''north''), (''2'', ''south'')]"
  have p: "STARTS_WITH_CI ?conn ''RASTERLITE2:''"
    by code_simp
  have t: "CSLTokenizeString2 ex_dbms ?conn = [''RASTERLITE2'', ''f.sqlite'', ''cov'']"
    by code_simp
  have c: "rl2_create_coverage_from_dbms ex_dbms (OGRSQLiteParamsUnquote ex_dbms ''cov'') =
             Some ex_coverage"
    by (simp add: ex_dbms_def)
  have s: "select_sections ex_dbms (OGRSQLiteParamsUnquote ex_dbms ''cov'' @ ''_sections'') =
             (True, map (\<lambda>s. (Some (fst s), Some (snd s))) ?secs)"
    by (simp add: ex_dbms_def)
  have u: "OGRSQLiteParamsUnquote ex_dbms ''cov'' = ''cov''"
    by (simp add: ex_dbms_def)
  have n: "m_pszFilename ex_datasource = ''f.sqlite''"
    by (simp add: ex_datasource_def rl2_dataset.extend_def ex_new_datasource_def)
  have esc: "OGRSQLiteEscapeName ex_dbms = (\<lambda>s. s)"
    by (simp add: ex_dbms_def)
  have l: "concat (map (\<lambda>(i, s). section_entries ex_dbms ?this2 (int i) (fst s) (snd s))
                      (enumerate 1 ?secs)) =
             [(''SUBDATASET_1_NAME'', ''RASTERLITE2:f.sqlite:cov:1:north''),
              (''SUBDATASET_1_DESC'', ''Coverage cov, section north / 1''),
              (''SUBDATASET_2_NAME'', ''RASTERLITE2:f.sqlite:cov:2:south''),
              (''SUBDATASET_2_DESC'', ''Coverage cov, section south / 2'')]"
    by code_simp
  have p1: "STARTS_WITH_CI ?conn ''RASTERLITE2:''"
    by code_simp
  have t1: "CSLTokenizeString2 ex_single_dbms ?conn = [''RASTERLITE2'', ''f.sqlite'', ''cov'']"
    by code_simp
  have c1: "rl2_create_coverage_from_dbms ex_single_dbms
              (OGRSQLiteParamsUnquote ex_single_dbms ''cov'') = Some ex_coverage"
    by (simp add: ex_single_dbms_def ex_dbms_def)
  have s1: "select_sections ex_single_dbms
              (OGRSQLiteParamsUnquote ex_single_dbms ''cov'' @ ''_sections'') =
             (True, map (\<lambda>s. (Some (fst s), Some (snd s))) [(''7'', ''only'')])"
    by (simp add: ex_single_dbms_def ex_dbms_def)
  have u1: "OGRSQLiteParamsUnquote ex_single_dbms ''cov'' = ''cov''"
    by (simp add: ex_single_dbms_def ex_dbms_def)
  have a1: "CPLAtoGIntBig ex_single_dbms ''7'' = 7"
    by code_simp
  show ?thesis
    using open_without_section_lists_or_selects [where this = ex_datasource, OF p t c s refl refl]
      open_without_section_lists_or_selects [where this = ex_datasource, OF p1 t1 c1 s1 refl refl]
    unfolding u u1 l by (simp add: a1)
qed

subsection \<open>What the phases of OpenRasterSubDataset leave alone\<close>

lemma list_sections_frame:
  "m_pRL2Coverage (fst (list_sections env n rows st)) = m_pRL2Coverage (fst st) \<and>
   ds_metadata (fst (list_sections env n rows st)) = ds_metadata (fst st) \<and>
   m_apoOverviewDS (fst (list_sections env n rows st)) = m_apoOverviewDS (fst st)"
  by (induction env n rows st rule: list_sections.induct) simp_all

lemma Open_sections_frame:
  "m_pRL2Coverage (fst (Open_sections env this)) = m_pRL2Coverage this \<and>
   ds_metadata (fst (Open_sections env this)) = ds_metadata this \<and>
   m_apoOverviewDS (fst (Open_sections env this)) = m_apoOverviewDS this"
  using list_sections_frame [of env _ _ "(this, False)"]
  by (simp add: Open_sections_def Let_def)

lemma Open_geotransform_frame:
  "m_pRL2Coverage (Open_geotransform env this cvg g) = m_pRL2Coverage this \<and>
   ds_metadata (Open_geotransform env this cvg g) = ds_metadata this \<and>
   m_apoOverviewDS (Open_geotransform env this cvg g) = m_apoOverviewDS this"
  by (simp add: Open_geotransform_def split: prod.splits)

lemma Open_promote_frame:
  "m_pRL2Coverage (Open_promote env this s p) = m_pRL2Coverage this \<and>
   ds_metadata (Open_promote env this s p) = ds_metadata this \<and>
   m_apoOverviewDS (Open_promote env this s p) = m_apoOverviewDS this"
  by (simp add: Open_promote_def)

lemma Open_compression_frame:
  "m_pRL2Coverage (Open_compression this cvg) = m_pRL2Coverage this \<and>
   m_bPromote1BitAs8Bit (Open_compression this cvg) = m_bPromote1BitAs8Bit this \<and>
   m_apoOverviewDS (Open_compression this cvg) = m_apoOverviewDS this \<and>
   ds_metadata (Open_compression this cvg) ([], k) = ds_metadata this ([], k)"
  by (simp add: Open_compression_def SetMetadataItem_def Let_def split: prod.splits option.splits)

lemma Open_success:
  assumes "OpenRasterSubDataset env this pszConnectionId = (True, ds)"
  shows "\<exists>this5 cvg bSingleSection nBits eDT bSigned.
           Open_content env this5 cvg bSingleSection nBits eDT bSigned = (True, ds) \<and>
           m_pRL2Coverage this5 = Some cvg \<and>
           sample_type_info (fst (cvg_type cvg)) = Some (nBits, eDT, bSigned) \<and>
           m_apoOverviewDS this5 = m_apoOverviewDS this \<and>
           (\<forall>k. ds_metadata this5 ([], k) = ds_metadata this ([], k))"
proof -
  let ?t = "CSLTokenizeString2 env pszConnectionId"
  let ?this2 = "this\<lparr> m_osCoverageName := OGRSQLiteParamsUnquote env (?t ! 2),
                       m_nSectionId := (if length ?t \<ge> 4 then CPLAtoGIntBig env (?t ! 3) else - 1),
                       m_aosSubDatasets := [],
                       m_pRL2Coverage := rl2_create_coverage_from_dbms env
                                           (OGRSQLiteParamsUnquote env (?t ! 2)) \<rparr>"
  from assms obtain cvg where c: "m_pRL2Coverage ?this2 = Some cvg"
    and r: "Open_resolved env (fst (Open_sections env ?this2)) cvg
              (snd (Open_sections env ?this2)) = (True, ds)"
    by (auto simp: OpenRasterSubDataset_def Let_def split: if_splits option.splits)
  let ?this3 = "fst (Open_sections env ?this2)"
  from r obtain g nBits eDT bSigned where
    s: "sample_type_info (fst (cvg_type cvg)) = Some (nBits, eDT, bSigned)"
    and k: "Open_content env
              (Open_compression
                 (Open_promote env (Open_geotransform env ?this3 cvg g)
                    (fst (cvg_type cvg)) (fst (snd (cvg_type cvg)))) cvg)
              cvg (snd (Open_sections env ?this2)) nBits eDT bSigned = (True, ds)"
    by (auto simp: Open_resolved_def Let_def split: if_splits option.splits)
  let ?this5 = "Open_compression
                 (Open_promote env (Open_geotransform env ?this3 cvg g)
                    (fst (cvg_type cvg)) (fst (snd (cvg_type cvg)))) cvg"
  have f1: "m_pRL2Coverage ?this5 = Some cvg"
    using c by (simp add: Open_compression_frame Open_promote_frame Open_geotransform_frame
        Open_sections_frame)
  have f2: "m_apoOverviewDS ?this5 = m_apoOverviewDS this"
    by (simp add: Open_compression_frame Open_promote_frame Open_geotransform_frame
        Open_sections_frame)
  have f3: "\<forall>k. ds_metadata ?this5 ([], k) = ds_metadata this ([], k)"
    by (simp add: Open_compression_frame Open_promote_frame Open_geotransform_frame
        Open_sections_frame)
  from k s f1 f2 f3 show ?thesis by blast
qed

subsection \<open>Overviews only extend the overview list\<close>

lemma extends_overviews_refl: "extends_overviews this this"
  by (simp add: extends_overviews_def list_all_iff)

lemma extends_overviews_trans:
  "extends_overviews a b \<Longrightarrow> extends_overviews b c \<Longrightarrow> extends_overviews a c"
  by (auto simp: extends_overviews_def list_all_iff)

lemma CreateRL2Overview_extends:
  "extends_overviews this (CreateRL2OverviewDatasetIfNeeded env this x y)"
  by (simp add: CreateRL2OverviewDatasetIfNeeded_def extends_overviews_def Let_def list_all_iff)

lemma overview_candidate_extends: "extends_overviews this (overview_candidate env cell this)"
  by (simp add: overview_candidate_def CreateRL2Overview_extends extends_overviews_refl
      split: prod.splits option.splits)

lemma overview_row_extends: "extends_overviews this (overview_row env row this)"
proof -
  obtain c1 c2 c4 c8 where r: "row = (c1, c2, c4, c8)"
    by (metis prod_cases4)
  let ?a = "overview_candidate env c1 this"
  let ?b = "overview_candidate env c2 ?a"
  let ?c = "overview_candidate env c4 ?b"
  have "extends_overviews this ?a" by (rule overview_candidate_extends)
  then have "extends_overviews this ?b"
    by (rule extends_overviews_trans) (rule overview_candidate_extends)
  then have "extends_overviews this ?c"
    by (rule extends_overviews_trans) (rule overview_candidate_extends)
  then have "extends_overviews this (overview_candidate env c8 ?c)"
    by (rule extends_overviews_trans) (rule overview_candidate_extends)
  then show ?thesis by (simp add: overview_row_def r)
qed

lemma overview_rows_extend: "extends_overviews this (fold (overview_row env) rows this)"
proof (induction rows arbitrary: this)
  case Nil
  show ?case by (simp add: extends_overviews_refl)
next
  case (Cons row rows)
  have "extends_overviews this (overview_row env row this)"
    by (rule overview_row_extends)
  then have "extends_overviews this (fold (overview_row env) rows (overview_row env row this))"
    by (rule extends_overviews_trans) (rule Cons.IH)
  then show ?case by simp
qed

lemma Open_overviews_extends: "extends_overviews this (Open_overviews env this cvg)"
proof -
  let ?this1 = "this\<lparr> m_bRL2MixedResolutions := (cvg_mixed_resolutions cvg \<noteq> 0) \<rparr>"
  have a: "extends_overviews this ?this1"
    by (simp add: extends_overviews_def list_all_iff)
  have "extends_overviews ?this1 (Open_overviews env this cvg)"
    by (simp add: Open_overviews_def Let_def extends_overviews_refl overview_rows_extend)
  with a show ?thesis by (rule extends_overviews_trans)
qed

subsection \<open>Bands, statistics and descriptions\<close>

lemma Open_content_success:
  assumes "Open_content env this cvg bSingleSection nBits eDT bSigned = (True, ds)"
  shows "ds = Open_overviews env
                (Open_descriptions env
                   (Open_statistics env
                      (Open_bands env this
                         (fetch_nodata_values (cvg_no_data cvg) (fst (cvg_type cvg))
                            (fst (snd (cvg_type cvg))) (snd (snd (cvg_type cvg))))
                         (fst (snd (cvg_type cvg))) (snd (snd (cvg_type cvg))) eDT nBits bSigned
                         (int (fst (cvg_tile_size cvg))) (int (snd (cvg_tile_size cvg))))
                      nBits bSingleSection))
                cvg"
  using assms by (simp add: Open_content_def Let_def split: if_splits)

lemma Open_descriptions_frame:
  "papoBands (Open_descriptions env this) = papoBands this \<and>
   m_pRL2Coverage (Open_descriptions env this) = m_pRL2Coverage this \<and>
   m_bPromote1BitAs8Bit (Open_descriptions env this) = m_bPromote1BitAs8Bit this \<and>
   m_apoOverviewDS (Open_descriptions env this) = m_apoOverviewDS this \<and>
   ds_metadata (Open_descriptions env this) ([], ''NODATA_VALUES'') =
     ds_metadata this ([], ''NODATA_VALUES'')"
  by (simp add: Open_descriptions_def SetMetadataItem_def Let_def split: prod.splits option.splits)

lemma band_statistics_nodata:
  "GetNoDataValue (band_statistics env pStatistics nBits bPromote i band) pam =
     GetNoDataValue band pam"
  by (simp add: band_statistics_def GetNoDataValue_def split: option.splits prod.splits)

lemma band_statistics_promoted:
  "band_statistics env pStatistics 1 True i band = band"
  by (simp add: band_statistics_def)

lemma statistics_keep_nodata:
  "map (\<lambda>band. GetNoDataValue band pam)
       (map (\<lambda>(i, band). band_statistics env pStatistics nBits bPromote i band)
            (enumerate n bands)) =
   map (\<lambda>band. GetNoDataValue band pam) bands"
  by (induction bands arbitrary: n) (simp_all add: band_statistics_nodata)

lemma statistics_skip_promoted:
  "map (\<lambda>(i, band). band_statistics env pStatistics 1 True i band) (enumerate n bands) = bands"
  by (induction bands arbitrary: n) (simp_all add: band_statistics_promoted)

lemma Open_statistics_frame:
  "m_pRL2Coverage (Open_statistics env this nBits b) = m_pRL2Coverage this \<and>
   m_bPromote1BitAs8Bit (Open_statistics env this nBits b) = m_bPromote1BitAs8Bit this \<and>
   m_apoOverviewDS (Open_statistics env this nBits b) = m_apoOverviewDS this \<and>
   ds_metadata (Open_statistics env this nBits b) = ds_metadata this"
  by (simp add: Open_statistics_def split: option.splits)

lemma Open_statistics_nodata:
  "map (\<lambda>band. GetNoDataValue band pam) (papoBands (Open_statistics env this nBits b)) =
   map (\<lambda>band. GetNoDataValue band pam) (papoBands this)"
  by (auto simp add: Open_statistics_def statistics_keep_nodata simp del: map_map
      split: option.splits)

lemma Open_statistics_promoted:
  "m_bPromote1BitAs8Bit this \<Longrightarrow> papoBands (Open_statistics env this 1 b) = papoBands this"
  by (auto simp add: Open_statistics_def statistics_skip_promoted split: option.splits)

lemma Open_bands_frame:
  "m_pRL2Coverage (Open_bands env this vs p n eDT nBits s bx by) = m_pRL2Coverage this \<and>
   m_bPromote1BitAs8Bit (Open_bands env this vs p n eDT nBits s bx by) =
     m_bPromote1BitAs8Bit this \<and>
   m_apoOverviewDS (Open_bands env this vs p n eDT nBits s bx by) = m_apoOverviewDS this"
  by (simp add: Open_bands_def Let_def)

lemma new_band_metadata:
  "k \<noteq> ''NBITS'' \<Longrightarrow> k \<noteq> ''SOURCE_NBITS'' \<Longrightarrow> k \<noteq> ''PIXELTYPE'' \<Longrightarrow>
   band_metadata (new_RL2RasterBand i p eDT nBits pr s bx by h v) (d, k) = None"
  by (simp add: new_RL2RasterBand_def SetMetadataItem_def Let_def)

lemma copied_band_metadata:
  "k \<noteq> ''NBITS'' \<Longrightarrow> k \<noteq> ''PIXELTYPE'' \<Longrightarrow>
   band_metadata (copy_RL2RasterBand band) (d, k) = None"
  by (simp add: copy_RL2RasterBand_def SetMetadataItem_def)

lemma statistics_keys:
  assumes "key \<in> {''STATISTICS_MINIMUM'', ''STATISTICS_MAXIMUM'', ''STATISTICS_MEAN'',
                  ''STATISTICS_STDDEV''}"
  shows "key \<noteq> ''NBITS''" "key \<noteq> ''SOURCE_NBITS''" "key \<noteq> ''PIXELTYPE''"
  using assms by auto

text \<open>
  Claim C10. When \<^verbatim>\<open>OpenRasterSubDataset\<close> succeeds on a coverage of 1-bit sample type
  with the promote-to-8-bit flag set, no band of the dataset has a \<^verbatim>\<open>STATISTICS_MINIMUM\<close>,
  \<^verbatim>\<open>STATISTICS_MAXIMUM\<close>, \<^verbatim>\<open>STATISTICS_MEAN\<close> or \<^verbatim>\<open>STATISTICS_STDDEV\<close> item in any domain,
  whatever statistics the store holds; nor has any band of an overview, when the data source
  had no overview before the call.
\<close>

theorem promoted_one_bit_bands_have_no_statistics:
  assumes "OpenRasterSubDataset env this pszConnectionId = (True, ds)"
    and "m_pRL2Coverage ds = Some cvg"
    and "fst (cvg_type cvg) = RL2_SAMPLE_1_BIT"
    and "m_bPromote1BitAs8Bit ds"
    and "key \<in> {''STATISTICS_MINIMUM'', ''STATISTICS_MAXIMUM'', ''STATISTICS_MEAN'',
                 ''STATISTICS_STDDEV''}"
  shows "(\<forall>band \<in> set (papoBands ds). band_metadata band (domain, key) = None) \<and>
         (m_apoOverviewDS this = [] \<longrightarrow>
            (\<forall>ovr \<in> set (m_apoOverviewDS ds). \<forall>band \<in> set (papoBands ovr).
               band_metadata band (domain, key) = None))"
proof -
  from Open_success [OF assms(1)] obtain this5 cvg' bS nBits eDT bSigned where
    c: "Open_content env this5 cvg' bS nBits eDT bSigned = (True, ds)"
    and cv: "m_pRL2Coverage this5 = Some cvg'"
    and si: "sample_type_info (fst (cvg_type cvg')) = Some (nBits, eDT, bSigned)"
    and ov: "m_apoOverviewDS this5 = m_apoOverviewDS this"
    by blast
  let ?this6 = "Open_bands env this5
                  (fetch_nodata_values (cvg_no_data cvg') (fst (cvg_type cvg'))
                     (fst (snd (cvg_type cvg'))) (snd (snd (cvg_type cvg'))))
                  (fst (snd (cvg_type cvg'))) (snd (snd (cvg_type cvg'))) eDT nBits bSigned
                  (int (fst (cvg_tile_size cvg'))) (int (snd (cvg_tile_size cvg')))"
  let ?this7 = "Open_statistics env ?this6 nBits bS"
  let ?this8 = "Open_descriptions env ?this7"
  have ds: "ds = Open_overviews env ?this8 cvg'"
    by (rule Open_content_success [OF c])
  have ext: "extends_overviews ?this8 ds"
    unfolding ds by (rule Open_overviews_extends)
  have "m_pRL2Coverage ds = Some cvg'"
    using ext cv
    by (simp add: extends_overviews_def Open_descriptions_frame Open_statistics_frame
        Open_bands_frame)
  with assms(2) have same: "cvg' = cvg" by simp
  have nBits: "nBits = 1"
    using si assms(3) by (simp add: same sample_type_info_def)
  have promote: "m_bPromote1BitAs8Bit ?this6"
    using ext assms(4)
    by (simp add: extends_overviews_def Open_descriptions_frame Open_statistics_frame)
  have bands: "papoBands ds = papoBands ?this6"
    using ext Open_statistics_promoted [OF promote]
    by (simp add: extends_overviews_def Open_descriptions_frame nBits)
  note keys = statistics_keys [OF assms(5)]
  have new: "\<forall>band \<in> set (papoBands ?this6). band_metadata band (domain, key) = None"
    using keys by (auto simp: Open_bands_def Let_def new_band_metadata)
  have b8: "papoBands ?this8 = papoBands ds"
    using ext by (simp add: extends_overviews_def)
  have ovs: "m_apoOverviewDS this = [] \<Longrightarrow> ovr \<in> set (m_apoOverviewDS ds) \<Longrightarrow>
             papoBands ovr = map copy_RL2RasterBand (papoBands ds)" for ovr
    using ext ov
    by (auto simp: extends_overviews_def list_all_iff Open_descriptions_frame
        Open_statistics_frame Open_bands_frame)
  show ?thesis
    using new bands ovs keys by (auto simp: copied_band_metadata)
qed

theorem promoted_one_bit_bands_have_no_statistics_witness:
  "fst (OpenRasterSubDataset ex_mono_dbms ex_datasource ''RASTERLITE2:f.sqlite:mono'') \<and>
   rl2_create_raster_statistics_from_dbms ex_mono_dbms ''mono'' \<noteq> None \<and>
   list_all (\<lambda>band. band_metadata band ([], ''STATISTICS_MEAN'') = None)
     (papoBands (snd (OpenRasterSubDataset ex_mono_dbms ex_datasource
        ''RASTERLITE2:f.sqlite:mono''))) \<and>
   list_all (\<lambda>ovr. list_all (\<lambda>band. band_metadata band ([], ''STATISTICS_MEAN'') = None)
                      (papoBands ovr))
     (m_apoOverviewDS (snd (OpenRasterSubDataset ex_mono_dbms ex_datasource
        ''RASTERLITE2:f.sqlite:mono'')))"
proof -
  let ?X = "OpenRasterSubDataset ex_mono_dbms ex_datasource ''RASTERLITE2:f.sqlite:mono''"
  have f: "fst ?X"
    by code_simp
  then have e: "?X = (True, snd ?X)"
    by (simp add: prod_eq_iff)
  have c: "m_pRL2Coverage (snd ?X) = Some ex_mono_coverage"
    by code_simp
  have s: "fst (cvg_type ex_mono_coverage) = RL2_SAMPLE_1_BIT"
    by code_simp
  have p: "m_bPromote1BitAs8Bit (snd ?X)"
    by code_simp
  have k: "''STATISTICS_MEAN'' \<in> {''STATISTICS_MINIMUM'', ''STATISTICS_MAXIMUM'',
             ''STATISTICS_MEAN'', ''STATISTICS_STDDEV''}"
    by simp
  have o: "m_apoOverviewDS ex_datasource = []"
    by code_simp
  have st: "rl2_create_raster_statistics_from_dbms ex_mono_dbms ''mono'' \<noteq> None"
    by (simp add: ex_mono_dbms_def ex_dbms_def)
  show ?thesis
    using f st o promoted_one_bit_bands_have_no_statistics [OF e c s p k, of "[]"]
    by (simp add: list_all_iff)
qed

text \<open>With \<^verbatim>\<open>1BIT_AS_8BIT=NO\<close> the same open does attach the statistics of the store.\<close>

lemma unpromoted_one_bit_has_statistics:
  "map (\<lambda>band. band_metadata band ([], ''STATISTICS_MEAN''))
     (papoBands (snd (OpenRasterSubDataset ex_mono_dbms
        (ex_datasource\<lparr> papszOpenOptions := [''1BIT_AS_8BIT'' \<mapsto> ''NO''] \<rparr>)
        ''RASTERLITE2:f.sqlite:mono''))) = [Some ''100'']"
  by code_simp

subsection \<open>No-data\<close>

lemma nodata_fold:
  assumes "\<forall>v. fmt v \<noteq> []"
  shows "acc \<noteq> [] \<Longrightarrow>
         fold (\<lambda>v os. (if os \<noteq> [] then os @ '' '' else os) @ fmt v) vs acc =
           acc @ concat (map (\<lambda>v. '' '' @ fmt v) vs)"
  by (induction vs arbitrary: acc) simp_all

lemma space_joined_Cons: "space_joined (x # xs) = x @ concat (map (\<lambda>y. '' '' @ y) xs)"
  by (induction xs arbitrary: x) simp_all

lemma nodata_values_string_joined:
  assumes "\<forall>v. fmt v \<noteq> []"
  shows "nodata_values_string fmt vs = space_joined (map fmt vs)"
proof (cases vs)
  case Nil
  then show ?thesis by (simp add: nodata_values_string_def)
next
  case (Cons v vs')
  have "fmt v \<noteq> []" using assms by simp
  then show ?thesis
    using nodata_fold [OF assms, of "fmt v" vs']
    by (simp add: nodata_values_string_def Cons space_joined_Cons comp_def)
qed

lemma fetch_nodata_values_cases:
  "fetch_nodata_values (Some p) s pt n =
     (if px_sample_type p = s \<and> px_pixel_type p = pt \<and> px_bands p = n
      then map (nodata_sample p s) [0..<n] else [])"
  by (simp add: fetch_nodata_values_def)

lemma new_band_nodata:
  "GetNoDataValue (new_RL2RasterBand i p eDT nBits pr s bx by h v) pam =
     (if h then (True, v) else pam)"
  by (simp add: GetNoDataValue_def new_RL2RasterBand_def Let_def)

lemma Open_bands_nodata:
  "map (\<lambda>band. GetNoDataValue band pam)
       (papoBands (Open_bands env this vs p n eDT nBits s bx by)) =
     replicate n (if length vs = 1 \<and> n = 1 then (True, vs ! 0) else pam)"
  by (simp add: Open_bands_def Let_def comp_def new_band_nodata map_replicate_const)

lemma Open_bands_metadata:
  "ds_metadata (Open_bands env this vs p n eDT nBits s bx by) ([], ''NODATA_VALUES'') =
     (if length vs = n \<and> 1 < n then Some (nodata_values_string (fmt_g env) vs)
      else ds_metadata this ([], ''NODATA_VALUES''))"
  by (simp add: Open_bands_def Let_def SetMetadataItem_def)

text \<open>
  Claim C8. After a successful open of a coverage that stores a no-data pixel: if the
  pixel's sample type, pixel type or band count differs from the coverage's, no band answers
  a no-data value of its own (\<^verbatim>\<open>GetNoDataValue\<close> falls through to the PAM answer) and the
  \<^verbatim>\<open>NODATA_VALUES\<close> item is left as it was. If all three agree and there is one band, that
  band answers the value read from the pixel, and \<^verbatim>\<open>NODATA_VALUES\<close> is left as it was. If
  all three agree and there are several bands, \<^verbatim>\<open>NODATA_VALUES\<close> is the values of all bands
  formatted with \<^verbatim>\<open>%g\<close> and joined by single spaces, and no band answers a value of its
  own.
\<close>

theorem stored_nodata_exposure:
  assumes "OpenRasterSubDataset env this pszConnectionId = (True, ds)"
    and "m_pRL2Coverage ds = Some cvg"
    and "cvg_type cvg = (nSampleType, nPixelType, l_nBands)"
    and "cvg_no_data cvg = Some noData"
  shows "(px_sample_type noData \<noteq> nSampleType \<or> px_pixel_type noData \<noteq> nPixelType \<or>
          px_bands noData \<noteq> l_nBands \<longrightarrow>
            map (\<lambda>band. GetNoDataValue band pam) (papoBands ds) = replicate l_nBands pam \<and>
            ds_metadata ds ([], ''NODATA_VALUES'') = ds_metadata this ([], ''NODATA_VALUES'')) \<and>
         (px_sample_type noData = nSampleType \<and> px_pixel_type noData = nPixelType \<and>
          px_bands noData = l_nBands \<longrightarrow>
            (l_nBands = 1 \<longrightarrow>
               map (\<lambda>band. GetNoDataValue band pam) (papoBands ds) =
                 [(True, nodata_sample noData nSampleType 0)] \<and>
               ds_metadata ds ([], ''NODATA_VALUES'') = ds_metadata this ([], ''NODATA_VALUES'')) \<and>
            (1 < l_nBands \<longrightarrow>
               ds_metadata ds ([], ''NODATA_VALUES'') =
                 Some (nodata_values_string (fmt_g env)
                         (map (nodata_sample noData nSampleType) [0..<l_nBands])) \<and>
               ((\<forall>v. fmt_g env v \<noteq> []) \<longrightarrow>
                  nodata_values_string (fmt_g env)
                    (map (nodata_sample noData nSampleType) [0..<l_nBands]) =
                  space_joined (map (fmt_g env)
                    (map (nodata_sample noData nSampleType) [0..<l_nBands]))) \<and>
               map (\<lambda>band. GetNoDataValue band pam) (papoBands ds) = replicate l_nBands pam))"
proof -
  from Open_success [OF assms(1)] obtain this5 cvg' bS nBits eDT bSigned where
    c: "Open_content env this5 cvg' bS nBits eDT bSigned = (True, ds)"
    and cv: "m_pRL2Coverage this5 = Some cvg'"
    and md: "\<forall>k. ds_metadata this5 ([], k) = ds_metadata this ([], k)"
    by blast
  let ?vs = "fetch_nodata_values (cvg_no_data cvg') (fst (cvg_type cvg'))
               (fst (snd (cvg_type cvg'))) (snd (snd (cvg_type cvg')))"
  let ?this6 = "Open_bands env this5 ?vs
                  (fst (snd (cvg_type cvg'))) (snd (snd (cvg_type cvg'))) eDT nBits bSigned
                  (int (fst (cvg_tile_size cvg'))) (int (snd (cvg_tile_size cvg')))"
  let ?this7 = "Open_statistics env ?this6 nBits bS"
  let ?this8 = "Open_descriptions env ?this7"
  have ds: "ds = Open_overviews env ?this8 cvg'"
    by (rule Open_content_success [OF c])
  have ext: "extends_overviews ?this8 ds"
    unfolding ds by (rule Open_overviews_extends)
  have "m_pRL2Coverage ds = Some cvg'"
    using ext cv
    by (simp add: extends_overviews_def Open_descriptions_frame Open_statistics_frame
        Open_bands_frame)
  with assms(2) have same: "cvg' = cvg" by simp
  have "papoBands ds = papoBands ?this7"
    using ext by (simp add: extends_overviews_def Open_descriptions_frame)
  then have "map (\<lambda>band. GetNoDataValue band pam) (papoBands ds) =
             map (\<lambda>band. GetNoDataValue band pam) (papoBands ?this7)"
    by simp
  also have "\<dots> = map (\<lambda>band. GetNoDataValue band pam) (papoBands ?this6)"
    by (rule Open_statistics_nodata)
  also have "\<dots> = replicate (snd (snd (cvg_type cvg')))
                     (if length ?vs = 1 \<and> snd (snd (cvg_type cvg')) = 1
                      then (True, ?vs ! 0) else pam)"
    by (rule Open_bands_nodata)
  finally have bands: "map (\<lambda>band. GetNoDataValue band pam) (papoBands ds) =
          replicate l_nBands (if length ?vs = 1 \<and> l_nBands = 1 then (True, ?vs ! 0) else pam)"
    unfolding same assms(3) fst_conv snd_conv .
  have "ds_metadata ds ([], ''NODATA_VALUES'') = ds_metadata ?this8 ([], ''NODATA_VALUES'')"
    using ext by (simp add: extends_overviews_def)
  also have "\<dots> = ds_metadata ?this6 ([], ''NODATA_VALUES'')"
    by (simp add: Open_descriptions_frame Open_statistics_frame)
  also have "\<dots> = (if length ?vs = snd (snd (cvg_type cvg')) \<and> 1 < snd (snd (cvg_type cvg'))
                     then Some (nodata_values_string (fmt_g env) ?vs)
                     else ds_metadata this5 ([], ''NODATA_VALUES''))"
    by (rule Open_bands_metadata)
  finally have meta: "ds_metadata ds ([], ''NODATA_VALUES'') =
          (if length ?vs = l_nBands \<and> 1 < l_nBands
           then Some (nodata_values_string (fmt_g env) ?vs)
           else ds_metadata this ([], ''NODATA_VALUES''))"
    unfolding same assms(3) fst_conv snd_conv using md by simp
  have vs: "fetch_nodata_values (cvg_no_data cvg) nSampleType nPixelType l_nBands =
                  (if px_sample_type noData = nSampleType \<and> px_pixel_type noData = nPixelType \<and>
                      px_bands noData = l_nBands
                   then map (nodata_sample noData nSampleType) [0..<l_nBands] else [])"
    by (simp add: assms(4) fetch_nodata_values_cases)
  note bands = bands [unfolded same assms(3) fst_conv snd_conv]
  note meta = meta [unfolded same assms(3) fst_conv snd_conv]
  show ?thesis
    unfolding bands meta vs
    by (auto simp: nodata_values_string_joined)
qed

theorem stored_nodata_exposure_witness:
  "ds_metadata (snd (OpenRasterSubDataset ex_nodata_dbms ex_datasource ''RASTERLITE2:f.sqlite:rgb''))
     ([], ''NODATA_VALUES'') = Some ''255 255 255'' \<and>
   map (\<lambda>band. GetNoDataValue band (False, 0))
     (papoBands (snd (OpenRasterSubDataset ex_nodata_dbms ex_datasource
        ''RASTERLITE2:f.sqlite:rgb''))) = [(False, 0), (False, 0), (False, 0)] \<and>
   map (\<lambda>band. GetNoDataValue band (False, 1))
     (papoBands (snd (OpenRasterSubDataset ex_nodata_dbms ex_datasource
        ''RASTERLITE2:f.sqlite:gray''))) = [(True, 0)] \<and>
   map (\<lambda>band. GetNoDataValue band (False, 1))
     (papoBands (snd (OpenRasterSubDataset ex_nodata_dbms ex_datasource
        ''RASTERLITE2:f.sqlite:odd''))) = [(False, 1)]"
proof -
  let ?R = "OpenRasterSubDataset ex_nodata_dbms ex_datasource ''RASTERLITE2:f.sqlite:rgb''"
  let ?G = "OpenRasterSubDataset ex_nodata_dbms ex_datasource ''RASTERLITE2:f.sqlite:gray''"
  let ?O = "OpenRasterSubDataset ex_nodata_dbms ex_datasource ''RASTERLITE2:f.sqlite:odd''"
  let ?gray = "ex_coverage\<lparr> cvg_no_data := Some ex_black \<rparr>"
  let ?odd = "ex_coverage\<lparr> cvg_no_data := Some ex_white \<rparr>"
  have "fst ?R" "fst ?G" "fst ?O"
    by code_simp+
  then have e: "?R = (True, snd ?R)" "?G = (True, snd ?G)" "?O = (True, snd ?O)"
    by (simp_all add: prod_eq_iff)
  have c: "m_pRL2Coverage (snd ?R) = Some ex_rgb_coverage"
      "m_pRL2Coverage (snd ?G) = Some ?gray" "m_pRL2Coverage (snd ?O) = Some ?odd"
    by code_simp+
  have t: "cvg_type ex_rgb_coverage = (RL2_SAMPLE_UINT8, RL2_PIXEL_RGB, 3)"
      "cvg_type ?gray = (RL2_SAMPLE_UINT8, RL2_PIXEL_GRAYSCALE, 1)"
      "cvg_type ?odd = (RL2_SAMPLE_UINT8, RL2_PIXEL_GRAYSCALE, 1)"
    by (simp_all add: ex_rgb_coverage_def ex_coverage_def)
  have n: "cvg_no_data ex_rgb_coverage = Some ex_white" "cvg_no_data ?gray = Some ex_black"
      "cvg_no_data ?odd = Some ex_white"
    by (simp_all add: ex_rgb_coverage_def)
  have w: "px_sample_type ex_white = RL2_SAMPLE_UINT8" "px_pixel_type ex_white = RL2_PIXEL_RGB"
      "px_bands ex_white = 3"
    by (simp_all add: ex_white_def)
  have b: "px_sample_type ex_black = RL2_SAMPLE_UINT8"
      "px_pixel_type ex_black = RL2_PIXEL_GRAYSCALE" "px_bands ex_black = 1"
    by (simp_all add: ex_black_def)
  have v: "nodata_values_string (fmt_g ex_nodata_dbms)
             (map (nodata_sample ex_white RL2_SAMPLE_UINT8) [0..<3]) = ''255 255 255''"
    by code_simp
  have z: "nodata_sample ex_black RL2_SAMPLE_UINT8 0 = 0"
    by code_simp
  show ?thesis
    using stored_nodata_exposure [OF e(1) c(1) t(1) n(1), of "(False, 0)"]
      stored_nodata_exposure [OF e(2) c(2) t(2) n(2), of "(False, 1)"]
      stored_nodata_exposure [OF e(3) c(3) t(3) n(3), of "(False, 1)"]
    unfolding w b v z by (simp add: numeral_3_eq_3)
qed

end
